theory Spec2Isabelle
  imports Main "HOL-Library.Word" "HOL-Library.Sublist"
begin

section \<open>The ledger contract (contracts/BatchTracker.sol)\<close>

text \<open>
  The source holds two variants of the contract. The one modelled is the first, which
  stores an IPFS hash with every batch and has \<open>updateMetadata\<close>; it is the one the
  client calls (\<open>createBatch(metadataHash)\<close>). The second is the same contract without the
  hash.

  Solidity's \<open>uint256\<close> and \<open>address\<close> are machine words. The contract is compiled with
  Solidity 0.8, whose arithmetic is checked: an overflowing \<open>++\<close> or an underflowing
  \<open>-\<close> aborts the call with \<open>Panic(0x11)\<close>. The model writes these checks out. An
  array is a list; its length is read as a \<open>uint256\<close>.
\<close>

type_synonym uint256 = "256 word"
type_synonym address = "160 word"

record Batch =
  batchId :: uint256
  ownerHistory :: "address list"
  exists :: bool
  createdAt :: uint256
  lastTransferAt :: uint256
  ipfsHash :: string

text \<open>
  The contract's storage. A Solidity mapping is total: a key that was never written
  reads as the zero value of its type.
\<close>

record BatchTracker =
  batches :: "uint256 \<Rightarrow> Batch"
  batchExists :: "uint256 \<Rightarrow> bool"
  nextBatchId :: uint256

datatype event =
    BatchCreated uint256 address uint256 string
  | BatchTransferred uint256 address address uint256
  | MetadataUpdated uint256 string string uint256

text \<open>What a call sees of its transaction: \<open>msg.sender\<close> and \<open>block.timestamp\<close>.\<close>

record call_context =
  msg_sender :: address
  block_timestamp :: uint256

text \<open>
  A call ends by returning, by a failed \<open>require\<close> (a revert with the reason string),
  or by a panic with its code (\<open>0x11\<close> arithmetic overflow or underflow). A call that
  does not return leaves the storage as it was.
\<close>

datatype error = Revert string | Panic nat

definition zeroBatch :: Batch where
  "zeroBatch = \<lparr>batchId = 0, ownerHistory = [], exists = False, createdAt = 0,
     lastTransferAt = 0, ipfsHash = []\<rparr>"

text \<open>The constructor: fresh storage with \<open>nextBatchId = 1\<close>.\<close>

definition constructor :: BatchTracker where
  "constructor = \<lparr>batches = (\<lambda>_. zeroBatch), batchExists = (\<lambda>_. False), nextBatchId = 1\<rparr>"

subsection \<open>Modifiers\<close>

definition batchMustExist :: "BatchTracker \<Rightarrow> uint256 \<Rightarrow> error + unit" where
  "batchMustExist s bid =
     (if batchExists s bid then Inr () else Inl (Revert ''Batch does not exist''))"

text \<open>
  \<open>ownerHistory[ownerHistory.length - 1]\<close>: the subtraction is checked, so an empty
  history panics before the array is read.
\<close>

definition lastOwner :: "address list \<Rightarrow> error + address" where
  "lastOwner h = (if length h = 0 then Inl (Panic 0x11) else Inr (h ! (length h - 1)))"

definition onlyCurrentOwner :: "call_context \<Rightarrow> BatchTracker \<Rightarrow> uint256 \<Rightarrow> error + unit" where
  "onlyCurrentOwner c s bid =
     (if \<not> batchExists s bid then Inl (Revert ''Batch does not exist'')
      else case lastOwner (ownerHistory (batches s bid)) of
             Inl e \<Rightarrow> Inl e
           | Inr owner \<Rightarrow>
               if owner = msg_sender c then Inr ()
               else Inl (Revert ''Only current owner can modify batch''))"

subsection \<open>Read accessors\<close>

definition getCurrentOwner :: "BatchTracker \<Rightarrow> uint256 \<Rightarrow> error + address" where
  "getCurrentOwner s bid =
     (case batchMustExist s bid of
        Inl e \<Rightarrow> Inl e
      | Inr _ \<Rightarrow> lastOwner (ownerHistory (batches s bid)))"

definition getOwnerHistory :: "BatchTracker \<Rightarrow> uint256 \<Rightarrow> error + address list" where
  "getOwnerHistory s bid =
     (case batchMustExist s bid of
        Inl e \<Rightarrow> Inl e
      | Inr _ \<Rightarrow> Inr (ownerHistory (batches s bid)))"

text \<open>The array's length is read as a \<open>uint256\<close>.\<close>

definition getBatchInfo ::
  "BatchTracker \<Rightarrow> uint256 \<Rightarrow> error + (uint256 \<times> address \<times> uint256 \<times> uint256 \<times> uint256 \<times> string)"
where
  "getBatchInfo s bid =
     (case batchMustExist s bid of
        Inl e \<Rightarrow> Inl e
      | Inr _ \<Rightarrow>
          (let batch = batches s bid in
           case lastOwner (ownerHistory batch) of
             Inl e \<Rightarrow> Inl e
           | Inr owner \<Rightarrow>
               Inr (batchId batch, owner, of_nat (length (ownerHistory batch)),
                    createdAt batch, lastTransferAt batch, ipfsHash batch)))"

definition getTotalBatches :: "BatchTracker \<Rightarrow> error + uint256" where
  "getTotalBatches s =
     (if nextBatchId s = 0 then Inl (Panic 0x11) else Inr (nextBatchId s - 1))"

definition getOwnerCount :: "BatchTracker \<Rightarrow> uint256 \<Rightarrow> error + uint256" where
  "getOwnerCount s bid =
     (case batchMustExist s bid of
        Inl e \<Rightarrow> Inl e
      | Inr _ \<Rightarrow> Inr (of_nat (length (ownerHistory (batches s bid)))))"

text \<open>The linear scan of \<open>wasOwner\<close>, front to back, returning at the first hit.\<close>

fun scanHistory :: "address list \<Rightarrow> address \<Rightarrow> bool" where
  "scanHistory [] a = False"
| "scanHistory (x # xs) a = (if x = a then True else scanHistory xs a)"

definition wasOwner :: "BatchTracker \<Rightarrow> uint256 \<Rightarrow> address \<Rightarrow> error + bool" where
  "wasOwner s bid a =
     (case batchMustExist s bid of
        Inl e \<Rightarrow> Inl e
      | Inr _ \<Rightarrow> Inr (scanHistory (ownerHistory (batches s bid)) a))"

subsection \<open>State-changing operations\<close>

text \<open>
  Each returns its result, the events it emitted and the new storage, or the error that
  aborted it. \<open>nextBatchId++\<close> is checked: at the largest \<open>uint256\<close> it panics.
\<close>

definition createBatch ::
  "call_context \<Rightarrow> string \<Rightarrow> BatchTracker \<Rightarrow> error + (uint256 \<times> event list \<times> BatchTracker)"
where
  "createBatch c h s =
     (let bid = nextBatchId s in
      if bid = - 1 then Inl (Panic 0x11)
      else
        let b = batches s bid;
            b' = b\<lparr>batchId := bid,
                   ownerHistory := ownerHistory b @ [msg_sender c],
                   exists := True,
                   createdAt := block_timestamp c,
                   lastTransferAt := block_timestamp c,
                   ipfsHash := h\<rparr>
        in Inr (bid,
                [BatchCreated bid (msg_sender c) (block_timestamp c) h],
                s\<lparr>batches := (batches s)(bid := b'),
                  batchExists := (batchExists s)(bid := True),
                  nextBatchId := bid + 1\<rparr>))"

definition transferBatch ::
  "call_context \<Rightarrow> uint256 \<Rightarrow> address \<Rightarrow> BatchTracker \<Rightarrow> error + (event list \<times> BatchTracker)"
where
  "transferBatch c bid newOwner s =
     (case batchMustExist s bid of
        Inl e \<Rightarrow> Inl e
      | Inr _ \<Rightarrow>
     (case onlyCurrentOwner c s bid of
        Inl e \<Rightarrow> Inl e
      | Inr _ \<Rightarrow>
     if newOwner = 0 then Inl (Revert ''Cannot transfer to zero address'')
     else
     (case getCurrentOwner s bid of
        Inl e \<Rightarrow> Inl e
      | Inr cur \<Rightarrow>
     if newOwner = cur then Inl (Revert ''Cannot transfer to current owner'')
     else
     (case getCurrentOwner s bid of
        Inl e \<Rightarrow> Inl e
      | Inr currentOwner \<Rightarrow>
          (let b = batches s bid;
               b' = b\<lparr>ownerHistory := ownerHistory b @ [newOwner],
                      lastTransferAt := block_timestamp c\<rparr>
           in Inr ([BatchTransferred bid currentOwner newOwner (block_timestamp c)],
                   s\<lparr>batches := (batches s)(bid := b')\<rparr>))))))"

definition updateMetadata ::
  "call_context \<Rightarrow> uint256 \<Rightarrow> string \<Rightarrow> BatchTracker \<Rightarrow> error + (event list \<times> BatchTracker)"
where
  "updateMetadata c bid newHash s =
     (case batchMustExist s bid of
        Inl e \<Rightarrow> Inl e
      | Inr _ \<Rightarrow>
     (case onlyCurrentOwner c s bid of
        Inl e \<Rightarrow> Inl e
      | Inr _ \<Rightarrow>
          (let oldHash = ipfsHash (batches s bid);
               b' = (batches s bid)\<lparr>ipfsHash := newHash\<rparr>
           in Inr ([MetadataUpdated bid oldHash newHash (block_timestamp c)],
                   s\<lparr>batches := (batches s)(bid := b')\<rparr>))))"

subsection \<open>Transactions and histories\<close>

datatype call =
    CreateBatch string
  | TransferBatch uint256 address
  | UpdateMetadata uint256 string

type_synonym tx = "call_context \<times> call"

text \<open>The storage after a transaction; an aborted one changes nothing.\<close>

fun exec :: "tx \<Rightarrow> BatchTracker \<Rightarrow> BatchTracker" where
  "exec (c, CreateBatch h) s =
     (case createBatch c h s of Inl _ \<Rightarrow> s | Inr (_, _, s') \<Rightarrow> s')"
| "exec (c, TransferBatch bid newOwner) s =
     (case transferBatch c bid newOwner s of Inl _ \<Rightarrow> s | Inr (_, s') \<Rightarrow> s')"
| "exec (c, UpdateMetadata bid newHash) s =
     (case updateMetadata c bid newHash s of Inl _ \<Rightarrow> s | Inr (_, s') \<Rightarrow> s')"

fun run :: "tx list \<Rightarrow> BatchTracker \<Rightarrow> BatchTracker" where
  "run [] s = s"
| "run (t # ts) s = run ts (exec t s)"

text \<open>The ids returned by the successful \<open>createBatch\<close> calls of a history, in order.\<close>

fun returned :: "tx \<Rightarrow> BatchTracker \<Rightarrow> uint256 list" where
  "returned (c, CreateBatch h) s =
     (case createBatch c h s of Inl _ \<Rightarrow> [] | Inr (bid, _, _) \<Rightarrow> [bid])"
| "returned (c, TransferBatch bid newOwner) s = []"
| "returned (c, UpdateMetadata bid newHash) s = []"

fun created :: "tx list \<Rightarrow> BatchTracker \<Rightarrow> uint256 list" where
  "created [] s = []"
| "created (t # ts) s = returned t s @ created ts (exec t s)"

subsection \<open>The failure kinds of the specification\<close>

text \<open>
  The specification names failures by kind. The contract signals them by the reason
  string of the failed \<open>require\<close>; this is the reading of one as the other.
\<close>

datatype failure = NotFound | Unauthorized | InvalidArgument

fun failure_kind :: "error \<Rightarrow> failure option" where
  "failure_kind (Revert m) =
     (if m = ''Batch does not exist'' then Some NotFound
      else if m = ''Only current owner can modify batch'' then Some Unauthorized
      else if m = ''Cannot transfer to zero address'' then Some InvalidArgument
      else if m = ''Cannot transfer to current owner'' then Some InvalidArgument
      else None)"
| "failure_kind (Panic _) = None"

definition fails_with :: "error + 'a \<Rightarrow> failure \<Rightarrow> bool" where
  "fails_with r k = (case r of Inl e \<Rightarrow> failure_kind e = Some k | Inr _ \<Rightarrow> False)"

text \<open>
  The ownership property of one batch: its history can be read, is not empty, and ends
  with the address that \<open>getCurrentOwner\<close> returns.
\<close>

definition owner_ok :: "BatchTracker \<Rightarrow> uint256 \<Rightarrow> bool" where
  "owner_ok s bid =
     (case getOwnerHistory s bid of
        Inl _ \<Rightarrow> False
      | Inr h \<Rightarrow> h \<noteq> [] \<and> getCurrentOwner s bid = Inr (last h))"

text \<open>
  What holds of the storage after any history: the counter never returns to zero, the
  batches that exist are exactly those below it, storage that was never written still
  holds zero values, and every batch that exists has an owner.
\<close>

definition wf :: "BatchTracker \<Rightarrow> bool" where
  "wf s \<longleftrightarrow>
     nextBatchId s \<noteq> 0 \<and>
     (\<forall>i. batchExists s i \<longleftrightarrow> i \<noteq> 0 \<and> i < nextBatchId s) \<and>
     (\<forall>i. \<not> batchExists s i \<longrightarrow> batches s i = zeroBatch) \<and>
     (\<forall>i. batchExists s i \<longrightarrow> ownerHistory (batches s i) \<noteq> [])"

subsection \<open>Sample data\<close>

definition alice :: address where "alice = 0xA11CE"
definition bob :: address where "bob = 0xB0B"

definition sent :: "address \<Rightarrow> uint256 \<Rightarrow> call_context" where
  "sent a t = \<lparr>msg_sender = a, block_timestamp = t\<rparr>"

text \<open>Alice creates batch 1 and hands it to Bob, who then creates batch 2.\<close>

definition sample_history :: "tx list" where
  "sample_history =
     [(sent alice 100, CreateBatch ''QmA''),
      (sent alice 200, TransferBatch 1 bob),
      (sent bob 300, CreateBatch [])]"

definition sample_state :: BatchTracker where
  "sample_state = run sample_history constructor"

section \<open>The client access layer (app/lib/contract.ts, app/lib/pinata.ts, app/lib/metadata-storage.ts)\<close>

text \<open>
  The client is sequential asynchronous code: every \<open>await\<close> is a call to something
  outside the program (the wallet's provider, the pinning service, its gateway, the
  browser's storage). The model gives each outside party a fixed table of replies, keeps
  the contract's storage and the browser's side index in a \<open>world\<close>, and records every
  outside call in the world's trace, in the order the calls are made. A thrown error is
  the \<open>Inl\<close> of a result.
\<close>

subsection \<open>Errors\<close>

text \<open>
  The fields of a thrown object that the code reads: \<open>code\<close>, \<open>message\<close>, \<open>reason\<close>,
  \<open>error.message\<close> and \<open>error.reason\<close>. Everything thrown here is an \<open>Error\<close>.
\<close>

record js_error =
  err_code :: "string option"
  err_message :: "string option"
  err_reason :: "string option"
  inner_message :: "string option"
  inner_reason :: "string option"

definition new_Error :: "string \<Rightarrow> js_error" where
  "new_Error m = \<lparr>err_code = None, err_message = Some m, err_reason = None,
     inner_message = None, inner_reason = None\<rparr>"

text \<open>A string in a boolean position: \<open>undefined\<close> and the empty string are falsy.\<close>

definition truthy :: "string option \<Rightarrow> bool" where
  "truthy v = (case v of None \<Rightarrow> False | Some s \<Rightarrow> s \<noteq> [])"

text \<open>A value inside a template literal: \<open>undefined\<close> prints as that word.\<close>

definition template :: "string option \<Rightarrow> string" where
  "template v = (case v of None \<Rightarrow> ''undefined'' | Some s \<Rightarrow> s)"

text \<open>\<open>v?.includes(p)\<close>\<close>

definition includes_str :: "string option \<Rightarrow> string \<Rightarrow> bool" where
  "includes_str v p = (case v of None \<Rightarrow> False | Some s \<Rightarrow> sublist p s)"

text \<open>
  The regular expression \<open>reverted with reason string '([^']+)'\<close>: at the leftmost place
  where the fixed text stands, followed by one or more characters other than a quote and
  then a quote, the characters between.
\<close>

fun match_reason :: "string \<Rightarrow> string option" where
  "match_reason [] = None"
| "match_reason (c # cs) =
     (let p = ''reverted with reason string '' @ [CHR 0x27];
          rest = drop (length p) (c # cs);
          r = takeWhile (\<lambda>x. x \<noteq> CHR 0x27) rest
      in if prefix p (c # cs) \<and> r \<noteq> [] \<and> length r < length rest then Some r
         else match_reason cs)"

definition extractRevertReason :: "js_error \<Rightarrow> string option" where
  "extractRevertReason e =
     (if truthy (err_reason e) then err_reason e
      else if truthy (inner_reason e) then inner_reason e
      else if truthy (err_message e) then match_reason (the (err_message e))
      else None)"

definition enhanceError :: "js_error \<Rightarrow> js_error" where
  "enhanceError e =
     (if err_code e = Some ''UNKNOWN_ERROR'' \<and> truthy (inner_message e)
        then new_Error (''Transaction failed: '' @ template (inner_message e))
      else if err_code e = Some ''INSUFFICIENT_FUNDS''
        then new_Error ''Insufficient funds to complete transaction. Please check your account balance.''
      else if err_code e = Some ''NETWORK_ERROR''
        then new_Error ''Network connection error. Please check your connection and try again.''
      else if err_code e = Some ''USER_REJECTED''
        then new_Error ''Transaction was rejected by user.''
      else if includes_str (err_message e) ''invalid chainId'' \<or> includes_str (err_message e) ''chainId''
        then new_Error ''ChainId mismatch. Please ensure MetaMask is connected to Hardhat network (chainId 31337). Go to MetaMask > Settings > Networks and verify the chainId is 31337.''
      else if includes_str (err_message e) ''unrecognized selector'' \<or>
              includes_str (err_message e) ''function selector''
        then new_Error ''Contract function not found. This may indicate an ABI mismatch or the contract was not deployed correctly. Please check the contract deployment.''
      else if includes_str (err_message e) ''execution reverted''
        then new_Error (''Contract execution failed: '' @
               (if truthy (extractRevertReason e) then the (extractRevertReason e)
                else ''Unknown reason''))
      else if includes_str (err_message e) ''Internal JSON-RPC error''
        then new_Error ''Blockchain network error. Please check: 1) MetaMask is connected to the correct network (chainId 31337), 2) Your local blockchain is running, 3) The contract is deployed at the correct address.''
      else if err_code e = Some ''CALL_EXCEPTION''
        then new_Error (''Contract call failed: '' @
               template (if truthy (err_reason e) then err_reason e else err_message e) @
               ''. The contract may not be deployed or the function parameters are invalid.'')
      else if includes_str (err_message e) ''missing method'' \<or>
              includes_str (err_message e) ''is not a function''
        then new_Error ''Contract method not found. This indicates an ABI mismatch with the deployed contract.''
      else if err_code e = Some ''TIMEOUT''
        then new_Error ''Transaction timeout. The network may be congested or your local blockchain may not be responding.''
      else e)"

subsection \<open>Documents\<close>

text \<open>
  A parsed JSON value. A number is kept as an integer: the code passes numbers through
  and looks only at their truthiness.
\<close>

datatype json =
    JNull
  | JBool bool
  | JNum int
  | JStr string
  | JArr "json list"
  | JObj "(string \<times> json) list"

fun truthy_json :: "json \<Rightarrow> bool" where
  "truthy_json JNull = False"
| "truthy_json (JBool b) = b"
| "truthy_json (JNum n) = (n \<noteq> 0)"
| "truthy_json (JStr s) = (s \<noteq> [])"
| "truthy_json (JArr _) = True"
| "truthy_json (JObj _) = True"

text \<open>\<open>typeof v === 'object'\<close>\<close>

fun typeof_object :: "json \<Rightarrow> bool" where
  "typeof_object JNull = True"
| "typeof_object (JArr _) = True"
| "typeof_object (JObj _) = True"
| "typeof_object _ = False"

text \<open>
  \<open>v.name\<close> and \<open>v.description\<close>: a member of an object (the last one of that name),
  nothing on any other value.
\<close>

fun member :: "json \<Rightarrow> string \<Rightarrow> json option" where
  "member (JObj kvs) k = map_of (rev kvs) k"
| "member _ k = None"

definition truthy_member :: "json \<Rightarrow> string \<Rightarrow> bool" where
  "truthy_member v k = (case member v k of None \<Rightarrow> False | Some x \<Rightarrow> truthy_json x)"

datatype trait_value = TraitString string | TraitNumber int

record BatchProperties =
  origin :: "string option"
  quality_grade :: "string option"
  harvest_date :: "string option"
  expiry_date :: "string option"
  weight :: "string option"
  location :: "string option"
  certifications :: "string list option"

text \<open>
  The interface \<open>BatchMetadata\<close> of pinata.ts. An optional field that is \<open>None\<close> is
  \<open>undefined\<close>, which \<open>JSON.stringify\<close> leaves out of the document.
\<close>

record BatchMetadata =
  md_name :: string
  md_description :: string
  md_image :: "string option"
  md_attributes :: "(string \<times> trait_value) list option"
  md_batch_properties :: "BatchProperties option"
  md_external_url :: "string option"
  md_created_at :: string
  md_version :: string

record File =
  file_name :: string
  file_bytes :: string

record BatchFormData =
  form_name :: string
  form_description :: string
  form_origin :: "string option"
  form_quality_grade :: "string option"
  form_harvest_date :: "string option"
  form_expiry_date :: "string option"
  form_weight :: "string option"
  form_location :: "string option"
  form_certifications :: "string list option"
  form_image :: "File option"
  form_external_url :: "string option"
  form_attributes :: "(string \<times> trait_value) list option"

record PinataUploadResult =
  IpfsHash :: string
  PinSize :: nat
  Timestamp :: string

text \<open>
  The \<open>metadata?: any\<close> field of a \<open>BatchInfo\<close>: never assigned, assigned \<open>null\<close>, or
  assigned a document.
\<close>

datatype metadata_value = Undefined | Null | Document json

record BatchInfo =
  info_batchId :: nat
  info_currentOwner :: string
  info_ownerCount :: nat
  info_createdAt :: nat
  info_lastTransferAt :: nat
  info_ipfsHash :: "string option"
  info_metadata :: metadata_value

subsection \<open>The outside world\<close>

text \<open>The outside calls the client makes, as the trace records them.\<close>

datatype action =
    GetNetwork
  | PinFile File
  | PinJSON BatchMetadata
  | GatewayGet string
  | SendCreateBatch string
  | WaitReceipt
  | CallGetBatchInfo nat
  | CallGetTotalBatches
  | CallGetCurrentOwner nat

text \<open>
  The outcome of a \<open>fetch\<close>: it threw (or reading the body threw), it answered with a
  status that is not ok (the status and the body's text), or it answered ok with a body.
\<close>

datatype 'a http_reply = Threw js_error | NotOk nat string | Ok200 'a

text \<open>
  The deployment descriptor that \<open>getContractConfig\<close> of config/contracts.ts returns
  (address and ABI). The function looks the chain id up in a table of two networks and
  reads the address from deployments/localhost.json or deployments/hardhat.json; it throws
  for any other chain id and for a deployment file without the address. The two files are
  not among the sources, so what the function returns for a chain id is a parameter.
\<close>

record contract_config =
  config_address :: string
  config_abi :: "string list"

text \<open>
  The replies of the outside parties, and the values of the environment:
  \<^item> \<open>net_reply\<close>: \<open>provider.getNetwork()\<close>, as the chain id or the error thrown;
  \<^item> \<open>getContractConfig\<close>: the descriptor, or the error thrown, for a chain id;
  \<^item> \<open>rpc_fault\<close>: a contract call or a wait that fails before it reaches the contract
    (the wallet refuses, the transport fails), by request;
  \<^item> \<open>revert_error\<close>: the error object the ethers library throws for a call that the
    contract aborts;
  \<^item> \<open>checksum\<close>: the string the ethers library decodes an address into;
  \<^item> \<open>to_number\<close>: \<open>Number(v)\<close> of a decoded \<open>uint256\<close>, a whole number (the nearest
    double: the value itself below \<open>2^53\<close>);
  \<^item> \<open>signer_address\<close>, \<open>block_time\<close>: the sender and the block time of a transaction
    the signer submits;
  \<^item> \<open>pin_file\<close>, \<open>pin_json\<close>, \<open>gateway\<close>: the pinning service and its gateway;
  \<^item> \<open>PINATA_GATEWAY\<close>: the configured gateway base; \<open>now_iso\<close>: the clock's
    \<open>toISOString()\<close>; \<open>toLowerCase\<close>: the string method of that name;
  \<^item> \<open>storage_fault\<close>: whether the browser's \<open>localStorage\<close> throws when used.
\<close>

record outside =
  net_reply :: "js_error + nat"
  getContractConfig :: "nat \<Rightarrow> js_error + contract_config"
  rpc_fault :: "action \<Rightarrow> js_error option"
  revert_error :: "error \<Rightarrow> js_error"
  checksum :: "address \<Rightarrow> string"
  to_number :: "uint256 \<Rightarrow> nat"
  signer_address :: address
  block_time :: uint256
  pin_file :: "File \<Rightarrow> PinataUploadResult http_reply"
  pin_json :: "BatchMetadata \<Rightarrow> PinataUploadResult http_reply"
  gateway :: "string \<Rightarrow> json http_reply"
  PINATA_GATEWAY :: string
  now_iso :: string
  toLowerCase :: "string \<Rightarrow> string"
  storage_fault :: bool

text \<open>
  What the client acts on: the deployed contract's storage, the item the browser keeps
  under \<open>grainchain_batch_metadata\<close> (only \<open>MetadataStorage\<close> writes it, as the JSON text
  of an object from batch id to hash; it is held here as that object, \<open>None\<close> when there
  is no item), and the trace of outside calls, oldest first.
\<close>

record world =
  chain :: BatchTracker
  stored_index :: "(nat \<rightharpoonup> string) option"
  trace :: "action list"

definition did :: "action \<Rightarrow> world \<Rightarrow> world" where
  "did a w = w\<lparr>trace := trace w @ [a]\<rparr>"

text \<open>The decimal digits of a number, as a template literal prints it.\<close>

fun show_nat :: "nat \<Rightarrow> string" where
  "show_nat n =
     (if n < 10 then [''0123456789'' ! n]
      else show_nat (n div 10) @ [''0123456789'' ! (n mod 10)])"

declare show_nat.simps [simp del]

subsection \<open>MetadataStorage (app/lib/metadata-storage.ts)\<close>

text \<open>
  Every method catches what \<open>localStorage\<close> throws. \<open>getAllBatchMetadata\<close> then returns
  the empty object; \<open>setBatchMetadata\<close> then stores nothing.
\<close>

definition getAllBatchMetadata :: "outside \<Rightarrow> world \<Rightarrow> (nat \<rightharpoonup> string)" where
  "getAllBatchMetadata out w =
     (if storage_fault out then Map.empty
      else case stored_index w of None \<Rightarrow> Map.empty | Some m \<Rightarrow> m)"

definition setBatchMetadata :: "outside \<Rightarrow> nat \<Rightarrow> string \<Rightarrow> world \<Rightarrow> world" where
  "setBatchMetadata out batchId' ipfsHash' w =
     (let existing = getAllBatchMetadata out w in
      if storage_fault out then w
      else w\<lparr>stored_index := Some (existing(batchId' \<mapsto> ipfsHash'))\<rparr>)"

subsection \<open>PinataService (app/lib/pinata.ts)\<close>

definition uploadJSON ::
  "outside \<Rightarrow> BatchMetadata \<Rightarrow> world \<Rightarrow> (js_error + PinataUploadResult) \<times> world"
where
  "uploadJSON out metadata w =
     ((case pin_json out metadata of
         Threw e \<Rightarrow>
           Inl (new_Error (''Failed to upload metadata to IPFS: '' @ template (err_message e)))
       | NotOk status errorData \<Rightarrow>
           Inl (new_Error (''Failed to upload metadata to IPFS: '' @
                  ''Pinata API error: '' @ show_nat status @ '' - '' @ errorData))
       | Ok200 result \<Rightarrow> Inr result),
      did (PinJSON metadata) w)"

definition uploadFile ::
  "outside \<Rightarrow> File \<Rightarrow> world \<Rightarrow> (js_error + PinataUploadResult) \<times> world"
where
  "uploadFile out file w =
     ((case pin_file out file of
         Threw e \<Rightarrow>
           Inl (new_Error (''Failed to upload file to IPFS: '' @ template (err_message e)))
       | NotOk status errorData \<Rightarrow>
           Inl (new_Error (''Failed to upload file to IPFS: '' @
                  ''Pinata API error: '' @ show_nat status @ '' - '' @ errorData))
       | Ok200 result \<Rightarrow> Inr result),
      did (PinFile file) w)"

definition getContent :: "outside \<Rightarrow> string \<Rightarrow> world \<Rightarrow> (js_error + json) \<times> world" where
  "getContent out hash w =
     ((case gateway out hash of
         Threw e \<Rightarrow>
           Inl (new_Error (''Failed to fetch content from IPFS: '' @ template (err_message e)))
       | NotOk status _ \<Rightarrow>
           Inl (new_Error (''Failed to fetch content from IPFS: '' @
                  ''Failed to fetch from IPFS: '' @ show_nat status))
       | Ok200 content \<Rightarrow> Inr content),
      did (GatewayGet hash) w)"

text \<open>
  \<open>getBatchMetadata\<close> wraps its whole body in a \<open>try\<close>: whatever \<open>getContent\<close> throws, it
  returns \<open>null\<close>, as it does for content that does not look like batch metadata.
\<close>

definition getBatchMetadata ::
  "outside \<Rightarrow> string \<Rightarrow> world \<Rightarrow> (js_error + metadata_value) \<times> world"
where
  "getBatchMetadata out hash w =
     (case getContent out hash w of
        (Inl e, w1) \<Rightarrow> (Inr Null, w1)
      | (Inr metadata, w1) \<Rightarrow>
          if truthy_json metadata \<and> typeof_object metadata \<and>
             truthy_member metadata ''name'' \<and> truthy_member metadata ''description''
          then (Inr (Document metadata), w1)
          else (Inr Null, w1))"

definition no_properties :: BatchProperties where
  "no_properties = \<lparr>origin = None, quality_grade = None, harvest_date = None,
     expiry_date = None, weight = None, location = None, certifications = None\<rparr>"

text \<open>The document it builds has no \<open>external_url\<close>: no parameter carries one.\<close>

definition createBatchMetadata ::
  "outside \<Rightarrow> string \<Rightarrow> string \<Rightarrow> string option \<Rightarrow> BatchProperties option \<Rightarrow>
   (string \<times> trait_value) list option \<Rightarrow> BatchMetadata"
where
  "createBatchMetadata out name description imageHash properties attributes =
     (let metadata =
        \<lparr>md_name = name,
         md_description = description,
         md_image = None,
         md_attributes = Some (case attributes of None \<Rightarrow> [] | Some a \<Rightarrow> a),
         md_batch_properties = Some (case properties of None \<Rightarrow> no_properties | Some p \<Rightarrow> p),
         md_external_url = None,
         md_created_at = now_iso out,
         md_version = ''1.0''\<rparr>
      in if truthy imageHash
         then metadata\<lparr>md_image := Some (PINATA_GATEWAY out @ ''/ipfs/'' @ the imageHash)\<rparr>
         else metadata)"

text \<open>
  The image first, when there is one; then the document, which names the image; then the
  document's upload. An error of either upload is logged and thrown on as it is. The
  result is \<open>(metadataHash, imageHash, metadata)\<close>.
\<close>

definition uploadBatchWithAssets ::
  "outside \<Rightarrow> string \<Rightarrow> string \<Rightarrow> File option \<Rightarrow> BatchProperties option \<Rightarrow>
   (string \<times> trait_value) list option \<Rightarrow> world \<Rightarrow>
   (js_error + (string \<times> string option \<times> BatchMetadata)) \<times> world"
where
  "uploadBatchWithAssets out name description image' properties attributes w =
     (case (case image' of
              None \<Rightarrow> (Inr None, w)
            | Some file \<Rightarrow>
                (case uploadFile out file w of
                   (Inl e, w1) \<Rightarrow> (Inl e, w1)
                 | (Inr imageResult, w1) \<Rightarrow> (Inr (Some (IpfsHash imageResult)), w1))) of
        (Inl e, w1) \<Rightarrow> (Inl e, w1)
      | (Inr imageHash, w1) \<Rightarrow>
          (let metadata = createBatchMetadata out name description imageHash properties attributes in
           case uploadJSON out metadata w1 of
             (Inl e, w2) \<Rightarrow> (Inl e, w2)
           | (Inr metadataResult, w2) \<Rightarrow>
               (Inr (IpfsHash metadataResult, imageHash, metadata), w2)))"

subsection \<open>The contract through the provider (app/lib/contract.ts)\<close>

definition getNetwork :: "outside \<Rightarrow> world \<Rightarrow> (js_error + nat) \<times> world" where
  "getNetwork out w = (net_reply out, did GetNetwork w)"

text \<open>
  \<open>getBatchTrackerContract(signerOrProvider, chainId?)\<close>: with a truthy \<open>chainId\<close> the
  configuration's error is thrown as it is; without, the default network 31337 is
  tried and any error replaced.
\<close>

definition getBatchTrackerContract :: "outside \<Rightarrow> nat option \<Rightarrow> js_error + contract_config" where
  "getBatchTrackerContract out chainId =
     (if (case chainId of None \<Rightarrow> False | Some c \<Rightarrow> c \<noteq> 0)
      then getContractConfig out (the chainId)
      else case getContractConfig out 31337 of
             Inl _ \<Rightarrow> Inl (new_Error ''Unable to create contract instance. Please ensure the contract is deployed and chainId is correct.'')
           | Inr contracts \<Rightarrow> Inr contracts)"

text \<open>
  A JavaScript number as a \<open>uint256\<close> argument: the ethers library takes whole numbers
  up to \<open>2^53 - 1\<close> and throws on any other before anything is sent.
\<close>

definition unsafe_number :: js_error where
  "unsafe_number = \<lparr>err_code = Some ''INVALID_ARGUMENT'', err_message = Some ''overflow'',
     err_reason = None, inner_message = None, inner_reason = None\<rparr>"

definition encode_uint :: "nat \<Rightarrow> js_error + uint256" where
  "encode_uint n = (if n < 2 ^ 53 then Inr (of_nat n) else Inl unsafe_number)"

text \<open>
  A read of the configured contract: the request fails on its way, or the contract at
  the configured address (the deployed \<open>BatchTracker\<close>, with the ABI of its source)
  answers from its storage.
\<close>

definition eth_call ::
  "outside \<Rightarrow> action \<Rightarrow> (BatchTracker \<Rightarrow> error + 'a) \<Rightarrow> world \<Rightarrow> (js_error + 'a) \<times> world"
where
  "eth_call out a f w =
     ((case rpc_fault out a of
         Some e \<Rightarrow> Inl e
       | None \<Rightarrow> (case f (chain w) of Inl e \<Rightarrow> Inl (revert_error out e) | Inr v \<Rightarrow> Inr v)),
      did a w)"

definition contract_getBatchInfo ::
  "outside \<Rightarrow> nat \<Rightarrow> world \<Rightarrow>
   (js_error + (uint256 \<times> address \<times> uint256 \<times> uint256 \<times> uint256 \<times> string)) \<times> world"
where
  "contract_getBatchInfo out n w =
     (case encode_uint n of
        Inl e \<Rightarrow> (Inl e, w)
      | Inr bid \<Rightarrow> eth_call out (CallGetBatchInfo n) (\<lambda>s. getBatchInfo s bid) w)"

definition contract_getCurrentOwner ::
  "outside \<Rightarrow> nat \<Rightarrow> world \<Rightarrow> (js_error + string) \<times> world"
where
  "contract_getCurrentOwner out n w =
     (case encode_uint n of
        Inl e \<Rightarrow> (Inl e, w)
      | Inr bid \<Rightarrow>
          (case eth_call out (CallGetCurrentOwner n) (\<lambda>s. getCurrentOwner s bid) w of
             (Inl e, w1) \<Rightarrow> (Inl e, w1)
           | (Inr a, w1) \<Rightarrow> (Inr (checksum out a), w1)))"

definition contract_getTotalBatches :: "outside \<Rightarrow> world \<Rightarrow> (js_error + uint256) \<times> world" where
  "contract_getTotalBatches out w = eth_call out CallGetTotalBatches getTotalBatches w"

text \<open>\<open>getBatchInfo(provider, batchId)\<close>; \<open>result[5] || undefined\<close> drops an empty hash.\<close>

definition getBatchInfo_client ::
  "outside \<Rightarrow> nat \<Rightarrow> world \<Rightarrow> (js_error + BatchInfo) \<times> world"
where
  "getBatchInfo_client out batchId' w =
     (case getNetwork out w of
        (Inl e, w1) \<Rightarrow> (Inl e, w1)
      | (Inr chainId, w1) \<Rightarrow>
     (case getBatchTrackerContract out (Some chainId) of
        Inl e \<Rightarrow> (Inl e, w1)
      | Inr contract \<Rightarrow>
     (case contract_getBatchInfo out batchId' w1 of
        (Inl e, w2) \<Rightarrow> (Inl e, w2)
      | (Inr (r0, r1, r2, r3, r4, r5), w2) \<Rightarrow>
          (Inr \<lparr>info_batchId = to_number out r0,
                info_currentOwner = checksum out r1,
                info_ownerCount = to_number out r2,
                info_createdAt = to_number out r3,
                info_lastTransferAt = to_number out r4,
                info_ipfsHash = (if r5 \<noteq> [] then Some r5 else None),
                info_metadata = Undefined\<rparr>, w2))))"

text \<open>
  \<open>getBatchInfoWithMetadata\<close>: an error of the on-chain read is thrown on; an error of
  the metadata read is caught and logged, and the record returned as it is.
\<close>

definition getBatchInfoWithMetadata ::
  "outside \<Rightarrow> nat \<Rightarrow> world \<Rightarrow> (js_error + BatchInfo) \<times> world"
where
  "getBatchInfoWithMetadata out batchId' w =
     (case getBatchInfo_client out batchId' w of
        (Inl e, w1) \<Rightarrow> (Inl e, w1)
      | (Inr batchInfo, w1) \<Rightarrow>
          if truthy (info_ipfsHash batchInfo) then
            (case getBatchMetadata out (the (info_ipfsHash batchInfo)) w1 of
               (Inl e, w2) \<Rightarrow> (Inr batchInfo, w2)
             | (Inr metadata, w2) \<Rightarrow> (Inr (batchInfo\<lparr>info_metadata := metadata\<rparr>), w2))
          else (Inr batchInfo, w1))"

definition getTotalBatches_client :: "outside \<Rightarrow> world \<Rightarrow> (js_error + nat) \<times> world" where
  "getTotalBatches_client out w =
     (case getNetwork out w of
        (Inl e, w1) \<Rightarrow> (Inl e, w1)
      | (Inr chainId, w1) \<Rightarrow>
     (case getBatchTrackerContract out (Some chainId) of
        Inl e \<Rightarrow> (Inl e, w1)
      | Inr contract \<Rightarrow>
     (case contract_getTotalBatches out w1 of
        (Inl e, w2) \<Rightarrow> (Inl e, w2)
      | (Inr result, w2) \<Rightarrow> (Inr (to_number out result), w2))))"

text \<open>
  The loop of \<open>getUserOwnedBatches\<close>, \<open>for (let i = 1; i <= totalBatches; i++)\<close>: whatever
  is thrown inside one round is caught, and the round skipped. The counter is exact
  below \<open>2^53\<close>.
\<close>

function ownedLoop ::
  "outside \<Rightarrow> string \<Rightarrow> nat \<Rightarrow> nat \<Rightarrow> BatchInfo list \<Rightarrow> world \<Rightarrow> BatchInfo list \<times> world"
where
  "ownedLoop out userAddress i totalBatches ownedBatches w =
     (if i \<le> totalBatches then
        (case contract_getCurrentOwner out i w of
           (Inl e, w1) \<Rightarrow> ownedLoop out userAddress (i + 1) totalBatches ownedBatches w1
         | (Inr currentOwner, w1) \<Rightarrow>
             if toLowerCase out currentOwner = toLowerCase out userAddress then
               (case getBatchInfo_client out i w1 of
                  (Inl e, w2) \<Rightarrow> ownedLoop out userAddress (i + 1) totalBatches ownedBatches w2
                | (Inr batchInfo, w2) \<Rightarrow>
                    ownedLoop out userAddress (i + 1) totalBatches (ownedBatches @ [batchInfo]) w2)
             else ownedLoop out userAddress (i + 1) totalBatches ownedBatches w1)
      else (ownedBatches, w))"
  by pat_completeness auto
termination
  by (relation "measure (\<lambda>(out, userAddress, i, totalBatches, ownedBatches, w). Suc totalBatches - i)")
     auto

declare ownedLoop.simps [simp del]

definition getUserOwnedBatches ::
  "outside \<Rightarrow> string \<Rightarrow> world \<Rightarrow> (js_error + BatchInfo list) \<times> world"
where
  "getUserOwnedBatches out userAddress w =
     (case getNetwork out w of
        (Inl e, w1) \<Rightarrow> (Inl e, w1)
      | (Inr chainId, w1) \<Rightarrow>
     (case getBatchTrackerContract out (Some chainId) of
        Inl e \<Rightarrow> (Inl e, w1)
      | Inr contract \<Rightarrow>
     (case getTotalBatches_client out w1 of
        (Inl e, w2) \<Rightarrow> (Inl e, w2)
      | (Inr totalBatches, w2) \<Rightarrow>
          (case ownedLoop out userAddress 1 totalBatches [] w2 of
             (ownedBatches, w3) \<Rightarrow> (Inr ownedBatches, w3)))))"

text \<open>
  A call that passes one argument more than the function declares: JavaScript drops the
  surplus argument.
\<close>

definition surplus_argument :: "'r \<Rightarrow> 'x \<Rightarrow> 'r" where
  "surplus_argument call extra = call"

text \<open>The first log of the receipt that parses as a \<open>BatchCreated\<close> event.\<close>

fun isBatchCreated :: "event \<Rightarrow> bool" where
  "isBatchCreated (BatchCreated _ _ _ _) = True"
| "isBatchCreated _ = False"

fun event_batchId :: "event \<Rightarrow> uint256" where
  "event_batchId (BatchCreated bid _ _ _) = bid"
| "event_batchId (BatchTransferred bid _ _ _) = bid"
| "event_batchId (MetadataUpdated bid _ _ _) = bid"

text \<open>
  The transaction \<open>contract.createBatch(metadataHash)\<close> and \<open>tx.wait()\<close>: the request can
  fail before it reaches the contract; the contract can abort it; once it is mined the
  storage has changed, also when waiting for the receipt then fails. The result is the
  receipt's logs.
\<close>

definition send_createBatch ::
  "outside \<Rightarrow> string \<Rightarrow> world \<Rightarrow> (js_error + event list) \<times> world"
where
  "send_createBatch out metadataHash w =
     (let w1 = did (SendCreateBatch metadataHash) w in
      case rpc_fault out (SendCreateBatch metadataHash) of
        Some e \<Rightarrow> (Inl e, w1)
      | None \<Rightarrow>
          (case createBatch \<lparr>msg_sender = signer_address out, block_timestamp = block_time out\<rparr>
                  metadataHash (chain w1) of
             Inl e \<Rightarrow> (Inl (revert_error out e), w1)
           | Inr (bid, logs, s') \<Rightarrow>
               (let w2 = did WaitReceipt (w1\<lparr>chain := s'\<rparr>) in
                case rpc_fault out WaitReceipt of
                  Some e \<Rightarrow> (Inl e, w2)
                | None \<Rightarrow> (Inr logs, w2))))"

text \<open>
  \<open>createBatchWithMetadata(signer, formData)\<close>. The call of \<open>uploadBatchWithAssets\<close>
  passes \<open>formData.external_url\<close> as a sixth argument to a function of five parameters.
  Every error is thrown on through \<open>enhanceError\<close>.
\<close>

definition createBatchWithMetadata_body ::
  "outside \<Rightarrow> BatchFormData \<Rightarrow> world \<Rightarrow> (js_error + nat) \<times> world"
where
  "createBatchWithMetadata_body out formData w =
     (case getNetwork out w of
        (Inl e, w1) \<Rightarrow> (Inl e, w1)
      | (Inr chainId, w1) \<Rightarrow>
     (let batchProperties =
        \<lparr>origin = form_origin formData,
         quality_grade = form_quality_grade formData,
         harvest_date = form_harvest_date formData,
         expiry_date = form_expiry_date formData,
         weight = form_weight formData,
         location = form_location formData,
         certifications = form_certifications formData\<rparr>
      in
     (case surplus_argument
             (uploadBatchWithAssets out (form_name formData) (form_description formData)
                (form_image formData) (Some batchProperties) (form_attributes formData))
             (form_external_url formData) w1 of
        (Inl e, w2) \<Rightarrow> (Inl e, w2)
      | (Inr (metadataHash, _, _), w2) \<Rightarrow>
     (case getBatchTrackerContract out (Some chainId) of
        Inl e \<Rightarrow> (Inl e, w2)
      | Inr contract \<Rightarrow>
     (case send_createBatch out metadataHash w2 of
        (Inl e, w3) \<Rightarrow> (Inl e, w3)
      | (Inr logs, w3) \<Rightarrow>
          (case find isBatchCreated logs of
             Some event \<Rightarrow>
               (let batchId' = to_number out (event_batchId event)
                in (Inr batchId', setBatchMetadata out batchId' metadataHash w3))
           | None \<Rightarrow>
               (Inl (new_Error ''BatchCreated event not found in transaction receipt''), w3)))))))"

definition createBatchWithMetadata ::
  "outside \<Rightarrow> BatchFormData \<Rightarrow> world \<Rightarrow> (js_error + nat) \<times> world"
where
  "createBatchWithMetadata out formData w =
     (case createBatchWithMetadata_body out formData w of
        (Inl e, w') \<Rightarrow> (Inl (enhanceError e), w')
      | (Inr batchId', w') \<Rightarrow> (Inr batchId', w'))"

subsection \<open>Reading a trace\<close>

text \<open>The outside calls made between an earlier world and a later one.\<close>

definition performed :: "world \<Rightarrow> world \<Rightarrow> action list" where
  "performed w w' = drop (length (trace w)) (trace w')"

text \<open>The uploads to the metadata store.\<close>

fun is_upload :: "action \<Rightarrow> bool" where
  "is_upload (PinFile _) = True"
| "is_upload (PinJSON _) = True"
| "is_upload _ = False"

text \<open>
  The calls to the contract. \<open>GetNetwork\<close> is not one: it asks the provider which chain
  it is connected to and reaches no contract.
\<close>

fun is_contract_call :: "action \<Rightarrow> bool" where
  "is_contract_call (SendCreateBatch _) = True"
| "is_contract_call WaitReceipt = True"
| "is_contract_call (CallGetBatchInfo _) = True"
| "is_contract_call CallGetTotalBatches = True"
| "is_contract_call (CallGetCurrentOwner _) = True"
| "is_contract_call _ = False"

text \<open>No upload is made once a contract call has been made.\<close>

definition uploads_first :: "action list \<Rightarrow> bool" where
  "uploads_first as = (filter is_upload (dropWhile (\<lambda>a. \<not> is_contract_call a) as) = [])"

text \<open>An upload that the pinning service did not answer with an ok reply.\<close>

fun is_ok :: "'a http_reply \<Rightarrow> bool" where
  "is_ok (Ok200 _) = True"
| "is_ok _ = False"

fun upload_failed :: "outside \<Rightarrow> action \<Rightarrow> bool" where
  "upload_failed out (PinFile f) = (\<not> is_ok (pin_file out f))"
| "upload_failed out (PinJSON d) = (\<not> is_ok (pin_json out d))"
| "upload_failed out _ = False"

text \<open>The documents uploaded in a trace, in order.\<close>

fun uploaded_documents :: "action list \<Rightarrow> BatchMetadata list" where
  "uploaded_documents [] = []"
| "uploaded_documents (PinJSON doc # as) = doc # uploaded_documents as"
| "uploaded_documents (_ # as) = uploaded_documents as"

fun is_owner_query :: "action \<Rightarrow> bool" where
  "is_owner_query (CallGetCurrentOwner _) = True"
| "is_owner_query _ = False"

text \<open>
  The uploads that \<open>uploadBatchWithAssets\<close> makes, given the service's replies: the
  image, if there is one, and then the document, unless the image's upload failed.
\<close>

definition upload_actions ::
  "outside \<Rightarrow> string \<Rightarrow> string \<Rightarrow> File option \<Rightarrow> BatchProperties option \<Rightarrow>
   (string \<times> trait_value) list option \<Rightarrow> action list"
where
  "upload_actions out name description image' properties attributes =
     (case image' of
        None \<Rightarrow> [PinJSON (createBatchMetadata out name description None properties attributes)]
      | Some file \<Rightarrow>
          (case pin_file out file of
             Ok200 u \<Rightarrow>
               [PinFile file,
                PinJSON (createBatchMetadata out name description (Some (IpfsHash u))
                           properties attributes)]
           | _ \<Rightarrow> [PinFile file]))"

text \<open>
  What one round of the loop of \<open>getUserOwnedBatches\<close> adds for the id \<open>i\<close>: nothing
  when either call throws or the owner is another, else the batch's record.
\<close>

definition owned_round :: "outside \<Rightarrow> string \<Rightarrow> world \<Rightarrow> nat \<Rightarrow> BatchInfo list" where
  "owned_round out userAddress w i =
     (case fst (contract_getCurrentOwner out i w) of
        Inl e \<Rightarrow> []
      | Inr currentOwner \<Rightarrow>
          if toLowerCase out currentOwner = toLowerCase out userAddress then
            (case fst (getBatchInfo_client out i w) of
               Inl e \<Rightarrow> []
             | Inr batchInfo \<Rightarrow> [batchInfo])
          else [])"

text \<open>The record of batch \<open>i\<close> as the client decodes it from the contract's storage.\<close>

definition batch_record :: "outside \<Rightarrow> BatchTracker \<Rightarrow> nat \<Rightarrow> BatchInfo" where
  "batch_record out s i =
     (let b = batches s (of_nat i) in
      \<lparr>info_batchId = to_number out (batchId b),
       info_currentOwner = checksum out (last (ownerHistory b)),
       info_ownerCount = to_number out (of_nat (length (ownerHistory b))),
       info_createdAt = to_number out (createdAt b),
       info_lastTransferAt = to_number out (lastTransferAt b),
       info_ipfsHash = (if ipfsHash b \<noteq> [] then Some (ipfsHash b) else None),
       info_metadata = Undefined\<rparr>)"

text \<open>The owner of batch \<open>i\<close> is the user, up to the case of letters.\<close>

definition owner_matches :: "outside \<Rightarrow> BatchTracker \<Rightarrow> string \<Rightarrow> nat \<Rightarrow> bool" where
  "owner_matches out s userAddress i =
     (toLowerCase out (checksum out (last (ownerHistory (batches s (of_nat i))))) =
      toLowerCase out userAddress)"

subsection \<open>Sample surroundings\<close>

definition ascii_lower :: "char \<Rightarrow> char" where
  "ascii_lower c =
     (case map_of (zip ''ABCDEFGHIJKLMNOPQRSTUVWXYZ'' ''abcdefghijklmnopqrstuvwxyz'') c of
        None \<Rightarrow> c
      | Some l \<Rightarrow> l)"

text \<open>
  A provider on the local development chain that answers every request, a pinning
  service that accepts every upload, a gateway that is down, and a working storage.
\<close>

definition sample_outside :: outside where
  "sample_outside =
     \<lparr>net_reply = Inr 31337,
      getContractConfig = (\<lambda>c. if c = 31337
         then Inr \<lparr>config_address = ''0x5FbDB2315678afecb367f032d93F642f64180aa3'', config_abi = []\<rparr>
         else Inl (new_Error ''Unsupported network'')),
      rpc_fault = (\<lambda>_. None),
      revert_error = (\<lambda>e. \<lparr>err_code = Some ''CALL_EXCEPTION'',
         err_message = Some ''execution reverted'',
         err_reason = (case e of Revert m \<Rightarrow> Some m | Panic _ \<Rightarrow> None),
         inner_message = None, inner_reason = None\<rparr>),
      checksum = (\<lambda>a. if a = alice then ''0xA11cE'' else if a = bob then ''0xB0b'' else ''0x0''),
      to_number = unat,
      signer_address = alice,
      block_time = 400,
      pin_file = (\<lambda>_. Ok200 \<lparr>IpfsHash = ''QmImage'', PinSize = 3, Timestamp = ''t1''\<rparr>),
      pin_json = (\<lambda>_. Ok200 \<lparr>IpfsHash = ''QmDoc'', PinSize = 9, Timestamp = ''t2''\<rparr>),
      gateway = (\<lambda>_. Threw (new_Error ''Failed to fetch'')),
      PINATA_GATEWAY = ''https://gateway.pinata.cloud'',
      now_iso = ''2024-01-01T00:00:00.000Z'',
      toLowerCase = map ascii_lower,
      storage_fault = False\<rparr>"

definition sample_world :: world where
  "sample_world = \<lparr>chain = sample_state, stored_index = None, trace = []\<rparr>"

definition sample_form :: BatchFormData where
  "sample_form =
     \<lparr>form_name = ''Wheat'', form_description = ''Lot 7'',
      form_origin = Some ''Punjab'', form_quality_grade = None, form_harvest_date = None,
      form_expiry_date = None, form_weight = None, form_location = None,
      form_certifications = None,
      form_image = Some \<lparr>file_name = ''lot7.png'', file_bytes = ''PNG''\<rparr>,
      form_external_url = Some ''https://example.org/lot7'',
      form_attributes = None\<rparr>"

section \<open>Properties of the ledger contract\<close>

lemma lastOwner_last: "h \<noteq> [] \<Longrightarrow> lastOwner h = Inr (last h)"
  by (simp add: lastOwner_def last_conv_nth)

lemma lastOwner_Nil: "lastOwner [] = Inl (Panic 0x11)"
  by (simp add: lastOwner_def)

lemma scanHistory_set: "scanHistory h a \<longleftrightarrow> a \<in> set h"
  by (induction h) auto

lemma owner_ok_iff:
  "owner_ok s bid \<longleftrightarrow> batchExists s bid \<and> ownerHistory (batches s bid) \<noteq> []"
  by (auto simp: owner_ok_def getOwnerHistory_def getCurrentOwner_def batchMustExist_def
      lastOwner_last)

lemma createBatch_Inr:
  "createBatch c h s = Inr (bid, evs, s') \<longleftrightarrow>
     nextBatchId s \<noteq> - 1 \<and> bid = nextBatchId s \<and>
     evs = [BatchCreated bid (msg_sender c) (block_timestamp c) h] \<and>
     s' = s\<lparr>batches := (batches s)(bid := (batches s bid)\<lparr>batchId := bid,
                   ownerHistory := ownerHistory (batches s bid) @ [msg_sender c],
                   exists := True,
                   createdAt := block_timestamp c,
                   lastTransferAt := block_timestamp c,
                   ipfsHash := h\<rparr>),
            batchExists := (batchExists s)(bid := True),
            nextBatchId := bid + 1\<rparr>"
  by (auto simp: createBatch_def Let_def)

lemma transferBatch_Inr:
  "transferBatch c bid n s = Inr (evs, s') \<longleftrightarrow>
     batchExists s bid \<and> ownerHistory (batches s bid) \<noteq> [] \<and>
     last (ownerHistory (batches s bid)) = msg_sender c \<and> n \<noteq> 0 \<and> n \<noteq> msg_sender c \<and>
     evs = [BatchTransferred bid (msg_sender c) n (block_timestamp c)] \<and>
     s' = s\<lparr>batches := (batches s)(bid := (batches s bid)\<lparr>
                   ownerHistory := ownerHistory (batches s bid) @ [n],
                   lastTransferAt := block_timestamp c\<rparr>)\<rparr>"
  by (cases "ownerHistory (batches s bid) = []")
     (auto simp: transferBatch_def batchMustExist_def onlyCurrentOwner_def getCurrentOwner_def
        lastOwner_last lastOwner_Nil Let_def)

lemma updateMetadata_Inr:
  "updateMetadata c bid h s = Inr (evs, s') \<longleftrightarrow>
     batchExists s bid \<and> ownerHistory (batches s bid) \<noteq> [] \<and>
     last (ownerHistory (batches s bid)) = msg_sender c \<and>
     evs = [MetadataUpdated bid (ipfsHash (batches s bid)) h (block_timestamp c)] \<and>
     s' = s\<lparr>batches := (batches s)(bid := (batches s bid)\<lparr>ipfsHash := h\<rparr>)\<rparr>"
  by (cases "ownerHistory (batches s bid) = []")
     (auto simp: updateMetadata_def batchMustExist_def onlyCurrentOwner_def
        lastOwner_last lastOwner_Nil Let_def)

text \<open>What one transaction can do to one batch.\<close>

lemma exec_cases:
  obtains (same) "exec t s = s"
  | (create) c h bid evs s' where "t = (c, CreateBatch h)"
      "createBatch c h s = Inr (bid, evs, s')" "exec t s = s'"
  | (transfer) c bid n evs s' where "t = (c, TransferBatch bid n)"
      "transferBatch c bid n s = Inr (evs, s')" "exec t s = s'"
  | (update) c bid h evs s' where "t = (c, UpdateMetadata bid h)"
      "updateMetadata c bid h s = Inr (evs, s')" "exec t s = s'"
proof (cases t)
  case (Pair c k)
  show ?thesis
  proof (cases k)
    case (CreateBatch h)
    with Pair same create show ?thesis
      by (cases "createBatch c h s") auto
  next
    case (TransferBatch bid n)
    with Pair same transfer show ?thesis
      by (cases "transferBatch c bid n s") auto
  next
    case (UpdateMetadata bid h)
    with Pair same update show ?thesis
      by (cases "updateMetadata c bid h s") auto
  qed
qed

lemma exec_batchExists: "batchExists s bid \<Longrightarrow> batchExists (exec t s) bid"
  by (cases t s rule: exec_cases)
     (auto simp: createBatch_Inr transferBatch_Inr updateMetadata_Inr)

lemma exec_history_nonempty:
  assumes "\<forall>i. batchExists s i \<longrightarrow> ownerHistory (batches s i) \<noteq> []"
  shows "batchExists (exec t s) bid \<longrightarrow> ownerHistory (batches (exec t s) bid) \<noteq> []"
  using assms
  by (cases t s rule: exec_cases)
     (auto simp: createBatch_Inr transferBatch_Inr updateMetadata_Inr)

lemma exec_history_grows:
  "a \<in> set (ownerHistory (batches s bid)) \<Longrightarrow> a \<in> set (ownerHistory (batches (exec t s) bid))"
  by (cases t s rule: exec_cases)
     (auto simp: createBatch_Inr transferBatch_Inr updateMetadata_Inr)

lemma run_batchExists: "batchExists s bid \<Longrightarrow> batchExists (run ts s) bid"
  by (induction ts arbitrary: s) (auto simp: exec_batchExists)

lemma run_history_grows:
  "a \<in> set (ownerHistory (batches s bid)) \<Longrightarrow> a \<in> set (ownerHistory (batches (run ts s) bid))"
  by (induction ts arbitrary: s) (auto simp: exec_history_grows)

lemma run_history_nonempty:
  "\<forall>i. batchExists s i \<longrightarrow> ownerHistory (batches s i) \<noteq> [] \<Longrightarrow>
   \<forall>i. batchExists (run ts s) i \<longrightarrow> ownerHistory (batches (run ts s) i) \<noteq> []"
proof (induction ts arbitrary: s)
  case Nil
  then show ?case by simp
next
  case (Cons t ts)
  have "\<forall>i. batchExists (exec t s) i \<longrightarrow> ownerHistory (batches (exec t s) i) \<noteq> []"
    using exec_history_nonempty [OF Cons.prems] by blast
  from Cons.IH [OF this] show ?case by simp
qed

text \<open>
  Claim C1. Start from any storage in which every batch that exists satisfies the
  ownership property (the constructor's storage does: no batch exists there). After any
  sequence of \<open>createBatch\<close>, \<open>transferBatch\<close> and \<open>updateMetadata\<close> calls, successful
  or not, a batch that existed still exists, and every batch that exists has a history
  that \<open>getOwnerHistory\<close> returns, that is not empty, and whose last element is what
  \<open>getCurrentOwner\<close> returns.
\<close>

theorem ownership_invariant:
  assumes "\<forall>i. batchExists s i \<longrightarrow> owner_ok s i"
  shows "(batchExists s bid \<longrightarrow> batchExists (run txs s) bid) \<and>
         (batchExists (run txs s) bid \<longrightarrow> owner_ok (run txs s) bid)"
proof -
  from assms have "\<forall>i. batchExists s i \<longrightarrow> ownerHistory (batches s i) \<noteq> []"
    by (simp add: owner_ok_iff)
  then have "\<forall>i. batchExists (run txs s) i \<longrightarrow> ownerHistory (batches (run txs s) i) \<noteq> []"
    by (rule run_history_nonempty)
  then show ?thesis
    by (simp add: owner_ok_iff run_batchExists)
qed

lemma unat_succ: "(x :: uint256) \<noteq> - 1 \<Longrightarrow> unat (x + 1) = Suc (unat x)"
  by (metis add.commute add_eq_0_iff2 unatSuc)

lemma succ_nonzero: "(x :: uint256) \<noteq> - 1 \<Longrightarrow> x + 1 \<noteq> 0"
  by (metis add_eq_0_iff2)

lemma less_succ_iff:
  "(x :: uint256) \<noteq> - 1 \<Longrightarrow> i < x + 1 \<longleftrightarrow> i < x \<or> i = x"
  by (auto simp: word_less_nat_alt unat_succ less_Suc_eq word_unat_eq_iff)

lemma wf_constructor: "wf constructor"
  by (auto simp: wf_def constructor_def word_less_nat_alt unat_gt_0)

lemma wf_createBatch:
  assumes "wf s" "createBatch c h s = Inr (bid, evs, s')"
  shows "wf s'"
  using assms
  by (auto simp: wf_def createBatch_Inr succ_nonzero less_succ_iff)

lemma wf_exec: "wf s \<Longrightarrow> wf (exec t s)"
proof (cases t s rule: exec_cases)
  case same
  assume "wf s" with same show ?thesis by simp
next
  case (create c h bid evs s')
  assume "wf s" with create show ?thesis by (simp add: wf_createBatch)
next
  case (transfer c bid n evs s')
  assume "wf s" with transfer show ?thesis
    by (auto simp: wf_def transferBatch_Inr)
next
  case (update c bid h evs s')
  assume "wf s" with update show ?thesis
    by (auto simp: wf_def updateMetadata_Inr)
qed

lemma wf_run: "wf s \<Longrightarrow> wf (run ts s)"
  by (induction ts arbitrary: s) (auto simp: wf_exec)

lemma unat_bound: "unat (x :: uint256) < 2 ^ 256"
  using unsigned_less [of x] by simp

lemma of_nat_unat_bound: "k < 2 ^ 256 \<Longrightarrow> unat (of_nat k :: uint256) = k"
  by (simp add: unat_of_nat)

lemma next_transfer: "nextBatchId (exec (c, TransferBatch bid n) s) = nextBatchId s"
  by (cases "transferBatch c bid n s") (auto simp: transferBatch_Inr)

lemma next_update: "nextBatchId (exec (c, UpdateMetadata bid h) s) = nextBatchId s"
  by (cases "updateMetadata c bid h s") (auto simp: updateMetadata_Inr)

lemma returned_exec:
  "returned t s = map of_nat [unat (nextBatchId s) ..< unat (nextBatchId (exec t s))]"
proof (cases t)
  case (Pair c k)
  show ?thesis
  proof (cases k)
    case (CreateBatch h)
    show ?thesis
    proof (cases "createBatch c h s")
      case (Inl e)
      with Pair CreateBatch show ?thesis by simp
    next
      case (Inr r)
      obtain bid evs s' where r: "r = (bid, evs, s')" by (cases r)
      from Inr r have "nextBatchId s \<noteq> - 1" "bid = nextBatchId s" "nextBatchId s' = nextBatchId s + 1"
        by (auto simp: createBatch_Inr)
      with Pair CreateBatch Inr r show ?thesis
        by (simp add: unat_succ upt_rec)
    qed
  next
    case (TransferBatch bid n)
    with Pair show ?thesis by (simp only: next_transfer returned.simps) simp
  next
    case (UpdateMetadata bid h)
    with Pair show ?thesis by (simp only: next_update returned.simps) simp
  qed
qed

lemma exec_counter_mono: "unat (nextBatchId s) \<le> unat (nextBatchId (exec t s))"
  by (cases t s rule: exec_cases)
     (auto simp: createBatch_Inr transferBatch_Inr updateMetadata_Inr unat_succ)

lemma run_counter_mono: "unat (nextBatchId s) \<le> unat (nextBatchId (run ts s))"
proof (induction ts arbitrary: s)
  case Nil
  show ?case by simp
next
  case (Cons t ts)
  from exec_counter_mono [of s t] Cons.IH [of "exec t s"] show ?case by simp
qed

lemma created_run:
  "created ts s = map of_nat [unat (nextBatchId s) ..< unat (nextBatchId (run ts s))]"
proof (induction ts arbitrary: s)
  case Nil
  show ?case by simp
next
  case (Cons t ts)
  have "[unat (nextBatchId s) ..< unat (nextBatchId (run ts (exec t s)))] =
        [unat (nextBatchId s) ..< unat (nextBatchId (exec t s))] @
        [unat (nextBatchId (exec t s)) ..< unat (nextBatchId (run ts (exec t s)))]"
    using exec_counter_mono [of s t] run_counter_mono [of "exec t s" ts]
    by (metis le_Suc_ex upt_add_eq_append)
  then show ?case
    by (simp add: returned_exec Cons.IH)
qed

lemma length_created:
  "unat (nextBatchId (run ts s)) = unat (nextBatchId s) + length (created ts s)"
  using run_counter_mono [of s ts] by (simp add: created_run)

lemma distinct_created: "distinct (created ts s)"
proof -
  have "inj_on (of_nat :: nat \<Rightarrow> uint256) (set [unat (nextBatchId s) ..< unat (nextBatchId (run ts s))])"
  proof (rule inj_onI)
    fix x y
    assume "x \<in> set [unat (nextBatchId s) ..< unat (nextBatchId (run ts s))]"
      and "y \<in> set [unat (nextBatchId s) ..< unat (nextBatchId (run ts s))]"
      and eq: "(of_nat x :: uint256) = of_nat y"
    then have "x < 2 ^ 256" "y < 2 ^ 256"
      using unat_bound [of "nextBatchId (run ts s)"] by auto
    with eq show "x = y"
      by (metis of_nat_unat_bound)
  qed
  then show ?thesis
    by (simp add: created_run distinct_map)
qed

lemma wf_exists_unat:
  "wf s \<Longrightarrow> batchExists s i \<longleftrightarrow> 0 < unat i \<and> unat i < unat (nextBatchId s)"
  by (simp add: wf_def word_less_nat_alt unat_gt_0)

lemma wf_next_pos: "wf s \<Longrightarrow> 0 < unat (nextBatchId s)"
  by (simp add: wf_def unat_gt_0)

lemma set_created:
  assumes "wf s"
  shows "i \<in> set (created ts s) \<longleftrightarrow> batchExists (run ts s) i \<and> \<not> batchExists s i"
proof -
  have w: "wf (run ts s)" using assms by (rule wf_run)
  have le: "unat (nextBatchId s) \<le> unat (nextBatchId (run ts s))" by (rule run_counter_mono)
  have "i \<in> set (created ts s) \<longleftrightarrow> unat (nextBatchId s) \<le> unat i \<and> unat i < unat (nextBatchId (run ts s))"
  proof
    assume "i \<in> set (created ts s)"
    then obtain k where k: "i = of_nat k" "unat (nextBatchId s) \<le> k" "k < unat (nextBatchId (run ts s))"
      by (auto simp: created_run)
    then have "k < 2 ^ 256"
      using unat_bound [of "nextBatchId (run ts s)"] by simp
    then have "unat i = k" using k by (simp add: of_nat_unat_bound)
    with k show "unat (nextBatchId s) \<le> unat i \<and> unat i < unat (nextBatchId (run ts s))" by simp
  next
    assume "unat (nextBatchId s) \<le> unat i \<and> unat i < unat (nextBatchId (run ts s))"
    then have "unat i \<in> set [unat (nextBatchId s) ..< unat (nextBatchId (run ts s))]" by simp
    then have "of_nat (unat i) \<in> set (created ts s)"
      unfolding created_run set_map by (rule imageI)
    then show "i \<in> set (created ts s)" by simp
  qed
  also have "\<dots> \<longleftrightarrow> batchExists (run ts s) i \<and> \<not> batchExists s i"
    using wf_next_pos [OF assms] le
    by (simp only: wf_exists_unat [OF assms] wf_exists_unat [OF w]) linarith
  finally show ?thesis .
qed

lemmas contract_defs =
  constructor_def zeroBatch_def batchMustExist_def lastOwner_def onlyCurrentOwner_def
  getCurrentOwner_def getOwnerHistory_def getBatchInfo_def getTotalBatches_def
  getOwnerCount_def wasOwner_def createBatch_def transferBatch_def updateMetadata_def
  owner_ok_def fails_with_def Let_def

lemmas sample_defs = sample_state_def sample_history_def sent_def alice_def bob_def

lemma sample_state_eq:
  "sample_state =
     \<lparr>batches = (\<lambda>_. zeroBatch)
        (1 := \<lparr>batchId = 1, ownerHistory = [alice, bob], exists = True, createdAt = 100,
                lastTransferAt = 200, ipfsHash = ''QmA''\<rparr>,
         2 := \<lparr>batchId = 2, ownerHistory = [bob], exists = True, createdAt = 300,
                lastTransferAt = 300, ipfsHash = []\<rparr>),
      batchExists = (\<lambda>_. False)(1 := True, 2 := True),
      nextBatchId = 3\<rparr>"
  by (simp add: sample_defs contract_defs)


theorem ownership_invariant_witness:
  "batchExists (run sample_history constructor) 1 \<and>
   owner_ok (run sample_history constructor) 1 \<and>
   getOwnerHistory (run sample_history constructor) 1 = Inr [alice, bob] \<and>
   getCurrentOwner (run sample_history constructor) 1 = Inr bob"
proof -
  have h: "\<forall>i. batchExists constructor i \<longrightarrow> owner_ok constructor i"
    by (simp add: constructor_def)
  have e: "batchExists (run sample_history constructor) 1"
    using sample_state_eq by (simp add: sample_state_def)
  from ownership_invariant [OF h, of 1 sample_history] e
  have "owner_ok (run sample_history constructor) 1" by simp
  moreover have "getOwnerHistory (run sample_history constructor) 1 = Inr [alice, bob]"
    "getCurrentOwner (run sample_history constructor) 1 = Inr bob"
    using sample_state_eq by (simp_all add: sample_state_def contract_defs)
  ultimately show ?thesis using e by simp
qed

lemma run_reachable_fresh:
  "\<not> batchExists (run txs constructor) (nextBatchId (run txs constructor)) \<and>
   batches (run txs constructor) (nextBatchId (run txs constructor)) = zeroBatch"
proof -
  have "wf (run txs constructor)" by (simp add: wf_run wf_constructor)
  then show ?thesis by (simp add: wf_def)
qed

lemma run_counter:
  "nextBatchId (run txs constructor) = of_nat (Suc (length (created txs constructor))) \<and>
   unat (nextBatchId (run txs constructor)) = Suc (length (created txs constructor))"
proof -
  have u: "unat (nextBatchId (run txs constructor)) = Suc (length (created txs constructor))"
    using length_created [of txs constructor] by (simp add: constructor_def)
  have "nextBatchId (run txs constructor) = of_nat (unat (nextBatchId (run txs constructor)))"
    by simp
  with u show ?thesis by simp
qed

text \<open>
  Claim C2. After any history of calls on the deployed contract, a successful
  \<open>createBatch\<close> returns the next id in sequence (one more than the number of successful
  creates so far, so the first is 1), writes a record whose history is the caller alone,
  whose two timestamps are the block time, whose metadata reference is the argument and
  whose flag is set, marks the id as existing, and adds exactly one to the counter without
  wrapping. Hence \<open>getTotalBatches\<close> is the number of successful creates, and the ids
  they returned are \<open>1..N\<close> in order, with no repeats.
\<close>

theorem createBatch_sequential:
  "(createBatch c h (run txs constructor) = Inr (bid, evs, s') \<longrightarrow>
      bid = of_nat (Suc (length (created txs constructor))) \<and>
      batches s' bid =
        \<lparr>batchId = bid, ownerHistory = [msg_sender c], exists = True,
         createdAt = block_timestamp c, lastTransferAt = block_timestamp c, ipfsHash = h\<rparr> \<and>
      batchExists s' bid \<and>
      nextBatchId s' = nextBatchId (run txs constructor) + 1 \<and>
      unat (nextBatchId s') = Suc (unat (nextBatchId (run txs constructor))) \<and>
      getTotalBatches s' = Inr (of_nat (Suc (length (created txs constructor))))) \<and>
   getTotalBatches (run txs constructor) = Inr (of_nat (length (created txs constructor))) \<and>
   created txs constructor = map of_nat [1 ..< Suc (length (created txs constructor))] \<and>
   distinct (created txs constructor) \<and>
   Suc (length (created txs constructor)) < 2 ^ 256"
proof -
  let ?s = "run txs constructor"
  let ?N = "length (created txs constructor)"
  note cnt = run_counter [of txs]
  have bound: "Suc ?N < 2 ^ 256"
    using unat_bound [of "nextBatchId ?s"] by (simp only: cnt [THEN conjunct2])
  have ids: "created txs constructor = map of_nat [1 ..< Suc ?N]"
    using created_run [of txs constructor] cnt by (simp add: constructor_def)
  have total: "getTotalBatches ?s = Inr (of_nat ?N)"
  proof -
    have "nextBatchId ?s \<noteq> 0" using cnt by (metis nat.distinct(1) unat_0_iff)
    moreover have "nextBatchId ?s - 1 = of_nat ?N" using cnt by simp
    ultimately show ?thesis by (simp add: getTotalBatches_def)
  qed
  have create: "bid = of_nat (Suc ?N) \<and>
      batches s' bid =
        \<lparr>batchId = bid, ownerHistory = [msg_sender c], exists = True,
         createdAt = block_timestamp c, lastTransferAt = block_timestamp c, ipfsHash = h\<rparr> \<and>
      batchExists s' bid \<and>
      nextBatchId s' = nextBatchId ?s + 1 \<and>
      unat (nextBatchId s') = Suc (unat (nextBatchId ?s)) \<and>
      getTotalBatches s' = Inr (of_nat (Suc ?N))"
    if ok: "createBatch c h ?s = Inr (bid, evs, s')"
  proof -
    from ok have nm: "nextBatchId ?s \<noteq> - 1" and b: "bid = nextBatchId ?s"
      and nx: "nextBatchId s' = nextBatchId ?s + 1"
      and ex: "batchExists s' bid"
      and bt: "batches s' bid = (batches ?s bid)\<lparr>batchId := bid,
                   ownerHistory := ownerHistory (batches ?s bid) @ [msg_sender c],
                   exists := True,
                   createdAt := block_timestamp c,
                   lastTransferAt := block_timestamp c,
                   ipfsHash := h\<rparr>"
      by (auto simp: createBatch_Inr)
    have z: "batches ?s bid = zeroBatch"
      using run_reachable_fresh [of txs] b by simp
    have rec: "batches s' bid =
        \<lparr>batchId = bid, ownerHistory = [msg_sender c], exists = True,
         createdAt = block_timestamp c, lastTransferAt = block_timestamp c, ipfsHash = h\<rparr>"
      unfolding bt z by (simp add: zeroBatch_def)
    have u: "unat (nextBatchId s') = Suc (unat (nextBatchId ?s))"
      unfolding nx using nm by (rule unat_succ)
    have "nextBatchId s' \<noteq> 0" unfolding nx using nm by (rule succ_nonzero)
    moreover have "nextBatchId s' - 1 = of_nat (Suc ?N)" unfolding nx using cnt by simp
    ultimately have "getTotalBatches s' = Inr (of_nat (Suc ?N))"
      by (simp add: getTotalBatches_def)
    with b cnt rec ex nx u show ?thesis by simp
  qed
  from create total ids bound show ?thesis
    using distinct_created [of txs constructor] by blast
qed

theorem createBatch_sequential_witness:
  "createBatch (sent alice 400) ''QmB'' (run sample_history constructor)
     = Inr (3, [BatchCreated 3 alice 400 ''QmB''],
            snd (snd (projr (createBatch (sent alice 400) ''QmB'' (run sample_history constructor))))) \<and>
   created sample_history constructor = [1, 2] \<and>
   getTotalBatches (run sample_history constructor) = Inr 2 \<and>
   batches (snd (snd (projr (createBatch (sent alice 400) ''QmB'' (run sample_history constructor))))) 3 =
     \<lparr>batchId = 3, ownerHistory = [alice], exists = True,
      createdAt = 400, lastTransferAt = 400, ipfsHash = ''QmB''\<rparr> \<and>
   getTotalBatches (snd (snd (projr (createBatch (sent alice 400) ''QmB'' (run sample_history constructor))))) = Inr 3"
proof -
  let ?r = "createBatch (sent alice 400) ''QmB'' (run sample_history constructor)"
  have ok: "?r = Inr (3, [BatchCreated 3 alice 400 ''QmB''], snd (snd (projr ?r)))"
    using sample_state_eq by (simp add: sample_state_def createBatch_def Let_def sent_def)
  have len: "length (created sample_history constructor) = 2"
    by (simp add: sample_defs contract_defs)
  from createBatch_sequential [of "sent alice 400" "''QmB''" sample_history 3
      "[BatchCreated 3 alice 400 ''QmB'']" "snd (snd (projr ?r))"] ok len
  show ?thesis by (simp add: sent_def upt_rec)
qed

lemma run_owner_last:
  "batchExists (run txs constructor) bid \<Longrightarrow>
   getCurrentOwner (run txs constructor) bid =
     Inr (last (ownerHistory (batches (run txs constructor) bid)))"
proof -
  assume e: "batchExists (run txs constructor) bid"
  have "wf (run txs constructor)" by (simp add: wf_run wf_constructor)
  with e have "ownerHistory (batches (run txs constructor) bid) \<noteq> []"
    by (simp add: wf_def)
  with e show ?thesis
    by (simp add: getCurrentOwner_def batchMustExist_def lastOwner_last)
qed

lemma transferBatch_unfold:
  assumes "batchExists s bid" "ownerHistory (batches s bid) \<noteq> []"
  shows "transferBatch c bid n s =
     (if last (ownerHistory (batches s bid)) \<noteq> msg_sender c
        then Inl (Revert ''Only current owner can modify batch'')
      else if n = 0 then Inl (Revert ''Cannot transfer to zero address'')
      else if n = last (ownerHistory (batches s bid))
        then Inl (Revert ''Cannot transfer to current owner'')
      else Inr ([BatchTransferred bid (last (ownerHistory (batches s bid))) n (block_timestamp c)],
                s\<lparr>batches := (batches s)(bid := (batches s bid)\<lparr>
                     ownerHistory := ownerHistory (batches s bid) @ [n],
                     lastTransferAt := block_timestamp c\<rparr>)\<rparr>))"
  using assms
  by (simp add: transferBatch_def batchMustExist_def onlyCurrentOwner_def getCurrentOwner_def
      lastOwner_last Let_def)

text \<open>
  Claim C3. On the storage reached by any history, \<open>transferBatch\<close> checks in this
  order, the first violation deciding the error: the batch exists (else \<open>NotFound\<close>),
  the caller is the current owner (else \<open>Unauthorized\<close>), the new owner is not the zero
  address (else \<open>InvalidArgument\<close>), the new owner is not the current owner (else
  \<open>InvalidArgument\<close>). When all four hold the call succeeds, and when it fails the
  storage is what it was before.
\<close>

theorem transferBatch_preconditions:
  assumes "s = run txs constructor"
  shows
    "(\<not> batchExists s bid \<longrightarrow>
        transferBatch c bid n s = Inl (Revert ''Batch does not exist'') \<and>
        fails_with (transferBatch c bid n s) NotFound) \<and>
     (batchExists s bid \<and> getCurrentOwner s bid \<noteq> Inr (msg_sender c) \<longrightarrow>
        transferBatch c bid n s = Inl (Revert ''Only current owner can modify batch'') \<and>
        fails_with (transferBatch c bid n s) Unauthorized) \<and>
     (batchExists s bid \<and> getCurrentOwner s bid = Inr (msg_sender c) \<and> n = 0 \<longrightarrow>
        transferBatch c bid n s = Inl (Revert ''Cannot transfer to zero address'') \<and>
        fails_with (transferBatch c bid n s) InvalidArgument) \<and>
     (batchExists s bid \<and> getCurrentOwner s bid = Inr (msg_sender c) \<and> n \<noteq> 0 \<and>
      getCurrentOwner s bid = Inr n \<longrightarrow>
        transferBatch c bid n s = Inl (Revert ''Cannot transfer to current owner'') \<and>
        fails_with (transferBatch c bid n s) InvalidArgument) \<and>
     (batchExists s bid \<and> getCurrentOwner s bid = Inr (msg_sender c) \<and> n \<noteq> 0 \<and>
      getCurrentOwner s bid \<noteq> Inr n \<longrightarrow>
        (\<exists>r. transferBatch c bid n s = Inr r)) \<and>
     (\<forall>e. transferBatch c bid n s = Inl e \<longrightarrow> exec (c, TransferBatch bid n) s = s)"
proof -
  have absent: "transferBatch c bid n s = Inl (Revert ''Batch does not exist'')"
    if "\<not> batchExists s bid"
    using that by (simp add: transferBatch_def batchMustExist_def)
  have present: "getCurrentOwner s bid = Inr (last (ownerHistory (batches s bid))) \<and>
      transferBatch c bid n s =
     (if last (ownerHistory (batches s bid)) \<noteq> msg_sender c
        then Inl (Revert ''Only current owner can modify batch'')
      else if n = 0 then Inl (Revert ''Cannot transfer to zero address'')
      else if n = last (ownerHistory (batches s bid))
        then Inl (Revert ''Cannot transfer to current owner'')
      else Inr ([BatchTransferred bid (last (ownerHistory (batches s bid))) n (block_timestamp c)],
                s\<lparr>batches := (batches s)(bid := (batches s bid)\<lparr>
                     ownerHistory := ownerHistory (batches s bid) @ [n],
                     lastTransferAt := block_timestamp c\<rparr>)\<rparr>))"
    if e: "batchExists s bid"
  proof -
    have "wf s" unfolding assms by (simp add: wf_run wf_constructor)
    with e have ne: "ownerHistory (batches s bid) \<noteq> []" by (simp add: wf_def)
    from e ne show ?thesis
      by (simp add: transferBatch_unfold getCurrentOwner_def batchMustExist_def lastOwner_last)
  qed
  have c1: "\<not> batchExists s bid \<longrightarrow>
        transferBatch c bid n s = Inl (Revert ''Batch does not exist'') \<and>
        fails_with (transferBatch c bid n s) NotFound"
    using absent by (simp add: fails_with_def)
  have c2: "batchExists s bid \<and> getCurrentOwner s bid \<noteq> Inr (msg_sender c) \<longrightarrow>
        transferBatch c bid n s = Inl (Revert ''Only current owner can modify batch'') \<and>
        fails_with (transferBatch c bid n s) Unauthorized"
    using present by (auto simp: fails_with_def)
  have c3: "batchExists s bid \<and> getCurrentOwner s bid = Inr (msg_sender c) \<and> n = 0 \<longrightarrow>
        transferBatch c bid n s = Inl (Revert ''Cannot transfer to zero address'') \<and>
        fails_with (transferBatch c bid n s) InvalidArgument"
    using present by (auto simp: fails_with_def)
  have c4: "batchExists s bid \<and> getCurrentOwner s bid = Inr (msg_sender c) \<and> n \<noteq> 0 \<and>
      getCurrentOwner s bid = Inr n \<longrightarrow>
        transferBatch c bid n s = Inl (Revert ''Cannot transfer to current owner'') \<and>
        fails_with (transferBatch c bid n s) InvalidArgument"
    using present by (auto simp: fails_with_def)
  have c5: "batchExists s bid \<and> getCurrentOwner s bid = Inr (msg_sender c) \<and> n \<noteq> 0 \<and>
      getCurrentOwner s bid \<noteq> Inr n \<longrightarrow> (\<exists>r. transferBatch c bid n s = Inr r)"
    using present by auto
  have c6: "\<forall>e. transferBatch c bid n s = Inl e \<longrightarrow> exec (c, TransferBatch bid n) s = s"
    by simp
  from c1 c2 c3 c4 c5 c6 show ?thesis by blast
qed

lemma sample_run: "run sample_history constructor = sample_state"
  by (simp add: sample_state_def)

theorem transferBatch_preconditions_witness:
  "\<not> batchExists sample_state 7 \<and>
   fails_with (transferBatch (sent alice 500) 7 bob sample_state) NotFound \<and>
   getCurrentOwner sample_state 1 = Inr bob \<and>
   fails_with (transferBatch (sent alice 500) 1 alice sample_state) Unauthorized \<and>
   fails_with (transferBatch (sent bob 500) 1 0 sample_state) InvalidArgument \<and>
   transferBatch (sent bob 500) 1 bob sample_state = Inl (Revert ''Cannot transfer to current owner'') \<and>
   exec (sent bob 500, TransferBatch 1 bob) sample_state = sample_state \<and>
   (\<exists>r. transferBatch (sent bob 500) 1 alice sample_state = Inr r)"
proof -
  have s: "sample_state = run sample_history constructor" by (simp add: sample_state_def)
  have e7: "\<not> batchExists sample_state 7" and e1: "batchExists sample_state 1"
    and o1: "getCurrentOwner sample_state 1 = Inr bob"
    by (simp_all add: sample_state_eq getCurrentOwner_def batchMustExist_def lastOwner_def)
  have ab: "alice \<noteq> bob" "bob \<noteq> 0" "bob \<noteq> alice" "alice \<noteq> 0"
    by (simp_all add: alice_def bob_def)
  from transferBatch_preconditions [OF s, of 7 "sent alice 500" bob] e7
  have w1: "fails_with (transferBatch (sent alice 500) 7 bob sample_state) NotFound" by blast
  from transferBatch_preconditions [OF s, of 1 "sent alice 500" alice] e1 o1 ab
  have w2: "fails_with (transferBatch (sent alice 500) 1 alice sample_state) Unauthorized"
    by (simp add: sent_def fails_with_def)
  from transferBatch_preconditions [OF s, of 1 "sent bob 500" 0] e1 o1
  have w3: "fails_with (transferBatch (sent bob 500) 1 0 sample_state) InvalidArgument"
    by (simp add: sent_def fails_with_def)
  from transferBatch_preconditions [OF s, of 1 "sent bob 500" bob] e1 o1 ab
  have w4: "transferBatch (sent bob 500) 1 bob sample_state = Inl (Revert ''Cannot transfer to current owner'')"
    and w5: "exec (sent bob 500, TransferBatch 1 bob) sample_state = sample_state"
    by (simp_all add: sent_def)
  from transferBatch_preconditions [OF s, of 1 "sent bob 500" alice] e1 o1 ab
  have w6: "\<exists>r. transferBatch (sent bob 500) 1 alice sample_state = Inr r"
    by (simp add: sent_def)
  from e7 w1 o1 w2 w3 w4 w5 w6 show ?thesis by blast
qed

text \<open>
  Claim C4. After a successful \<open>transferBatch(id, X)\<close> the current owner is \<open>X\<close>, the
  history is the old one with \<open>X\<close> appended, so the owner count is one more,
  \<open>lastTransferAt\<close> is the block time, and \<open>wasOwner(id, X)\<close> is true and stays true after
  any later sequence of calls.
\<close>

theorem transferBatch_effect:
  assumes "transferBatch c bid X s = Inr (evs, s')"
  shows "getCurrentOwner s' bid = Inr X \<and>
         getOwnerHistory s' bid = Inr (ownerHistory (batches s bid) @ [X]) \<and>
         (\<exists>k. getOwnerCount s bid = Inr k \<and> getOwnerCount s' bid = Inr (k + 1)) \<and>
         length (ownerHistory (batches s' bid)) = Suc (length (ownerHistory (batches s bid))) \<and>
         lastTransferAt (batches s' bid) = block_timestamp c \<and>
         wasOwner s' bid X = Inr True \<and>
         wasOwner (run later s') bid X = Inr True"
proof -
  from assms have e: "batchExists s bid"
    and s': "s' = s\<lparr>batches := (batches s)(bid := (batches s bid)\<lparr>
                   ownerHistory := ownerHistory (batches s bid) @ [X],
                   lastTransferAt := block_timestamp c\<rparr>)\<rparr>"
    by (simp_all add: transferBatch_Inr)
  have e': "batchExists s' bid" using e s' by simp
  have h': "ownerHistory (batches s' bid) = ownerHistory (batches s bid) @ [X]"
    and t': "lastTransferAt (batches s' bid) = block_timestamp c"
    using s' by simp_all
  have later: "batchExists (run later s') bid"
    "X \<in> set (ownerHistory (batches (run later s') bid))"
    using e' h' by (simp_all add: run_batchExists run_history_grows)
  have "getCurrentOwner s' bid = Inr X"
    using e' h' by (simp add: getCurrentOwner_def batchMustExist_def lastOwner_last)
  moreover have "getOwnerHistory s' bid = Inr (ownerHistory (batches s bid) @ [X])"
    using e' h' by (simp add: getOwnerHistory_def batchMustExist_def)
  moreover have "\<exists>k. getOwnerCount s bid = Inr k \<and> getOwnerCount s' bid = Inr (k + 1)"
    using e e' h' by (simp add: getOwnerCount_def batchMustExist_def)
  moreover have "wasOwner s' bid X = Inr True"
    using e' h' by (simp add: wasOwner_def batchMustExist_def scanHistory_set)
  moreover have "wasOwner (run later s') bid X = Inr True"
    using later by (simp add: wasOwner_def batchMustExist_def scanHistory_set)
  ultimately show ?thesis using h' t' by simp
qed

text \<open>Bob hands batch 1 on to Alice; later Alice hands it back and Bob creates another.\<close>

theorem transferBatch_effect_witness:
  "getCurrentOwner (exec (sent bob 500, TransferBatch 1 alice) sample_state) 1 = Inr alice \<and>
   getOwnerCount sample_state 1 = Inr 2 \<and>
   getOwnerCount (exec (sent bob 500, TransferBatch 1 alice) sample_state) 1 = Inr 3 \<and>
   lastTransferAt (batches (exec (sent bob 500, TransferBatch 1 alice) sample_state) 1) = 500 \<and>
   wasOwner (run [(sent alice 600, TransferBatch 1 bob), (sent bob 700, CreateBatch ''QmC'')]
               (exec (sent bob 500, TransferBatch 1 alice) sample_state)) 1 alice = Inr True"
proof -
  let ?s' = "exec (sent bob 500, TransferBatch 1 alice) sample_state"
  have ab: "alice \<noteq> bob" "alice \<noteq> 0" by (simp_all add: alice_def bob_def)
  have ok: "transferBatch (sent bob 500) 1 alice sample_state =
              Inr ([BatchTransferred 1 bob alice 500], ?s')"
    using ab by (simp add: sample_state_eq transferBatch_unfold sent_def)
  have cnt: "getOwnerCount sample_state 1 = Inr 2"
    by (simp add: sample_state_eq getOwnerCount_def batchMustExist_def)
  from transferBatch_effect [OF ok,
      of "[(sent alice 600, TransferBatch 1 bob), (sent bob 700, CreateBatch ''QmC'')]"] cnt
  show ?thesis by (auto simp: sent_def)
qed

text \<open>
  Claim C5. Where \<open>batchExists\<close> is false, each of \<open>getCurrentOwner\<close>, \<open>getOwnerHistory\<close>,
  \<open>getBatchInfo\<close>, \<open>getOwnerCount\<close> and \<open>wasOwner\<close> fails with \<open>NotFound\<close>. After any
  history, \<open>batchExists\<close> is true exactly of the ids that a successful \<open>createBatch\<close>
  returned, and \<open>getTotalBatches\<close> returns a value.
\<close>

theorem absent_batch_accessors:
  "(\<not> batchExists s bid \<longrightarrow>
      fails_with (getCurrentOwner s bid) NotFound \<and>
      fails_with (getOwnerHistory s bid) NotFound \<and>
      fails_with (getBatchInfo s bid) NotFound \<and>
      fails_with (getOwnerCount s bid) NotFound \<and>
      fails_with (wasOwner s bid a) NotFound) \<and>
   (batchExists (run txs constructor) bid \<longleftrightarrow> bid \<in> set (created txs constructor)) \<and>
   (\<exists>n. getTotalBatches (run txs constructor) = Inr n)"
proof -
  have "batchExists (run txs constructor) bid \<longleftrightarrow> bid \<in> set (created txs constructor)"
    using set_created [OF wf_constructor, of bid txs] by (simp add: constructor_def)
  moreover have "\<exists>n. getTotalBatches (run txs constructor) = Inr n"
  proof -
    have "wf (run txs constructor)" by (simp add: wf_run wf_constructor)
    then show ?thesis by (simp add: getTotalBatches_def wf_def)
  qed
  ultimately show ?thesis
    by (simp add: fails_with_def getCurrentOwner_def getOwnerHistory_def getBatchInfo_def
        getOwnerCount_def wasOwner_def batchMustExist_def)
qed

theorem absent_batch_accessors_witness:
  "7 \<notin> set (created sample_history constructor) \<and>
   \<not> batchExists (run sample_history constructor) 7 \<and>
   fails_with (getCurrentOwner (run sample_history constructor) 7) NotFound \<and>
   fails_with (getOwnerHistory (run sample_history constructor) 7) NotFound \<and>
   fails_with (getBatchInfo (run sample_history constructor) 7) NotFound \<and>
   fails_with (getOwnerCount (run sample_history constructor) 7) NotFound \<and>
   fails_with (wasOwner (run sample_history constructor) 7 alice) NotFound \<and>
   getTotalBatches (run sample_history constructor) = Inr 2"
proof -
  have c: "created sample_history constructor = [1, 2]"
    by (simp add: sample_defs contract_defs)
  have t: "getTotalBatches (run sample_history constructor) = Inr 2"
    by (simp add: sample_run sample_state_eq getTotalBatches_def)
  from absent_batch_accessors [of "run sample_history constructor" 7 alice sample_history] c t
  show ?thesis by simp
qed

text \<open>
  Claim C6. When the batch exists and the caller is its current owner, \<open>updateMetadata\<close>
  succeeds and replaces the stored \<open>ipfsHash\<close> only: the batch's history, timestamps, id
  and flag, every other batch, the existence map and the counter are unchanged.
\<close>

theorem updateMetadata_frame:
  assumes "batchExists s bid" "getCurrentOwner s bid = Inr (msg_sender c)"
  shows "\<exists>evs s'. updateMetadata c bid newHash s = Inr (evs, s') \<and>
           batches s' bid = (batches s bid)\<lparr>ipfsHash := newHash\<rparr> \<and>
           ownerHistory (batches s' bid) = ownerHistory (batches s bid) \<and>
           createdAt (batches s' bid) = createdAt (batches s bid) \<and>
           lastTransferAt (batches s' bid) = lastTransferAt (batches s bid) \<and>
           exists (batches s' bid) = exists (batches s bid) \<and>
           batchId (batches s' bid) = batchId (batches s bid) \<and>
           (\<forall>j. j \<noteq> bid \<longrightarrow> batches s' j = batches s j) \<and>
           batchExists s' = batchExists s \<and>
           nextBatchId s' = nextBatchId s"
proof -
  from assms have ne: "ownerHistory (batches s bid) \<noteq> []"
    and own: "last (ownerHistory (batches s bid)) = msg_sender c"
    by (auto simp: getCurrentOwner_def batchMustExist_def lastOwner_def last_conv_nth
        split: if_splits)
  let ?s' = "s\<lparr>batches := (batches s)(bid := (batches s bid)\<lparr>ipfsHash := newHash\<rparr>)\<rparr>"
  have "updateMetadata c bid newHash s =
          Inr ([MetadataUpdated bid (ipfsHash (batches s bid)) newHash (block_timestamp c)], ?s')"
    using assms(1) ne own by (simp add: updateMetadata_Inr)
  then show ?thesis by simp
qed

theorem updateMetadata_frame_witness:
  "batchExists sample_state 1 \<and> getCurrentOwner sample_state 1 = Inr bob \<and>
   batches (exec (sent bob 500, UpdateMetadata 1 ''QmNew'') sample_state) 1 =
     \<lparr>batchId = 1, ownerHistory = [alice, bob], exists = True, createdAt = 100,
      lastTransferAt = 200, ipfsHash = ''QmNew''\<rparr> \<and>
   batches (exec (sent bob 500, UpdateMetadata 1 ''QmNew'') sample_state) 2 =
     batches sample_state 2 \<and>
   nextBatchId (exec (sent bob 500, UpdateMetadata 1 ''QmNew'') sample_state) = 3"
proof -
  have e: "batchExists sample_state 1" and o: "getCurrentOwner sample_state 1 = Inr (msg_sender (sent bob 500))"
    by (simp_all add: sample_state_eq getCurrentOwner_def batchMustExist_def lastOwner_def sent_def)
  from updateMetadata_frame [OF e o, of "''QmNew''"]
  obtain evs s' where u: "updateMetadata (sent bob 500) 1 ''QmNew'' sample_state = Inr (evs, s')"
    and b: "batches s' 1 = (batches sample_state 1)\<lparr>ipfsHash := ''QmNew''\<rparr>"
    and f: "\<forall>j. j \<noteq> 1 \<longrightarrow> batches s' j = batches sample_state j"
    and n: "nextBatchId s' = nextBatchId sample_state"
    by blast
  from u have x: "exec (sent bob 500, UpdateMetadata 1 ''QmNew'') sample_state = s'" by simp
  have "batches s' 2 = batches sample_state 2" using f by simp
  with e o b n show ?thesis unfolding x
    by (simp add: sample_state_eq sent_def)
qed

section \<open>Properties of the client access layer\<close>

lemma performed_did: "performed w (did a w) = [a]"
  by (simp add: performed_def did_def)

lemma trace_did: "trace (did a w) = trace w @ [a]"
  by (simp add: did_def)

lemma chain_did: "chain (did a w) = chain w"
  by (simp add: did_def)

lemma index_did: "stored_index (did a w) = stored_index w"
  by (simp add: did_def)

lemma getBatchInfo_client_trace:
  "getBatchInfo_client out n w = (Inr info, w1) \<Longrightarrow>
   w1 = did (CallGetBatchInfo n) (did GetNetwork w) \<and> info_metadata info = Undefined"
  by (auto simp: getBatchInfo_client_def getNetwork_def contract_getBatchInfo_def eth_call_def
      split: sum.splits prod.splits option.splits)

lemma getBatchMetadata_result:
  "getBatchMetadata out h w1 =
     (Inr (case gateway out h of
             Ok200 v \<Rightarrow>
               if truthy_json v \<and> typeof_object v \<and> truthy_member v ''name'' \<and>
                  truthy_member v ''description''
               then Document v else Null
           | _ \<Rightarrow> Null),
      did (GatewayGet h) w1)"
  by (simp add: getBatchMetadata_def getContent_def split: http_reply.splits)

text \<open>
  Claim C7, as amended. \<open>getBatchInfoWithMetadata\<close> reads the on-chain record first; an
  error of that read is the call's error, and no metadata is fetched. The record as read
  has no metadata field. Without a metadata reference it is returned so and nothing is
  fetched. With one, the document is fetched after the on-chain read and the call
  returns the on-chain record with the field assigned: the reply itself when it is an
  object with a truthy \<open>name\<close> and \<open>description\<close>, and \<open>null\<close> in every other case, so
  when the fetch throws, answers with a status that is not ok, or brings other content.
  No failure of the fetch fails the call.
\<close>

theorem metadata_read_degrades:
  assumes "getBatchInfo_client out n w = (r, w1)"
  shows
    "(\<forall>e. r = Inl e \<longrightarrow> getBatchInfoWithMetadata out n w = (Inl e, w1)) \<and>
     (\<forall>info. r = Inr info \<longrightarrow>
        performed w w1 = [GetNetwork, CallGetBatchInfo n] \<and>
        info_metadata info = Undefined \<and>
        (case info_ipfsHash info of
           None \<Rightarrow> getBatchInfoWithMetadata out n w = (Inr info, w1)
         | Some h \<Rightarrow>
             h \<noteq> [] \<and>
             getBatchInfoWithMetadata out n w =
               (Inr (info\<lparr>info_metadata :=
                      (case gateway out h of
                         Threw e \<Rightarrow> Null
                       | NotOk status body \<Rightarrow> Null
                       | Ok200 v \<Rightarrow>
                           if truthy_json v \<and> typeof_object v \<and>
                              truthy_member v ''name'' \<and> truthy_member v ''description''
                           then Document v else Null)\<rparr>),
                did (GatewayGet h) w1) \<and>
             performed w (snd (getBatchInfoWithMetadata out n w)) =
               [GetNetwork, CallGetBatchInfo n, GatewayGet h] \<and>
             ((\<forall>v. gateway out h \<noteq> Ok200 v) \<longrightarrow>
                fst (getBatchInfoWithMetadata out n w) = Inr (info\<lparr>info_metadata := Null\<rparr>))))"
proof -
  have fail: "getBatchInfoWithMetadata out n w = (Inl e, w1)" if "r = Inl e" for e
    using assms that by (simp add: getBatchInfoWithMetadata_def)
  have ok: "performed w w1 = [GetNetwork, CallGetBatchInfo n] \<and>
        info_metadata info = Undefined \<and>
        (case info_ipfsHash info of
           None \<Rightarrow> getBatchInfoWithMetadata out n w = (Inr info, w1)
         | Some h \<Rightarrow>
             h \<noteq> [] \<and>
             getBatchInfoWithMetadata out n w =
               (Inr (info\<lparr>info_metadata :=
                      (case gateway out h of
                         Threw e \<Rightarrow> Null
                       | NotOk status body \<Rightarrow> Null
                       | Ok200 v \<Rightarrow>
                           if truthy_json v \<and> typeof_object v \<and>
                              truthy_member v ''name'' \<and> truthy_member v ''description''
                           then Document v else Null)\<rparr>),
                did (GatewayGet h) w1) \<and>
             performed w (snd (getBatchInfoWithMetadata out n w)) =
               [GetNetwork, CallGetBatchInfo n, GatewayGet h] \<and>
             ((\<forall>v. gateway out h \<noteq> Ok200 v) \<longrightarrow>
                fst (getBatchInfoWithMetadata out n w) = Inr (info\<lparr>info_metadata := Null\<rparr>)))"
    if r: "r = Inr info" for info
  proof -
    from assms r have w1: "w1 = did (CallGetBatchInfo n) (did GetNetwork w)"
      and un: "info_metadata info = Undefined"
      using getBatchInfo_client_trace by blast+
    have p: "performed w w1 = [GetNetwork, CallGetBatchInfo n]"
      unfolding w1 by (simp add: performed_def did_def)
    show ?thesis
    proof (cases "info_ipfsHash info")
      case None
      with assms r p un show ?thesis
        by (simp add: getBatchInfoWithMetadata_def truthy_def)
    next
      case (Some h)
      from assms r Some have ne: "h \<noteq> []"
        by (auto simp: getBatchInfo_client_def split: sum.splits prod.splits if_splits)
      have res: "getBatchInfoWithMetadata out n w =
        (Inr (info\<lparr>info_metadata :=
                      (case gateway out h of
                         Threw e \<Rightarrow> Null
                       | NotOk status body \<Rightarrow> Null
                       | Ok200 v \<Rightarrow>
                           if truthy_json v \<and> typeof_object v \<and>
                              truthy_member v ''name'' \<and> truthy_member v ''description''
                           then Document v else Null)\<rparr>),
         did (GatewayGet h) w1)"
        using assms r Some ne
        by (cases "gateway out h")
           (simp_all add: getBatchInfoWithMetadata_def truthy_def getBatchMetadata_result)
      have b: "performed w (snd (getBatchInfoWithMetadata out n w)) =
                 [GetNetwork, CallGetBatchInfo n, GatewayGet h]"
        unfolding res w1 by (simp add: performed_def did_def)
      have d: "(\<forall>v. gateway out h \<noteq> Ok200 v) \<longrightarrow>
          fst (getBatchInfoWithMetadata out n w) = Inr (info\<lparr>info_metadata := Null\<rparr>)"
        unfolding res by (cases "gateway out h") auto
      from p un ne res b d show ?thesis
        unfolding Some by simp
    qed
  qed
  from fail ok show ?thesis by blast
qed

lemma sample_getBatchInfo_client:
  "getBatchInfo_client (sample_outside\<lparr>gateway := g\<rparr>) 1 sample_world =
     (Inr \<lparr>info_batchId = 1, info_currentOwner = ''0xB0b'', info_ownerCount = 2,
           info_createdAt = 100, info_lastTransferAt = 200, info_ipfsHash = Some ''QmA'',
           info_metadata = Undefined\<rparr>,
      \<lparr>chain = sample_state, stored_index = None, trace = [GetNetwork, CallGetBatchInfo 1]\<rparr>)"
  by (simp add: getBatchInfo_client_def getNetwork_def getBatchTrackerContract_def
      contract_getBatchInfo_def encode_uint_def eth_call_def did_def sample_world_def
      sample_outside_def getBatchInfo_def batchMustExist_def lastOwner_def sample_state_eq
      alice_def bob_def)

text \<open>
  Batch 1 of the sample has the reference \<open>QmA\<close>. A gateway that serves a metadata
  object gives the record that object; one that serves a page of text gives \<open>null\<close>.
\<close>

theorem metadata_read_degrades_witness:
  "fst (getBatchInfoWithMetadata
          (sample_outside\<lparr>gateway := \<lambda>_. Ok200 (JObj [(''name'', JStr ''Wheat''),
                                                       (''description'', JStr ''Lot 7'')])\<rparr>)
          1 sample_world) =
     Inr \<lparr>info_batchId = 1, info_currentOwner = ''0xB0b'', info_ownerCount = 2,
          info_createdAt = 100, info_lastTransferAt = 200, info_ipfsHash = Some ''QmA'',
          info_metadata = Document (JObj [(''name'', JStr ''Wheat''),
                                          (''description'', JStr ''Lot 7'')])\<rparr> \<and>
   fst (getBatchInfoWithMetadata (sample_outside\<lparr>gateway := \<lambda>_. Ok200 (JStr ''not found'')\<rparr>)
          1 sample_world) =
     Inr \<lparr>info_batchId = 1, info_currentOwner = ''0xB0b'', info_ownerCount = 2,
          info_createdAt = 100, info_lastTransferAt = 200, info_ipfsHash = Some ''QmA'',
          info_metadata = Null\<rparr> \<and>
   fst (getBatchInfoWithMetadata (sample_outside\<lparr>gateway := \<lambda>_. NotOk 404 ''gone''\<rparr>)
          1 sample_world) =
     Inr \<lparr>info_batchId = 1, info_currentOwner = ''0xB0b'', info_ownerCount = 2,
          info_createdAt = 100, info_lastTransferAt = 200, info_ipfsHash = Some ''QmA'',
          info_metadata = Null\<rparr> \<and>
   trace (snd (getBatchInfoWithMetadata (sample_outside\<lparr>gateway := \<lambda>_. NotOk 404 ''gone''\<rparr>)
          1 sample_world)) = [GetNetwork, CallGetBatchInfo 1, GatewayGet ''QmA'']"
proof -
  have a: "getBatchInfo_client
      (sample_outside\<lparr>gateway := \<lambda>_. Ok200 (JObj [(''name'', JStr ''Wheat''),
                                                   (''description'', JStr ''Lot 7'')])\<rparr>)
      1 sample_world =
     (Inr \<lparr>info_batchId = 1, info_currentOwner = ''0xB0b'', info_ownerCount = 2,
           info_createdAt = 100, info_lastTransferAt = 200, info_ipfsHash = Some ''QmA'',
           info_metadata = Undefined\<rparr>,
      \<lparr>chain = sample_state, stored_index = None, trace = [GetNetwork, CallGetBatchInfo 1]\<rparr>)"
    by (rule sample_getBatchInfo_client)
  have b: "getBatchInfo_client
      (sample_outside\<lparr>gateway := \<lambda>_. Ok200 (JStr ''not found'')\<rparr>) 1 sample_world =
     (Inr \<lparr>info_batchId = 1, info_currentOwner = ''0xB0b'', info_ownerCount = 2,
           info_createdAt = 100, info_lastTransferAt = 200, info_ipfsHash = Some ''QmA'',
           info_metadata = Undefined\<rparr>,
      \<lparr>chain = sample_state, stored_index = None, trace = [GetNetwork, CallGetBatchInfo 1]\<rparr>)"
    by (rule sample_getBatchInfo_client)
  have c: "getBatchInfo_client
      (sample_outside\<lparr>gateway := \<lambda>_. NotOk 404 ''gone''\<rparr>) 1 sample_world =
     (Inr \<lparr>info_batchId = 1, info_currentOwner = ''0xB0b'', info_ownerCount = 2,
           info_createdAt = 100, info_lastTransferAt = 200, info_ipfsHash = Some ''QmA'',
           info_metadata = Undefined\<rparr>,
      \<lparr>chain = sample_state, stored_index = None, trace = [GetNetwork, CallGetBatchInfo 1]\<rparr>)"
    by (rule sample_getBatchInfo_client)
  note doc = metadata_read_degrades [OF a]
  note other = metadata_read_degrades [OF b]
  note bad = metadata_read_degrades [OF c]
  from doc have 1: "fst (getBatchInfoWithMetadata
          (sample_outside\<lparr>gateway := \<lambda>_. Ok200 (JObj [(''name'', JStr ''Wheat''),
                                                       (''description'', JStr ''Lot 7'')])\<rparr>)
          1 sample_world) =
     Inr \<lparr>info_batchId = 1, info_currentOwner = ''0xB0b'', info_ownerCount = 2,
          info_createdAt = 100, info_lastTransferAt = 200, info_ipfsHash = Some ''QmA'',
          info_metadata = Document (JObj [(''name'', JStr ''Wheat''),
                                          (''description'', JStr ''Lot 7'')])\<rparr>"
    by (simp add: truthy_member_def)
  from other have 2: "fst (getBatchInfoWithMetadata
          (sample_outside\<lparr>gateway := \<lambda>_. Ok200 (JStr ''not found'')\<rparr>) 1 sample_world) =
     Inr \<lparr>info_batchId = 1, info_currentOwner = ''0xB0b'', info_ownerCount = 2,
          info_createdAt = 100, info_lastTransferAt = 200, info_ipfsHash = Some ''QmA'',
          info_metadata = Null\<rparr>"
    by simp
  from bad have 3: "fst (getBatchInfoWithMetadata
          (sample_outside\<lparr>gateway := \<lambda>_. NotOk 404 ''gone''\<rparr>) 1 sample_world) =
     Inr \<lparr>info_batchId = 1, info_currentOwner = ''0xB0b'', info_ownerCount = 2,
          info_createdAt = 100, info_lastTransferAt = 200, info_ipfsHash = Some ''QmA'',
          info_metadata = Null\<rparr>"
    and 4: "trace (snd (getBatchInfoWithMetadata
          (sample_outside\<lparr>gateway := \<lambda>_. NotOk 404 ''gone''\<rparr>) 1 sample_world)) =
        [GetNetwork, CallGetBatchInfo 1, GatewayGet ''QmA'']"
    by (simp_all add: did_def)
  from 1 2 3 4 show ?thesis by (intro conjI)
qed

text \<open>
  With the sample's gateway, which is down, the record comes back with its metadata
  field assigned \<open>null\<close>: the field is there, where the on-chain read had left it out.
\<close>

theorem metadata_field_null:
  "gateway sample_outside ''QmA'' = Threw (new_Error ''Failed to fetch'') \<and>
   fst (getBatchInfo_client sample_outside 1 sample_world) =
     Inr \<lparr>info_batchId = 1, info_currentOwner = ''0xB0b'', info_ownerCount = 2,
          info_createdAt = 100, info_lastTransferAt = 200, info_ipfsHash = Some ''QmA'',
          info_metadata = Undefined\<rparr> \<and>
   fst (getBatchInfoWithMetadata sample_outside 1 sample_world) =
     Inr \<lparr>info_batchId = 1, info_currentOwner = ''0xB0b'', info_ownerCount = 2,
          info_createdAt = 100, info_lastTransferAt = 200, info_ipfsHash = Some ''QmA'',
          info_metadata = Null\<rparr> \<and>
   fst (getBatchInfoWithMetadata sample_outside 1 sample_world) \<noteq>
     Inr \<lparr>info_batchId = 1, info_currentOwner = ''0xB0b'', info_ownerCount = 2,
          info_createdAt = 100, info_lastTransferAt = 200, info_ipfsHash = Some ''QmA'',
          info_metadata = Undefined\<rparr>"
proof -
  have s: "sample_outside\<lparr>gateway := gateway sample_outside\<rparr> = sample_outside"
    by simp
  have g: "gateway sample_outside ''QmA'' = Threw (new_Error ''Failed to fetch'')"
    by (simp add: sample_outside_def)
  have i: "getBatchInfo_client sample_outside 1 sample_world =
     (Inr \<lparr>info_batchId = 1, info_currentOwner = ''0xB0b'', info_ownerCount = 2,
           info_createdAt = 100, info_lastTransferAt = 200, info_ipfsHash = Some ''QmA'',
           info_metadata = Undefined\<rparr>,
      \<lparr>chain = sample_state, stored_index = None, trace = [GetNetwork, CallGetBatchInfo 1]\<rparr>)"
    using sample_getBatchInfo_client [of "gateway sample_outside"] by (simp only: s)
  have m: "fst (getBatchInfoWithMetadata sample_outside 1 sample_world) =
     Inr \<lparr>info_batchId = 1, info_currentOwner = ''0xB0b'', info_ownerCount = 2,
          info_createdAt = 100, info_lastTransferAt = 200, info_ipfsHash = Some ''QmA'',
          info_metadata = Null\<rparr>"
    unfolding getBatchInfoWithMetadata_def i
    by (simp add: truthy_def getBatchMetadata_result g)
  from g i m show ?thesis by simp
qed

lemma uploadBatchWithAssets_world:
  "snd (uploadBatchWithAssets out nm ds img props attrs w) =
     (case img of
        None \<Rightarrow> did (PinJSON (createBatchMetadata out nm ds None props attrs)) w
      | Some f \<Rightarrow>
          (case pin_file out f of
             Ok200 u \<Rightarrow>
               did (PinJSON (createBatchMetadata out nm ds (Some (IpfsHash u)) props attrs))
                 (did (PinFile f) w)
           | _ \<Rightarrow> did (PinFile f) w))"
  by (simp add: uploadBatchWithAssets_def uploadFile_def uploadJSON_def Let_def
      split: option.splits http_reply.splits)

lemma uploadBatchWithAssets_Inr:
  "fst (uploadBatchWithAssets out nm ds img props attrs w) = Inr (h, ih, d) \<longleftrightarrow>
     (case img of
        None \<Rightarrow> ih = None \<and> d = createBatchMetadata out nm ds None props attrs \<and>
                 (\<exists>u. pin_json out d = Ok200 u \<and> h = IpfsHash u)
      | Some f \<Rightarrow>
          (\<exists>u v. pin_file out f = Ok200 u \<and> ih = Some (IpfsHash u) \<and>
                 d = createBatchMetadata out nm ds (Some (IpfsHash u)) props attrs \<and>
                 pin_json out d = Ok200 v \<and> h = IpfsHash v))"
  by (auto simp: uploadBatchWithAssets_def uploadFile_def uploadJSON_def Let_def
      split: option.splits http_reply.splits)

lemma createBatchMetadata_external_url:
  "md_external_url (createBatchMetadata out nm ds ih props attrs) = None"
  by (simp add: createBatchMetadata_def Let_def)

lemma createBatchMetadata_image:
  "md_image (createBatchMetadata out nm ds ih props attrs) =
     (if truthy ih then Some (PINATA_GATEWAY out @ ''/ipfs/'' @ the ih) else None)"
  by (simp add: createBatchMetadata_def Let_def)

lemma send_createBatch_world:
  "snd (send_createBatch out h w) =
     (case rpc_fault out (SendCreateBatch h) of
        Some e \<Rightarrow> did (SendCreateBatch h) w
      | None \<Rightarrow>
          (case createBatch \<lparr>msg_sender = signer_address out, block_timestamp = block_time out\<rparr>
                  h (chain w) of
             Inl e \<Rightarrow> did (SendCreateBatch h) w
           | Inr (bid, logs, s') \<Rightarrow> did WaitReceipt ((did (SendCreateBatch h) w)\<lparr>chain := s'\<rparr>)))"
  by (simp add: send_createBatch_def Let_def did_def split: option.splits sum.splits)

lemma send_createBatch_Inr:
  "fst (send_createBatch out h w) = Inr logs \<longleftrightarrow>
     rpc_fault out (SendCreateBatch h) = None \<and> rpc_fault out WaitReceipt = None \<and>
     (\<exists>bid s'. createBatch \<lparr>msg_sender = signer_address out, block_timestamp = block_time out\<rparr>
                  h (chain w) = Inr (bid, logs, s'))"
  by (auto simp: send_createBatch_def Let_def did_def split: option.splits sum.splits)

lemma create_logs:
  "createBatch c h s = Inr (bid, logs, s') \<Longrightarrow>
   find isBatchCreated logs = Some (BatchCreated bid (msg_sender c) (block_timestamp c) h)"
  by (auto simp: createBatch_Inr)

lemma upload_world:
  "snd (uploadBatchWithAssets out nm ds img props attrs w) =
     w\<lparr>trace := trace w @ upload_actions out nm ds img props attrs\<rparr>"
  by (simp add: uploadBatchWithAssets_world upload_actions_def did_def
      split: option.splits http_reply.splits)

lemma upload_actions_kind:
  "list_all is_upload (upload_actions out nm ds img props attrs)"
  "list_all (\<lambda>a. \<not> is_contract_call a) (upload_actions out nm ds img props attrs)"
  by (simp_all add: upload_actions_def split: option.splits http_reply.splits)

lemma upload_actions_documents:
  "list_all (\<lambda>d. md_external_url d = None)
     (uploaded_documents (upload_actions out nm ds img props attrs))"
  by (simp add: upload_actions_def createBatchMetadata_external_url
      split: option.splits http_reply.splits)

lemma is_ok_iff: "is_ok r \<longleftrightarrow> (\<exists>u. r = Ok200 u)"
  by (cases r) simp_all

lemma upload_fails_iff:
  "(\<exists>e. fst (uploadBatchWithAssets out nm ds img props attrs w) = Inl e) \<longleftrightarrow>
   list_ex (upload_failed out) (upload_actions out nm ds img props attrs)"
proof (cases img)
  case None
  then show ?thesis
    by (cases "pin_json out (createBatchMetadata out nm ds None props attrs)")
       (simp_all add: uploadBatchWithAssets_def uploadJSON_def upload_actions_def Let_def)
next
  case (Some f)
  show ?thesis
  proof (cases "pin_file out f")
    case (Ok200 u)
    with Some show ?thesis
      by (cases "pin_json out (createBatchMetadata out nm ds (Some (IpfsHash u)) props attrs)")
         (simp_all add: uploadBatchWithAssets_def uploadFile_def uploadJSON_def upload_actions_def
            Let_def)
  next
    case (Threw e)
    with Some show ?thesis
      by (simp add: uploadBatchWithAssets_def uploadFile_def upload_actions_def)
  next
    case (NotOk st body)
    with Some show ?thesis
      by (simp add: uploadBatchWithAssets_def uploadFile_def upload_actions_def)
  qed
qed

lemma upload_succeeds:
  assumes "fst (uploadBatchWithAssets out nm ds img props attrs w) = Inr (h, ih, d)"
  shows "(\<exists>u. pin_json out d = Ok200 u \<and> h = IpfsHash u) \<and>
         PinJSON d \<in> set (upload_actions out nm ds img props attrs)"
proof (cases img)
  case None
  with assms show ?thesis
    by (auto simp: uploadBatchWithAssets_Inr upload_actions_def)
next
  case (Some f)
  with assms obtain u v where "pin_file out f = Ok200 u"
    "d = createBatchMetadata out nm ds (Some (IpfsHash u)) props attrs"
    "pin_json out d = Ok200 v" "h = IpfsHash v"
    unfolding uploadBatchWithAssets_Inr by auto
  with Some show ?thesis by (simp add: upload_actions_def)
qed

lemma upload_image_first:
  assumes "img = Some f" "PinJSON d \<in> set (upload_actions out nm ds img props attrs)"
  shows "\<exists>u. pin_file out f = Ok200 u \<and>
           upload_actions out nm ds img props attrs = [PinFile f, PinJSON d] \<and>
           md_image d = (if IpfsHash u \<noteq> [] then
                      Some (PINATA_GATEWAY out @ ''/ipfs/'' @ IpfsHash u) else None)"
proof (cases "pin_file out f")
  case (Ok200 u)
  with assms have "d = createBatchMetadata out nm ds (Some (IpfsHash u)) props attrs"
    by (simp add: upload_actions_def)
  with assms(1) Ok200 show ?thesis
    by (simp add: upload_actions_def createBatchMetadata_image truthy_def)
next
  case (Threw e)
  with assms show ?thesis by (simp add: upload_actions_def)
next
  case (NotOk st body)
  with assms show ?thesis by (simp add: upload_actions_def)
qed

text \<open>The transaction step.\<close>

lemma send_step:
  assumes "send_createBatch out h w = (r, w3)"
  shows "\<exists>cs. trace w3 = trace w @ cs \<and> stored_index w3 = stored_index w \<and>
           cs \<noteq> [] \<and> list_all is_contract_call cs \<and> list_all (\<lambda>a. \<not> is_upload a) cs \<and>
           uploaded_documents cs = [] \<and>
           (\<forall>logs. r = Inr logs \<longrightarrow>
              (\<exists>bid. createBatch \<lparr>msg_sender = signer_address out, block_timestamp = block_time out\<rparr>
                        h (chain w) = Inr (bid, logs, chain w3) \<and>
                     find isBatchCreated logs =
                       Some (BatchCreated bid (signer_address out) (block_time out) h)))"
proof (cases "rpc_fault out (SendCreateBatch h)")
  case (Some e)
  with assms have "w3 = did (SendCreateBatch h) w" "r = Inl e"
    by (auto simp: send_createBatch_def Let_def)
  then show ?thesis
    by (intro exI [where x = "[SendCreateBatch h]"]) (simp add: did_def)
next
  case None
  let ?c = "\<lparr>msg_sender = signer_address out, block_timestamp = block_time out\<rparr>"
  show ?thesis
  proof (cases "createBatch ?c h (chain w)")
    case (Inl e)
    with assms None have "w3 = did (SendCreateBatch h) w" "r = Inl (revert_error out e)"
      by (auto simp: send_createBatch_def Let_def did_def)
    then show ?thesis
      by (intro exI [where x = "[SendCreateBatch h]"]) (simp add: did_def)
  next
    case (Inr x)
    obtain bid logs s' where x: "x = (bid, logs, s')" by (cases x)
    from assms None Inr x
    have w3: "w3 = did WaitReceipt ((did (SendCreateBatch h) w)\<lparr>chain := s'\<rparr>)"
      and r: "r = (case rpc_fault out WaitReceipt of Some e \<Rightarrow> Inl e | None \<Rightarrow> Inr logs)"
      by (auto simp: send_createBatch_def Let_def did_def split: option.splits)
    from Inr x have lg: "find isBatchCreated logs =
         Some (BatchCreated bid (signer_address out) (block_time out) h)"
      using create_logs [of ?c h "chain w" bid logs s'] by simp
    show ?thesis
      apply (rule exI [where x = "[SendCreateBatch h, WaitReceipt]"])
      using w3 r Inr x lg
      by (auto simp: did_def split: option.splits)
  qed
qed

lemma body_normal_form:
  "createBatchWithMetadata_body out fd w =
     (case net_reply out of
        Inl e \<Rightarrow> (Inl e, did GetNetwork w)
      | Inr c \<Rightarrow>
          (case uploadBatchWithAssets out (form_name fd) (form_description fd) (form_image fd)
                  (Some \<lparr>origin = form_origin fd, quality_grade = form_quality_grade fd,
                         harvest_date = form_harvest_date fd, expiry_date = form_expiry_date fd,
                         weight = form_weight fd, location = form_location fd,
                         certifications = form_certifications fd\<rparr>)
                  (form_attributes fd) (did GetNetwork w) of
             (Inl e, w2) \<Rightarrow> (Inl e, w2)
           | (Inr (h, ih, d), w2) \<Rightarrow>
               (case getBatchTrackerContract out (Some c) of
                  Inl e \<Rightarrow> (Inl e, w2)
                | Inr cfg \<Rightarrow>
                    (case send_createBatch out h w2 of
                       (Inl e, w3) \<Rightarrow> (Inl e, w3)
                     | (Inr logs, w3) \<Rightarrow>
                         (case find isBatchCreated logs of
                            Some ev \<Rightarrow>
                              (Inr (to_number out (event_batchId ev)),
                               setBatchMetadata out (to_number out (event_batchId ev)) h w3)
                          | None \<Rightarrow>
                              (Inl (new_Error ''BatchCreated event not found in transaction receipt''),
                               w3))))))"
  by (simp add: createBatchWithMetadata_body_def surplus_argument_def getNetwork_def Let_def
      split: sum.splits prod.splits option.splits)

text \<open>The ways \<open>createBatchWithMetadata\<close> can end.\<close>

lemma createBatchWithMetadata_cases:
  assumes run: "createBatchWithMetadata out fd w = (r, w')"
  defines "U \<equiv> upload_actions out (form_name fd) (form_description fd) (form_image fd)
                  (Some \<lparr>origin = form_origin fd, quality_grade = form_quality_grade fd,
                         harvest_date = form_harvest_date fd, expiry_date = form_expiry_date fd,
                         weight = form_weight fd, location = form_location fd,
                         certifications = form_certifications fd\<rparr>)
                  (form_attributes fd)"
  obtains
    (network) e where "r = Inl e" "w' = w\<lparr>trace := trace w @ [GetNetwork]\<rparr>"
  | (upload) e where "r = Inl e" "w' = w\<lparr>trace := trace w @ GetNetwork # U\<rparr>"
      "list_ex (upload_failed out) U"
  | (config) e where "r = Inl e" "w' = w\<lparr>trace := trace w @ GetNetwork # U\<rparr>"
      "\<not> list_ex (upload_failed out) U"
  | (transaction) e cs where "r = Inl e" "trace w' = trace w @ GetNetwork # U @ cs"
      "stored_index w' = stored_index w" "cs \<noteq> []" "list_all is_contract_call cs"
      "\<not> list_ex (upload_failed out) U"
  | (success) h d u bid logs w3 cs where
      "r = Inr (to_number out bid)" "w' = setBatchMetadata out (to_number out bid) h w3"
      "trace w3 = trace w @ GetNetwork # U @ cs" "stored_index w3 = stored_index w"
      "cs \<noteq> []" "list_all is_contract_call cs"
      "\<not> list_ex (upload_failed out) U" "PinJSON d \<in> set U"
      "pin_json out d = Ok200 u" "h = IpfsHash u"
      "createBatch \<lparr>msg_sender = signer_address out, block_timestamp = block_time out\<rparr>
         h (chain w) = Inr (bid, logs, chain w3)"
proof (cases "net_reply out")
  case (Inl e)
  with run have "r = Inl (enhanceError e)" "w' = w\<lparr>trace := trace w @ [GetNetwork]\<rparr>"
    by (auto simp: createBatchWithMetadata_def body_normal_form did_def)
  then show ?thesis by (rule network)
next
  case (Inr c)
  let ?w1 = "did GetNetwork w"
  let ?up = "uploadBatchWithAssets out (form_name fd) (form_description fd) (form_image fd)
                  (Some \<lparr>origin = form_origin fd, quality_grade = form_quality_grade fd,
                         harvest_date = form_harvest_date fd, expiry_date = form_expiry_date fd,
                         weight = form_weight fd, location = form_location fd,
                         certifications = form_certifications fd\<rparr>)
                  (form_attributes fd) ?w1"
  obtain ru w2 where up: "?up = (ru, w2)" by (cases ?up)
  then have fs: "fst ?up = ru" "snd ?up = w2" by simp_all
  have w2: "w2 = w\<lparr>trace := trace w @ GetNetwork # U\<rparr>"
    unfolding fs(2) [symmetric] U_def upload_world by (simp add: did_def)
  show ?thesis
  proof (cases ru)
    case (Inl e)
    then have f: "list_ex (upload_failed out) U"
      unfolding U_def using upload_fails_iff fs(1) by blast
    from run Inr up Inl have "r = Inl (enhanceError e)" "w' = w2"
      by (auto simp: createBatchWithMetadata_def body_normal_form)
    with w2 f show ?thesis by (auto intro: upload)
  next
    case ruok: (Inr x)
    obtain h ih d where x: "x = (h, ih, d)" by (cases x)
    from ruok x fs have upf: "fst ?up = Inr (h, ih, d)" by simp
    have nf: "\<not> list_ex (upload_failed out) U"
    proof
      assume "list_ex (upload_failed out) U"
      then have "\<exists>e. fst ?up = Inl e"
        unfolding U_def by (simp only: upload_fails_iff)
      with upf show False by simp
    qed
    from upload_succeeds [OF upf] obtain u where
      d: "PinJSON d \<in> set U" "pin_json out d = Ok200 u" "h = IpfsHash u"
      unfolding U_def by blast
    from up ruok x have upeq: "?up = (Inr (h, ih, d), w2)" by simp
    show ?thesis
    proof (cases "getBatchTrackerContract out (Some c)")
      case (Inl e)
      with run Inr upeq have "r = Inl (enhanceError e)" "w' = w2"
        by (auto simp: createBatchWithMetadata_def body_normal_form)
      with w2 nf show ?thesis by (auto intro: config)
    next
      case cfg: (Inr k)
      obtain rs w3 where sd: "send_createBatch out h w2 = (rs, w3)"
        by (cases "send_createBatch out h w2")
      from send_step [OF sd] obtain cs where
        cs: "trace w3 = trace w2 @ cs" "stored_index w3 = stored_index w2"
          "cs \<noteq> []" "list_all is_contract_call cs"
        and lg: "\<forall>logs. rs = Inr logs \<longrightarrow>
              (\<exists>bid. createBatch \<lparr>msg_sender = signer_address out, block_timestamp = block_time out\<rparr>
                        h (chain w2) = Inr (bid, logs, chain w3) \<and>
                     find isBatchCreated logs =
                       Some (BatchCreated bid (signer_address out) (block_time out) h))"
        by blast
      have tr: "trace w3 = trace w @ GetNetwork # U @ cs" "stored_index w3 = stored_index w"
        using cs w2 by simp_all
      have ch: "chain w2 = chain w" using w2 by simp
      show ?thesis
      proof (cases rs)
        case (Inl e)
        with run Inr upeq cfg sd have "r = Inl (enhanceError e)" "w' = w3"
          by (auto simp: createBatchWithMetadata_def body_normal_form)
        with tr cs nf show ?thesis by (auto intro: transaction)
      next
        case rsok: (Inr logs)
        with lg ch obtain bid where
          cb: "createBatch \<lparr>msg_sender = signer_address out, block_timestamp = block_time out\<rparr>
                 h (chain w) = Inr (bid, logs, chain w3)"
          and fd: "find isBatchCreated logs =
                       Some (BatchCreated bid (signer_address out) (block_time out) h)"
          by auto
        from run Inr upeq cfg sd rsok fd
        have "r = Inr (to_number out bid)" "w' = setBatchMetadata out (to_number out bid) h w3"
          by (auto simp: createBatchWithMetadata_def body_normal_form)
        then show ?thesis using tr cs(3,4) nf d cb by (rule success)
      qed
    qed
  qed
qed

lemma performed_append: "trace w' = trace w @ xs \<Longrightarrow> performed w w' = xs"
  by (simp add: performed_def)

lemma contract_call_not_upload: "is_contract_call a \<Longrightarrow> \<not> is_upload a"
  by (cases a) simp_all

lemma contract_call_not_failed: "is_contract_call a \<Longrightarrow> \<not> upload_failed out a"
  by (cases a) simp_all

lemma upload_failed_is_upload: "upload_failed out a \<Longrightarrow> is_upload a"
  by (cases a) simp_all

lemma contract_calls_no_documents:
  "list_all is_contract_call cs \<Longrightarrow> uploaded_documents cs = []"
  by (induction cs rule: uploaded_documents.induct) simp_all

lemma uploaded_documents_append:
  "uploaded_documents (xs @ ys) = uploaded_documents xs @ uploaded_documents ys"
  by (induction xs rule: uploaded_documents.induct) simp_all

lemma uploads_first_shape:
  assumes "list_all (\<lambda>a. \<not> is_contract_call a) us" "list_all is_contract_call cs"
  shows "uploads_first (GetNetwork # us @ cs)"
proof -
  have "dropWhile (\<lambda>a. \<not> is_contract_call a) (GetNetwork # us @ cs) =
        dropWhile (\<lambda>a. \<not> is_contract_call a) cs"
    using assms(1) by (simp add: list_all_iff dropWhile_append2)
  moreover have "\<forall>a \<in> set (dropWhile (\<lambda>a. \<not> is_contract_call a) cs). \<not> is_upload a"
    using assms(2) by (auto simp: list_all_iff dest: set_dropWhileD contract_call_not_upload)
  ultimately show ?thesis
    by (simp add: uploads_first_def filter_empty_conv)
qed

lemma no_contract_calls:
  "list_all (\<lambda>a. \<not> is_contract_call a) us \<Longrightarrow> filter is_contract_call (GetNetwork # us) = []"
  by (simp add: list_all_iff filter_empty_conv)

lemma failed_in_shape:
  assumes "list_ex (upload_failed out) (GetNetwork # us @ cs)" "list_all is_contract_call cs"
  shows "list_ex (upload_failed out) us"
  using assms by (auto simp: list_ex_iff list_all_iff dest: contract_call_not_failed)

lemma setBatchMetadata_sel:
  "chain (setBatchMetadata out n h w) = chain w"
  "trace (setBatchMetadata out n h w) = trace w"
  "stored_index (setBatchMetadata out n h w) =
     (if storage_fault out then stored_index w
      else Some ((getAllBatchMetadata out w)(n \<mapsto> h)))"
  by (simp_all add: setBatchMetadata_def Let_def)

lemma setBatchMetadata_lookup:
  "\<not> storage_fault out \<Longrightarrow> getAllBatchMetadata out (setBatchMetadata out n h w) n = Some h"
  by (simp add: setBatchMetadata_def getAllBatchMetadata_def Let_def)

text \<open>
  Claim C10. Whatever the form holds, also a non-empty \<open>external_url\<close>, no document that
  \<open>createBatchWithMetadata\<close> uploads has an \<open>external_url\<close>: the value is handed to
  \<open>uploadBatchWithAssets\<close> as an argument more than it declares and dropped there, and
  \<open>createBatchMetadata\<close> builds every document without the field.
\<close>

theorem external_url_never_uploaded:
  "list_all (\<lambda>d. md_external_url d = None)
     (uploaded_documents (performed w (snd (createBatchWithMetadata out fd w)))) \<and>
   md_external_url (createBatchMetadata out nm ds ih props attrs) = None \<and>
   surplus_argument
     (uploadBatchWithAssets out (form_name fd) (form_description fd) (form_image fd) bp
        (form_attributes fd)) (form_external_url fd) =
   uploadBatchWithAssets out (form_name fd) (form_description fd) (form_image fd) bp
     (form_attributes fd)"
proof -
  obtain r w' where run: "createBatchWithMetadata out fd w = (r, w')"
    by (cases "createBatchWithMetadata out fd w")
  let ?U = "upload_actions out (form_name fd) (form_description fd) (form_image fd)
                  (Some \<lparr>origin = form_origin fd, quality_grade = form_quality_grade fd,
                         harvest_date = form_harvest_date fd, expiry_date = form_expiry_date fd,
                         weight = form_weight fd, location = form_location fd,
                         certifications = form_certifications fd\<rparr>)
                  (form_attributes fd)"
  have docs: "list_all (\<lambda>d. md_external_url d = None) (uploaded_documents ?U)"
    by (rule upload_actions_documents)
  have "list_all (\<lambda>d. md_external_url d = None) (uploaded_documents (performed w w'))"
  proof (cases rule: createBatchWithMetadata_cases [OF run])
    case (1 e)
    then show ?thesis by (simp add: performed_def)
  next
    case (2 e)
    then show ?thesis using docs by (simp add: performed_def)
  next
    case (3 e)
    then show ?thesis using docs by (simp add: performed_def)
  next
    case (4 e cs)
    then show ?thesis using docs
      by (simp add: performed_def uploaded_documents_append contract_calls_no_documents)
  next
    case (5 h d u bid logs w3 cs)
    then show ?thesis using docs
      by (simp add: performed_def setBatchMetadata_sel uploaded_documents_append
          contract_calls_no_documents)
  qed
  then show ?thesis
    using run by (simp add: createBatchMetadata_external_url surplus_argument_def)
qed

lemma sample_upload:
  "uploadBatchWithAssets sample_outside ''Wheat'' ''Lot 7''
     (Some \<lparr>file_name = ''lot7.png'', file_bytes = ''PNG''\<rparr>)
     (Some \<lparr>origin = Some ''Punjab'', quality_grade = None, harvest_date = None,
            expiry_date = None, weight = None, location = None, certifications = None\<rparr>)
     None \<lparr>chain = sample_state, stored_index = None, trace = [GetNetwork]\<rparr> =
   (Inr (''QmDoc'', Some ''QmImage'',
         \<lparr>md_name = ''Wheat'', md_description = ''Lot 7'',
          md_image = Some ''https://gateway.pinata.cloud/ipfs/QmImage'',
          md_attributes = Some [],
          md_batch_properties = Some \<lparr>origin = Some ''Punjab'', quality_grade = None,
            harvest_date = None, expiry_date = None, weight = None, location = None,
            certifications = None\<rparr>,
          md_external_url = None,
          md_created_at = ''2024-01-01T00:00:00.000Z'',
          md_version = ''1.0''\<rparr>),
    \<lparr>chain = sample_state, stored_index = None,
     trace = [GetNetwork,
        PinFile \<lparr>file_name = ''lot7.png'', file_bytes = ''PNG''\<rparr>,
        PinJSON \<lparr>md_name = ''Wheat'', md_description = ''Lot 7'',
          md_image = Some ''https://gateway.pinata.cloud/ipfs/QmImage'',
          md_attributes = Some [],
          md_batch_properties = Some \<lparr>origin = Some ''Punjab'', quality_grade = None,
            harvest_date = None, expiry_date = None, weight = None, location = None,
            certifications = None\<rparr>,
          md_external_url = None,
          md_created_at = ''2024-01-01T00:00:00.000Z'',
          md_version = ''1.0''\<rparr>]\<rparr>)"
  by (simp add: uploadBatchWithAssets_def uploadFile_def uploadJSON_def createBatchMetadata_def
      truthy_def did_def Let_def sample_outside_def)

lemma sample_create:
  "fst (createBatchWithMetadata sample_outside sample_form sample_world) = Inr 3 \<and>
   trace (snd (createBatchWithMetadata sample_outside sample_form sample_world)) =
     [GetNetwork,
      PinFile \<lparr>file_name = ''lot7.png'', file_bytes = ''PNG''\<rparr>,
      PinJSON \<lparr>md_name = ''Wheat'', md_description = ''Lot 7'',
          md_image = Some ''https://gateway.pinata.cloud/ipfs/QmImage'',
          md_attributes = Some [],
          md_batch_properties = Some \<lparr>origin = Some ''Punjab'', quality_grade = None,
            harvest_date = None, expiry_date = None, weight = None, location = None,
            certifications = None\<rparr>,
          md_external_url = None,
          md_created_at = ''2024-01-01T00:00:00.000Z'',
          md_version = ''1.0''\<rparr>,
      SendCreateBatch ''QmDoc'', WaitReceipt] \<and>
   getAllBatchMetadata sample_outside
     (snd (createBatchWithMetadata sample_outside sample_form sample_world)) 3 = Some ''QmDoc'' \<and>
   getBatchInfo (chain (snd (createBatchWithMetadata sample_outside sample_form sample_world))) 3 =
     Inr (3, alice, 1, 400, 400, ''QmDoc'')"
proof -
  have net: "net_reply sample_outside = Inr 31337"
    and cfg: "getBatchTrackerContract sample_outside (Some 31337) =
       Inr \<lparr>config_address = ''0x5FbDB2315678afecb367f032d93F642f64180aa3'', config_abi = []\<rparr>"
    by (simp_all add: sample_outside_def getBatchTrackerContract_def)
  have send: "send_createBatch sample_outside ''QmDoc'' w =
      (Inr [BatchCreated 3 alice 400 ''QmDoc''],
       did WaitReceipt ((did (SendCreateBatch ''QmDoc'') w)\<lparr>chain :=
         sample_state\<lparr>batches := (batches sample_state)(3 :=
             \<lparr>batchId = 3, ownerHistory = [alice], exists = True, createdAt = 400,
              lastTransferAt = 400, ipfsHash = ''QmDoc''\<rparr>),
           batchExists := (batchExists sample_state)(3 := True),
           nextBatchId := 4\<rparr>\<rparr>))"
    if "chain w = sample_state" for w
    using that
    by (simp add: send_createBatch_def Let_def did_def createBatch_def sample_state_eq
        sample_outside_def zeroBatch_def)
  show ?thesis
    unfolding createBatchWithMetadata_def body_normal_form
    by (simp add: net cfg sample_form_def sample_world_def did_def sample_upload send
        setBatchMetadata_def getAllBatchMetadata_def Let_def getBatchInfo_def batchMustExist_def
        lastOwner_def)
       (simp add: sample_outside_def)
qed

theorem external_url_never_uploaded_witness:
  "form_external_url sample_form = Some ''https://example.org/lot7'' \<and>
   uploaded_documents (performed sample_world
      (snd (createBatchWithMetadata sample_outside sample_form sample_world))) =
     [\<lparr>md_name = ''Wheat'', md_description = ''Lot 7'',
       md_image = Some ''https://gateway.pinata.cloud/ipfs/QmImage'',
       md_attributes = Some [],
       md_batch_properties = Some \<lparr>origin = Some ''Punjab'', quality_grade = None,
         harvest_date = None, expiry_date = None, weight = None, location = None,
         certifications = None\<rparr>,
       md_external_url = None,
       md_created_at = ''2024-01-01T00:00:00.000Z'',
       md_version = ''1.0''\<rparr>] \<and>
   list_all (\<lambda>d. md_external_url d = None)
     (uploaded_documents (performed sample_world
        (snd (createBatchWithMetadata sample_outside sample_form sample_world))))"
  using external_url_never_uploaded [of sample_world sample_outside sample_form] sample_create
  by (simp add: performed_def sample_world_def sample_form_def)

text \<open>
  The run once the uploads have succeeded, the contract is configured, the request
  reaches the contract and the contract accepts it: the transaction is mined.
\<close>

lemma createBatchWithMetadata_mined:
  assumes net: "net_reply out = Inr c"
    and up: "fst (uploadBatchWithAssets out (form_name fd) (form_description fd) (form_image fd)
                  (Some \<lparr>origin = form_origin fd, quality_grade = form_quality_grade fd,
                         harvest_date = form_harvest_date fd, expiry_date = form_expiry_date fd,
                         weight = form_weight fd, location = form_location fd,
                         certifications = form_certifications fd\<rparr>)
                  (form_attributes fd) (did GetNetwork w)) = Inr (h, ih, d)"
    and cfg: "getBatchTrackerContract out (Some c) = Inr k"
    and sent: "rpc_fault out (SendCreateBatch h) = None"
    and cb: "createBatch \<lparr>msg_sender = signer_address out, block_timestamp = block_time out\<rparr>
               h (chain w) = Inr (bid, logs, s')"
  shows "createBatchWithMetadata out fd w =
     (case rpc_fault out WaitReceipt of
        Some e \<Rightarrow>
          (Inl (enhanceError e),
           w\<lparr>chain := s',
             trace := trace w @ GetNetwork # upload_actions out (form_name fd) (form_description fd) (form_image fd)
                  (Some \<lparr>origin = form_origin fd, quality_grade = form_quality_grade fd,
                         harvest_date = form_harvest_date fd, expiry_date = form_expiry_date fd,
                         weight = form_weight fd, location = form_location fd,
                         certifications = form_certifications fd\<rparr>)
                  (form_attributes fd) @ [SendCreateBatch h, WaitReceipt]\<rparr>)
      | None \<Rightarrow>
          (Inr (to_number out bid),
           setBatchMetadata out (to_number out bid) h
             (w\<lparr>chain := s',
                trace := trace w @ GetNetwork # upload_actions out (form_name fd) (form_description fd) (form_image fd)
                  (Some \<lparr>origin = form_origin fd, quality_grade = form_quality_grade fd,
                         harvest_date = form_harvest_date fd, expiry_date = form_expiry_date fd,
                         weight = form_weight fd, location = form_location fd,
                         certifications = form_certifications fd\<rparr>)
                  (form_attributes fd) @ [SendCreateBatch h, WaitReceipt]\<rparr>)))"
proof -
  let ?w2 = "w\<lparr>trace := trace w @ GetNetwork # upload_actions out (form_name fd) (form_description fd) (form_image fd)
                  (Some \<lparr>origin = form_origin fd, quality_grade = form_quality_grade fd,
                         harvest_date = form_harvest_date fd, expiry_date = form_expiry_date fd,
                         weight = form_weight fd, location = form_location fd,
                         certifications = form_certifications fd\<rparr>)
                  (form_attributes fd)\<rparr>"
  let ?w3 = "w\<lparr>chain := s',
                trace := trace w @ GetNetwork # upload_actions out (form_name fd) (form_description fd) (form_image fd)
                  (Some \<lparr>origin = form_origin fd, quality_grade = form_quality_grade fd,
                         harvest_date = form_harvest_date fd, expiry_date = form_expiry_date fd,
                         weight = form_weight fd, location = form_location fd,
                         certifications = form_certifications fd\<rparr>)
                  (form_attributes fd) @ [SendCreateBatch h, WaitReceipt]\<rparr>"
  have w2: "snd (uploadBatchWithAssets out (form_name fd) (form_description fd) (form_image fd)
                  (Some \<lparr>origin = form_origin fd, quality_grade = form_quality_grade fd,
                         harvest_date = form_harvest_date fd, expiry_date = form_expiry_date fd,
                         weight = form_weight fd, location = form_location fd,
                         certifications = form_certifications fd\<rparr>)
                  (form_attributes fd) (did GetNetwork w)) = ?w2"
    unfolding upload_world by (simp add: did_def)
  have upeq: "uploadBatchWithAssets out (form_name fd) (form_description fd) (form_image fd)
                  (Some \<lparr>origin = form_origin fd, quality_grade = form_quality_grade fd,
                         harvest_date = form_harvest_date fd, expiry_date = form_expiry_date fd,
                         weight = form_weight fd, location = form_location fd,
                         certifications = form_certifications fd\<rparr>)
                  (form_attributes fd) (did GetNetwork w) = (Inr (h, ih, d), ?w2)"
    using up w2 by (simp add: prod_eq_iff)
  have lg: "find isBatchCreated logs =
              Some (BatchCreated bid (signer_address out) (block_time out) h)"
    using create_logs [OF cb] by simp
  have sd: "send_createBatch out h ?w2 =
      (case rpc_fault out WaitReceipt of Some e \<Rightarrow> (Inl e, ?w3) | None \<Rightarrow> (Inr logs, ?w3))"
    by (simp add: send_createBatch_def Let_def did_def sent cb split: option.splits)
  show ?thesis
    unfolding createBatchWithMetadata_def body_normal_form
    by (simp add: net upeq cfg sd lg split: option.splits)
qed

text \<open>
  Claim C8, as amended. In \<open>createBatchWithMetadata\<close> no upload is made once a contract
  call has been made. When an upload that was made failed, the call throws, the
  contract's storage and the side index are what they were, and no contract call was
  made. When there is an image and a document was uploaded, the image's upload succeeded
  and stands right before the document's, and the document names the image's address
  (when that address is not empty). When the call returns a batch id, the document's
  upload succeeded, the contract ran \<open>createBatch\<close> with the document's address and
  returned that id, and the side index maps the id to that address if the browser's
  storage works; if the storage throws, the index is left as it was. Conversely, when
  the uploads succeed, the contract is configured, the request reaches the contract and
  the contract accepts it, the contract's storage is the one \<open>createBatch\<close> leaves and the
  contract calls made are the request and the wait for its receipt; then, if the receipt
  is obtained, the call returns the new batch's id, also when the browser's storage
  throws, and the side index maps the id to the document's address if the storage works
  and is left as it was if not; if the wait for the receipt fails, the call throws that
  error and the side index is left as it was, although the batch is in the contract's
  storage.
\<close>

theorem createBatchWithMetadata_protocol:
  assumes "createBatchWithMetadata out fd w = (r, w')"
  shows
    "uploads_first (performed w w') \<and>
     (list_ex (upload_failed out) (performed w w') \<longrightarrow>
        (\<exists>e. r = Inl e) \<and> chain w' = chain w \<and> stored_index w' = stored_index w \<and>
        filter is_contract_call (performed w w') = []) \<and>
     (\<forall>f d. form_image fd = Some f \<and> PinJSON d \<in> set (performed w w') \<longrightarrow>
        (\<exists>u post. pin_file out f = Ok200 u \<and>
           performed w w' = GetNetwork # PinFile f # PinJSON d # post \<and>
           md_image d = (if IpfsHash u \<noteq> [] then
                           Some (PINATA_GATEWAY out @ ''/ipfs/'' @ IpfsHash u) else None))) \<and>
     (\<forall>n. r = Inr n \<longrightarrow>
        (\<exists>h u d bid logs.
           PinJSON d \<in> set (performed w w') \<and> pin_json out d = Ok200 u \<and> h = IpfsHash u \<and>
           createBatch \<lparr>msg_sender = signer_address out, block_timestamp = block_time out\<rparr>
             h (chain w) = Inr (bid, logs, chain w') \<and>
           n = to_number out bid \<and>
           (if storage_fault out then stored_index w' = stored_index w
            else getAllBatchMetadata out w' n = Some h))) \<and>
     (\<forall>c h ih d k bid logs s'.
        net_reply out = Inr c \<and>
        fst (uploadBatchWithAssets out (form_name fd) (form_description fd) (form_image fd)
                  (Some \<lparr>origin = form_origin fd, quality_grade = form_quality_grade fd,
                         harvest_date = form_harvest_date fd, expiry_date = form_expiry_date fd,
                         weight = form_weight fd, location = form_location fd,
                         certifications = form_certifications fd\<rparr>)
                  (form_attributes fd) (did GetNetwork w)) = Inr (h, ih, d) \<and>
        getBatchTrackerContract out (Some c) = Inr k \<and>
        rpc_fault out (SendCreateBatch h) = None \<and>
        createBatch \<lparr>msg_sender = signer_address out, block_timestamp = block_time out\<rparr>
          h (chain w) = Inr (bid, logs, s') \<longrightarrow>
        chain w' = s' \<and>
        filter is_contract_call (performed w w') = [SendCreateBatch h, WaitReceipt] \<and>
        (case rpc_fault out WaitReceipt of
           None \<Rightarrow>
             r = Inr (to_number out bid) \<and>
             (if storage_fault out then stored_index w' = stored_index w
              else getAllBatchMetadata out w' (to_number out bid) = Some h)
         | Some e \<Rightarrow>
             r = Inl (enhanceError e) \<and> stored_index w' = stored_index w))"
proof -
  let ?U = "upload_actions out (form_name fd) (form_description fd) (form_image fd)
                  (Some \<lparr>origin = form_origin fd, quality_grade = form_quality_grade fd,
                         harvest_date = form_harvest_date fd, expiry_date = form_expiry_date fd,
                         weight = form_weight fd, location = form_location fd,
                         certifications = form_certifications fd\<rparr>)
                  (form_attributes fd)"
  note kind = upload_actions_kind [of out "form_name fd" "form_description fd" "form_image fd"
      "Some \<lparr>origin = form_origin fd, quality_grade = form_quality_grade fd,
                         harvest_date = form_harvest_date fd, expiry_date = form_expiry_date fd,
                         weight = form_weight fd, location = form_location fd,
                         certifications = form_certifications fd\<rparr>" "form_attributes fd"]
  have shape: "\<exists>cs. performed w w' = GetNetwork # ?U @ cs \<and> list_all is_contract_call cs \<and>
                 (cs = [] \<longrightarrow> chain w' = chain w \<and> stored_index w' = stored_index w) \<and>
                 (cs \<noteq> [] \<longrightarrow> \<not> list_ex (upload_failed out) ?U)"
    if "performed w w' \<noteq> [GetNetwork]"
    using that
  proof (cases rule: createBatchWithMetadata_cases [OF assms])
    case (1 e)
    then show ?thesis using that by (simp add: performed_def)
  next
    case (2 e)
    then show ?thesis by (intro exI [where x = "[]"]) (simp add: performed_def)
  next
    case (3 e)
    then show ?thesis by (intro exI [where x = "[]"]) (simp add: performed_def)
  next
    case (4 e cs)
    then show ?thesis by (intro exI [where x = cs]) (simp add: performed_def)
  next
    case (5 h d u bid logs w3 cs)
    then show ?thesis
      by (intro exI [where x = cs]) (simp add: performed_def setBatchMetadata_sel)
  qed
  have only_network: "r \<noteq> Inr n \<and> chain w' = chain w \<and> stored_index w' = stored_index w"
    if "performed w w' = [GetNetwork]" for n
    using that
  proof (cases rule: createBatchWithMetadata_cases [OF assms])
    case (1 e)
    then show ?thesis by simp
  next
    case (2 e)
    then show ?thesis by simp
  next
    case (3 e)
    then show ?thesis by simp
  next
    case (4 e cs)
    then show ?thesis using that by (simp add: performed_def)
  next
    case (5 h d u bid logs w3 cs)
    then show ?thesis using that by (simp add: performed_def setBatchMetadata_sel)
  qed
  have c1: "uploads_first (performed w w')"
  proof (cases "performed w w' = [GetNetwork]")
    case True
    then show ?thesis by (simp add: uploads_first_def)
  next
    case False
    from shape [OF False] obtain cs where
      cs: "performed w w' = GetNetwork # ?U @ cs" "list_all is_contract_call cs"
      by blast
    have "uploads_first (GetNetwork # ?U @ cs)"
      by (rule uploads_first_shape [OF kind(2) cs(2)])
    then show ?thesis by (simp only: cs(1))
  qed
  have c2: "(\<exists>e. r = Inl e) \<and> chain w' = chain w \<and> stored_index w' = stored_index w \<and>
        filter is_contract_call (performed w w') = []"
    if failed: "list_ex (upload_failed out) (performed w w')"
  proof (cases "performed w w' = [GetNetwork]")
    case True
    with failed show ?thesis by simp
  next
    case False
    from shape [OF False] obtain cs where
      cs: "performed w w' = GetNetwork # ?U @ cs" "list_all is_contract_call cs"
        "cs = [] \<longrightarrow> chain w' = chain w \<and> stored_index w' = stored_index w"
        "cs \<noteq> [] \<longrightarrow> \<not> list_ex (upload_failed out) ?U"
      by blast
    from failed cs(1,2) have "list_ex (upload_failed out) ?U"
      using failed_in_shape by metis
    with cs(4) have e: "cs = []" by blast
    have "\<exists>e. r = Inl e"
    proof (cases rule: createBatchWithMetadata_cases [OF assms])
      case (5 h d u bid logs w3 cs')
      with cs(1) e show ?thesis by (simp add: performed_def setBatchMetadata_sel)
    qed simp_all
    moreover have "filter is_contract_call (performed w w') = []"
      using cs(1) e no_contract_calls [OF kind(2)] by simp
    ultimately show ?thesis using cs(3) e by simp
  qed
  have c3: "\<exists>u post. pin_file out f = Ok200 u \<and>
           performed w w' = GetNetwork # PinFile f # PinJSON d # post \<and>
           md_image d = (if IpfsHash u \<noteq> [] then
                           Some (PINATA_GATEWAY out @ ''/ipfs/'' @ IpfsHash u) else None)"
    if img: "form_image fd = Some f" and up: "PinJSON d \<in> set (performed w w')" for f d
  proof -
    from up have ne: "performed w w' \<noteq> [GetNetwork]" by auto
    from shape [OF ne] obtain cs where
      cs: "performed w w' = GetNetwork # ?U @ cs" "list_all is_contract_call cs"
      by blast
    from up cs have "PinJSON d \<in> set ?U"
      by (auto simp: list_all_iff)
    from upload_image_first [OF img this] cs(1) show ?thesis by auto
  qed
  have c4: "\<exists>h u d bid logs.
           PinJSON d \<in> set (performed w w') \<and> pin_json out d = Ok200 u \<and> h = IpfsHash u \<and>
           createBatch \<lparr>msg_sender = signer_address out, block_timestamp = block_time out\<rparr>
             h (chain w) = Inr (bid, logs, chain w') \<and>
           n = to_number out bid \<and>
           (if storage_fault out then stored_index w' = stored_index w
            else getAllBatchMetadata out w' n = Some h)"
    if ok: "r = Inr n" for n
    using ok
  proof (cases rule: createBatchWithMetadata_cases [OF assms])
    case (5 h d u bid logs w3 cs)
    have "PinJSON d \<in> set (performed w w')"
      using 5 by (simp add: performed_def setBatchMetadata_sel)
    moreover have "if storage_fault out then stored_index w' = stored_index w
            else getAllBatchMetadata out w' n = Some h"
      using 5 ok by (simp add: setBatchMetadata_sel setBatchMetadata_lookup)
    moreover have "createBatch \<lparr>msg_sender = signer_address out, block_timestamp = block_time out\<rparr>
             h (chain w) = Inr (bid, logs, chain w')"
      using 5 by (simp add: setBatchMetadata_sel)
    ultimately show ?thesis using 5 ok by blast
  qed simp_all
  have c5: "chain w' = s' \<and>
        filter is_contract_call (performed w w') = [SendCreateBatch h, WaitReceipt] \<and>
        (case rpc_fault out WaitReceipt of
           None \<Rightarrow>
             r = Inr (to_number out bid) \<and>
             (if storage_fault out then stored_index w' = stored_index w
              else getAllBatchMetadata out w' (to_number out bid) = Some h)
         | Some e \<Rightarrow>
             r = Inl (enhanceError e) \<and> stored_index w' = stored_index w)"
    if net: "net_reply out = Inr c"
      and up: "fst (uploadBatchWithAssets out (form_name fd) (form_description fd) (form_image fd)
                  (Some \<lparr>origin = form_origin fd, quality_grade = form_quality_grade fd,
                         harvest_date = form_harvest_date fd, expiry_date = form_expiry_date fd,
                         weight = form_weight fd, location = form_location fd,
                         certifications = form_certifications fd\<rparr>)
                  (form_attributes fd) (did GetNetwork w)) = Inr (h, ih, d)"
      and cfg: "getBatchTrackerContract out (Some c) = Inr k"
      and sent: "rpc_fault out (SendCreateBatch h) = None"
      and cb: "createBatch \<lparr>msg_sender = signer_address out, block_timestamp = block_time out\<rparr>
                 h (chain w) = Inr (bid, logs, s')"
    for c h ih d k bid logs s'
  proof -
    note mined = createBatchWithMetadata_mined [OF net up cfg sent cb]
    have calls: "filter is_contract_call (GetNetwork # ?U @ [SendCreateBatch h, WaitReceipt]) =
                   [SendCreateBatch h, WaitReceipt]"
      using kind(2) by (simp add: list_all_iff filter_empty_conv)
    show ?thesis
    proof (cases "rpc_fault out WaitReceipt")
      case None
      with mined assms have r: "r = Inr (to_number out bid)"
        and w': "w' = setBatchMetadata out (to_number out bid) h
             (w\<lparr>chain := s',
                trace := trace w @ GetNetwork # ?U @ [SendCreateBatch h, WaitReceipt]\<rparr>)"
        by simp_all
      have "chain w' = s'" unfolding w' by (simp add: setBatchMetadata_sel)
      moreover have "performed w w' = GetNetwork # ?U @ [SendCreateBatch h, WaitReceipt]"
        unfolding w' by (simp add: performed_def setBatchMetadata_sel)
      moreover have "if storage_fault out then stored_index w' = stored_index w
              else getAllBatchMetadata out w' (to_number out bid) = Some h"
        unfolding w' by (simp add: setBatchMetadata_sel setBatchMetadata_lookup)
      ultimately show ?thesis using r None calls by simp
    next
      case (Some e)
      with mined assms have r: "r = Inl (enhanceError e)"
        and w': "w' = w\<lparr>chain := s',
                trace := trace w @ GetNetwork # ?U @ [SendCreateBatch h, WaitReceipt]\<rparr>"
        by simp_all
      have "performed w w' = GetNetwork # ?U @ [SendCreateBatch h, WaitReceipt]"
        unfolding w' by (simp add: performed_def)
      then show ?thesis using r Some calls w' by simp
    qed
  qed
  from c1 c2 c3 c4 c5 show ?thesis by blast
qed

text \<open>
  The sample form in the sample world, for an outside that differs from the sample's
  only in the faults of the node and of the browser's storage: the uploads succeed and
  the contract accepts the request, creating batch 3.
\<close>

lemma sample_mined:
  assumes "out = sample_outside\<lparr>rpc_fault := f, storage_fault := b\<rparr>"
  shows "net_reply out = Inr 31337"
    and "fst (uploadBatchWithAssets out (form_name sample_form) (form_description sample_form)
            (form_image sample_form)
            (Some \<lparr>origin = form_origin sample_form,
                   quality_grade = form_quality_grade sample_form,
                   harvest_date = form_harvest_date sample_form,
                   expiry_date = form_expiry_date sample_form,
                   weight = form_weight sample_form, location = form_location sample_form,
                   certifications = form_certifications sample_form\<rparr>)
            (form_attributes sample_form) (did GetNetwork sample_world)) =
         Inr (''QmDoc'', Some ''QmImage'', \<lparr>md_name = ''Wheat'', md_description = ''Lot 7'',
          md_image = Some ''https://gateway.pinata.cloud/ipfs/QmImage'',
          md_attributes = Some [],
          md_batch_properties = Some \<lparr>origin = Some ''Punjab'', quality_grade = None,
            harvest_date = None, expiry_date = None, weight = None, location = None,
            certifications = None\<rparr>,
          md_external_url = None,
          md_created_at = ''2024-01-01T00:00:00.000Z'',
          md_version = ''1.0''\<rparr>)"
    and "getBatchTrackerContract out (Some 31337) =
       Inr \<lparr>config_address = ''0x5FbDB2315678afecb367f032d93F642f64180aa3'', config_abi = []\<rparr>"
    and "createBatch \<lparr>msg_sender = signer_address out, block_timestamp = block_time out\<rparr>
           ''QmDoc'' (chain sample_world) =
         Inr (3, [BatchCreated 3 alice 400 ''QmDoc''], sample_state\<lparr>batches := (batches sample_state)(3 :=
             \<lparr>batchId = 3, ownerHistory = [alice], exists = True, createdAt = 400,
              lastTransferAt = 400, ipfsHash = ''QmDoc''\<rparr>),
           batchExists := (batchExists sample_state)(3 := True),
           nextBatchId := 4\<rparr>)"
proof -
  show "net_reply out = Inr 31337"
    by (simp add: assms sample_outside_def)
  show "fst (uploadBatchWithAssets out (form_name sample_form) (form_description sample_form)
            (form_image sample_form)
            (Some \<lparr>origin = form_origin sample_form,
                   quality_grade = form_quality_grade sample_form,
                   harvest_date = form_harvest_date sample_form,
                   expiry_date = form_expiry_date sample_form,
                   weight = form_weight sample_form, location = form_location sample_form,
                   certifications = form_certifications sample_form\<rparr>)
            (form_attributes sample_form) (did GetNetwork sample_world)) =
         Inr (''QmDoc'', Some ''QmImage'', \<lparr>md_name = ''Wheat'', md_description = ''Lot 7'',
          md_image = Some ''https://gateway.pinata.cloud/ipfs/QmImage'',
          md_attributes = Some [],
          md_batch_properties = Some \<lparr>origin = Some ''Punjab'', quality_grade = None,
            harvest_date = None, expiry_date = None, weight = None, location = None,
            certifications = None\<rparr>,
          md_external_url = None,
          md_created_at = ''2024-01-01T00:00:00.000Z'',
          md_version = ''1.0''\<rparr>)"
    by (simp add: assms uploadBatchWithAssets_def uploadFile_def uploadJSON_def
        createBatchMetadata_def truthy_def did_def Let_def sample_outside_def sample_form_def
        sample_world_def)
  show "getBatchTrackerContract out (Some 31337) =
       Inr \<lparr>config_address = ''0x5FbDB2315678afecb367f032d93F642f64180aa3'', config_abi = []\<rparr>"
    by (simp add: assms sample_outside_def getBatchTrackerContract_def)
  show "createBatch \<lparr>msg_sender = signer_address out, block_timestamp = block_time out\<rparr>
           ''QmDoc'' (chain sample_world) =
         Inr (3, [BatchCreated 3 alice 400 ''QmDoc''], sample_state\<lparr>batches := (batches sample_state)(3 :=
             \<lparr>batchId = 3, ownerHistory = [alice], exists = True, createdAt = 400,
              lastTransferAt = 400, ipfsHash = ''QmDoc''\<rparr>),
           batchExists := (batchExists sample_state)(3 := True),
           nextBatchId := 4\<rparr>)"
    by (simp add: assms createBatch_def sample_state_eq sample_outside_def zeroBatch_def
        sample_world_def)
qed

text \<open>
  The sample run succeeds and records the document's address for batch 3. With a node
  that fails while the receipt is awaited, the call throws that error and nothing is
  recorded. With a pinning service that refuses the document, the call throws before
  any contract call.
\<close>

theorem createBatchWithMetadata_protocol_witness:
  "fst (createBatchWithMetadata sample_outside
          sample_form sample_world) = Inr 3 \<and>
   uploads_first (performed sample_world
     (snd (createBatchWithMetadata sample_outside
          sample_form sample_world))) \<and>
   filter is_contract_call (performed sample_world
     (snd (createBatchWithMetadata sample_outside
          sample_form sample_world))) =
     [SendCreateBatch ''QmDoc'', WaitReceipt] \<and>
   getAllBatchMetadata sample_outside
     (snd (createBatchWithMetadata sample_outside
          sample_form sample_world)) 3 = Some ''QmDoc'' \<and>
   fst (createBatchWithMetadata (sample_outside\<lparr>rpc_fault :=
            \<lambda>a. if a = WaitReceipt then Some (new_Error ''timeout'') else None\<rparr>)
          sample_form sample_world) = Inl (enhanceError (new_Error ''timeout'')) \<and>
   stored_index (snd (createBatchWithMetadata (sample_outside\<lparr>rpc_fault :=
            \<lambda>a. if a = WaitReceipt then Some (new_Error ''timeout'') else None\<rparr>)
          sample_form sample_world)) = None \<and>
   list_ex (upload_failed (sample_outside\<lparr>pin_json := \<lambda>_. NotOk 500 ''down''\<rparr>))
     (performed sample_world
       (snd (createBatchWithMetadata (sample_outside\<lparr>pin_json := \<lambda>_. NotOk 500 ''down''\<rparr>)
              sample_form sample_world))) \<and>
   (\<exists>e. fst (createBatchWithMetadata (sample_outside\<lparr>pin_json := \<lambda>_. NotOk 500 ''down''\<rparr>)
              sample_form sample_world) = Inl e) \<and>
   chain (snd (createBatchWithMetadata (sample_outside\<lparr>pin_json := \<lambda>_. NotOk 500 ''down''\<rparr>)
              sample_form sample_world)) = sample_state \<and>
   filter is_contract_call (performed sample_world
       (snd (createBatchWithMetadata (sample_outside\<lparr>pin_json := \<lambda>_. NotOk 500 ''down''\<rparr>)
              sample_form sample_world))) = []"
proof -
  let ?bad = "sample_outside\<lparr>pin_json := \<lambda>_. NotOk 500 ''down''\<rparr>"
  let ?late = "(sample_outside\<lparr>rpc_fault :=
            \<lambda>a. if a = WaitReceipt then Some (new_Error ''timeout'') else None\<rparr>)"
  let ?doc = "\<lparr>md_name = ''Wheat'', md_description = ''Lot 7'',
          md_image = Some ''https://gateway.pinata.cloud/ipfs/QmImage'',
          md_attributes = Some [],
          md_batch_properties = Some \<lparr>origin = Some ''Punjab'', quality_grade = None,
            harvest_date = None, expiry_date = None, weight = None, location = None,
            certifications = None\<rparr>,
          md_external_url = None,
          md_created_at = ''2024-01-01T00:00:00.000Z'',
          md_version = ''1.0''\<rparr>"
  have tr: "trace (snd (createBatchWithMetadata ?bad sample_form sample_world)) =
      [GetNetwork, PinFile \<lparr>file_name = ''lot7.png'', file_bytes = ''PNG''\<rparr>, PinJSON ?doc]"
    unfolding createBatchWithMetadata_def body_normal_form
    by (simp add: sample_form_def sample_world_def did_def uploadBatchWithAssets_def
        uploadFile_def uploadJSON_def createBatchMetadata_def truthy_def Let_def
        sample_outside_def)
  have failed: "list_ex (upload_failed ?bad)
     (performed sample_world (snd (createBatchWithMetadata ?bad sample_form sample_world)))"
  proof -
    have "trace sample_world = []" by (simp add: sample_world_def)
    then show ?thesis unfolding performed_def tr by simp
  qed
  have eq_bad: "createBatchWithMetadata ?bad sample_form sample_world =
      (fst (createBatchWithMetadata ?bad sample_form sample_world),
       snd (createBatchWithMetadata ?bad sample_form sample_world))"
    by simp
  have eq_good: "createBatchWithMetadata sample_outside sample_form sample_world =
      (fst (createBatchWithMetadata sample_outside sample_form sample_world),
       snd (createBatchWithMetadata sample_outside sample_form sample_world))"
    by simp
  have eq_late: "createBatchWithMetadata ?late sample_form sample_world =
      (fst (createBatchWithMetadata ?late sample_form sample_world),
       snd (createBatchWithMetadata ?late sample_form sample_world))"
    by simp
  have good_out: "sample_outside =
      sample_outside\<lparr>rpc_fault := rpc_fault sample_outside,
                     storage_fault := storage_fault sample_outside\<rparr>"
    by simp
  have late_out: "?late =
      sample_outside\<lparr>rpc_fault := \<lambda>a. if a = WaitReceipt then Some (new_Error ''timeout'')
                                      else None,
                     storage_fault := storage_fault sample_outside\<rparr>"
    by simp
  note g = sample_mined [OF good_out]
  note l = sample_mined [OF late_out]
  have g_sent: "rpc_fault sample_outside (SendCreateBatch ''QmDoc'') = None"
    and g_wait: "rpc_fault sample_outside WaitReceipt = None"
    and g_store: "\<not> storage_fault sample_outside"
    and g_num: "to_number sample_outside 3 = 3"
    by (simp_all add: sample_outside_def)
  have l_sent: "rpc_fault ?late (SendCreateBatch ''QmDoc'') = None"
    and l_wait: "rpc_fault ?late WaitReceipt = Some (new_Error ''timeout'')"
    by simp_all
  from createBatchWithMetadata_protocol [OF eq_bad] failed
  have bad: "(\<exists>e. fst (createBatchWithMetadata ?bad sample_form sample_world) = Inl e) \<and>
     chain (snd (createBatchWithMetadata ?bad sample_form sample_world)) = chain sample_world \<and>
     filter is_contract_call (performed sample_world
         (snd (createBatchWithMetadata ?bad sample_form sample_world))) = []"
    by blast
  from createBatchWithMetadata_protocol [OF eq_good]
  have good: "uploads_first (performed sample_world
     (snd (createBatchWithMetadata sample_outside sample_form sample_world)))"
    by blast
  note mined_good = createBatchWithMetadata_protocol [OF eq_good, THEN conjunct2, THEN conjunct2,
      THEN conjunct2, THEN conjunct2, rule_format,
      OF conjI [OF g(1) conjI [OF g(2) conjI [OF g(3) conjI [OF g_sent g(4)]]]]]
  note mined_late = createBatchWithMetadata_protocol [OF eq_late, THEN conjunct2, THEN conjunct2,
      THEN conjunct2, THEN conjunct2, rule_format,
      OF conjI [OF l(1) conjI [OF l(2) conjI [OF l(3) conjI [OF l_sent l(4)]]]]]
  from mined_good have recorded:
    "fst (createBatchWithMetadata sample_outside sample_form sample_world) = Inr 3"
    "filter is_contract_call (performed sample_world
       (snd (createBatchWithMetadata sample_outside sample_form sample_world))) =
     [SendCreateBatch ''QmDoc'', WaitReceipt]"
    "getAllBatchMetadata sample_outside
       (snd (createBatchWithMetadata sample_outside sample_form sample_world)) 3 = Some ''QmDoc''"
    by (simp_all add: g_wait g_store g_num)
  from mined_late have thrown:
    "fst (createBatchWithMetadata ?late sample_form sample_world) =
       Inl (enhanceError (new_Error ''timeout''))"
    "stored_index (snd (createBatchWithMetadata ?late sample_form sample_world)) = None"
    by (simp_all add: sample_world_def)
  from bad good failed recorded thrown show ?thesis
    by (simp add: sample_world_def)
qed

text \<open>
  When the browser's storage throws, the batch is created on the chain and its id
  returned, but the side index holds nothing for it. When the node fails while the
  receipt is awaited, the batch is created on the chain as well, the browser's storage
  works, and yet the call throws and the side index holds nothing for the batch.
\<close>

theorem side_index_not_recorded:
  "fst (createBatchWithMetadata (sample_outside\<lparr>storage_fault := True\<rparr>)
          sample_form sample_world) = Inr 3 \<and>
   batchExists (chain (snd (createBatchWithMetadata (sample_outside\<lparr>storage_fault := True\<rparr>)
          sample_form sample_world))) 3 \<and>
   stored_index (snd (createBatchWithMetadata (sample_outside\<lparr>storage_fault := True\<rparr>)
          sample_form sample_world)) = None \<and>
   getAllBatchMetadata sample_outside
     (snd (createBatchWithMetadata (sample_outside\<lparr>storage_fault := True\<rparr>)
          sample_form sample_world)) 3 = None \<and>
   fst (createBatchWithMetadata (sample_outside\<lparr>rpc_fault :=
            \<lambda>a. if a = WaitReceipt then Some (new_Error ''timeout'') else None\<rparr>)
          sample_form sample_world) = Inl (enhanceError (new_Error ''timeout'')) \<and>
   batchExists (chain (snd (createBatchWithMetadata (sample_outside\<lparr>rpc_fault :=
            \<lambda>a. if a = WaitReceipt then Some (new_Error ''timeout'') else None\<rparr>)
          sample_form sample_world))) 3 \<and>
   storage_fault (sample_outside\<lparr>rpc_fault :=
            \<lambda>a. if a = WaitReceipt then Some (new_Error ''timeout'') else None\<rparr>) = False \<and>
   stored_index (snd (createBatchWithMetadata (sample_outside\<lparr>rpc_fault :=
            \<lambda>a. if a = WaitReceipt then Some (new_Error ''timeout'') else None\<rparr>)
          sample_form sample_world)) = None \<and>
   getAllBatchMetadata sample_outside
     (snd (createBatchWithMetadata (sample_outside\<lparr>rpc_fault :=
            \<lambda>a. if a = WaitReceipt then Some (new_Error ''timeout'') else None\<rparr>)
          sample_form sample_world)) 3 = None"
proof -
  let ?full = "(sample_outside\<lparr>storage_fault := True\<rparr>)"
  let ?late = "(sample_outside\<lparr>rpc_fault :=
            \<lambda>a. if a = WaitReceipt then Some (new_Error ''timeout'') else None\<rparr>)"
  have full_out: "?full =
      sample_outside\<lparr>rpc_fault := rpc_fault sample_outside, storage_fault := True\<rparr>"
    by simp
  have late_out: "?late =
      sample_outside\<lparr>rpc_fault := \<lambda>a. if a = WaitReceipt then Some (new_Error ''timeout'')
                                      else None,
                     storage_fault := storage_fault sample_outside\<rparr>"
    by simp
  note f = sample_mined [OF full_out]
  note l = sample_mined [OF late_out]
  have f_sent: "rpc_fault ?full (SendCreateBatch ''QmDoc'') = None"
    by (simp add: sample_outside_def)
  have l_sent: "rpc_fault ?late (SendCreateBatch ''QmDoc'') = None"
    and l_store: "storage_fault ?late = False"
    by (simp_all add: sample_outside_def)
  note full = createBatchWithMetadata_mined [OF f(1) f(2) f(3) f_sent f(4)]
  note late = createBatchWithMetadata_mined [OF l(1) l(2) l(3) l_sent l(4)]
  have 1: "fst (createBatchWithMetadata ?full sample_form sample_world) = Inr 3"
    and 2: "batchExists (chain (snd (createBatchWithMetadata ?full sample_form sample_world))) 3"
    and 3: "stored_index (snd (createBatchWithMetadata ?full sample_form sample_world)) = None"
    and 4: "getAllBatchMetadata sample_outside
              (snd (createBatchWithMetadata ?full sample_form sample_world)) 3 = None"
    unfolding full
    by (simp_all add: setBatchMetadata_sel getAllBatchMetadata_def sample_world_def
        sample_outside_def)
  have 5: "fst (createBatchWithMetadata ?late sample_form sample_world) =
             Inl (enhanceError (new_Error ''timeout''))"
    and 6: "batchExists (chain (snd (createBatchWithMetadata ?late sample_form sample_world))) 3"
    and 7: "stored_index (snd (createBatchWithMetadata ?late sample_form sample_world)) = None"
    and 8: "getAllBatchMetadata sample_outside
              (snd (createBatchWithMetadata ?late sample_form sample_world)) 3 = None"
    unfolding late
    by (simp_all add: getAllBatchMetadata_def sample_world_def sample_outside_def)
  from 1 2 3 4 5 6 l_store 7 8 show ?thesis by (intro conjI)
qed

lemma eth_call_sel:
  "snd (eth_call out a f w) = did a w"
  "fst (eth_call out a f w) =
     (case rpc_fault out a of
         Some e \<Rightarrow> Inl e
       | None \<Rightarrow> (case f (chain w) of Inl e \<Rightarrow> Inl (revert_error out e) | Inr v \<Rightarrow> Inr v))"
  by (simp_all add: eth_call_def)

lemma owner_query_world:
  "snd (contract_getCurrentOwner out i w) =
     (if i < 2 ^ 53 then did (CallGetCurrentOwner i) w else w)"
  by (simp add: contract_getCurrentOwner_def encode_uint_def eth_call_def
      split: sum.splits prod.splits option.splits)

lemma owner_query_indep:
  "chain w' = chain w \<Longrightarrow>
   fst (contract_getCurrentOwner out i w') = fst (contract_getCurrentOwner out i w)"
  by (simp add: contract_getCurrentOwner_def encode_uint_def eth_call_def
      split: sum.splits prod.splits option.splits)

lemma info_read_indep:
  "chain w' = chain w \<Longrightarrow>
   fst (getBatchInfo_client out i w') = fst (getBatchInfo_client out i w)"
  by (simp add: getBatchInfo_client_def getNetwork_def contract_getBatchInfo_def encode_uint_def
      eth_call_def did_def split: sum.splits prod.splits option.splits)

lemma info_read_world:
  "\<exists>xs. trace (snd (getBatchInfo_client out i w)) = trace w @ xs \<and>
        list_all (\<lambda>a. \<not> is_owner_query a) xs \<and>
        chain (snd (getBatchInfo_client out i w)) = chain w \<and>
        stored_index (snd (getBatchInfo_client out i w)) = stored_index w"
proof (cases "net_reply out")
  case (Inl e)
  then show ?thesis
    by (intro exI [where x = "[GetNetwork]"])
       (simp add: getBatchInfo_client_def getNetwork_def did_def)
next
  case net: (Inr c)
  show ?thesis
  proof (cases "getBatchTrackerContract out (Some c)")
    case (Inl e)
    with net show ?thesis
      by (intro exI [where x = "[GetNetwork]"])
         (simp add: getBatchInfo_client_def getNetwork_def did_def)
  next
    case (Inr k)
    show ?thesis
    proof (cases "i < 2 ^ 53")
      case True
      with net Inr show ?thesis
        by (intro exI [where x = "[GetNetwork, CallGetBatchInfo i]"])
           (simp add: getBatchInfo_client_def getNetwork_def contract_getBatchInfo_def
              encode_uint_def eth_call_def did_def split: sum.splits prod.splits option.splits)
    next
      case False
      with net Inr show ?thesis
        by (intro exI [where x = "[GetNetwork]"])
           (simp add: getBatchInfo_client_def getNetwork_def contract_getBatchInfo_def
              encode_uint_def did_def)
    qed
  qed
qed

lemma owned_round_indep:
  assumes "chain w' = chain w"
  shows "owned_round out user w' i = owned_round out user w i"
  unfolding owned_round_def
  by (simp only: owner_query_indep [OF assms] info_read_indep [OF assms])

text \<open>One round of the loop.\<close>

lemma ownedLoop_round:
  assumes "i \<le> tot"
  shows "\<exists>w1 xs. ownedLoop out user i tot acc w =
                   ownedLoop out user (i + 1) tot (acc @ owned_round out user w i) w1 \<and>
                 chain w1 = chain w \<and> stored_index w1 = stored_index w \<and>
                 trace w1 = trace w @ xs \<and>
                 filter is_owner_query xs = (if i < 2 ^ 53 then [CallGetCurrentOwner i] else [])"
proof -
  obtain r1 w1 where q: "contract_getCurrentOwner out i w = (r1, w1)"
    by (cases "contract_getCurrentOwner out i w")
  then have w1: "w1 = (if i < 2 ^ 53 then did (CallGetCurrentOwner i) w else w)"
    using owner_query_world [of out i w] by simp
  then have c1: "chain w1 = chain w" "stored_index w1 = stored_index w"
    and t1: "trace w1 = trace w @ (if i < 2 ^ 53 then [CallGetCurrentOwner i] else [])"
    by (simp_all add: did_def)
  from q have f1: "fst (contract_getCurrentOwner out i w) = r1" by simp
  show ?thesis
  proof (cases r1)
    case (Inl e)
    with q assms have "ownedLoop out user i tot acc w = ownedLoop out user (i + 1) tot acc w1"
      by (simp add: ownedLoop.simps [of out user i tot acc w])
    moreover have "owned_round out user w i = []"
      using f1 Inl by (simp add: owned_round_def)
    ultimately show ?thesis using c1 t1
      by (intro exI [where x = w1]
          exI [where x = "if i < 2 ^ 53 then [CallGetCurrentOwner i] else []"]) simp
  next
    case (Inr owner)
    show ?thesis
    proof (cases "toLowerCase out owner = toLowerCase out user")
      case False
      with q Inr assms
      have "ownedLoop out user i tot acc w = ownedLoop out user (i + 1) tot acc w1"
        by (simp add: ownedLoop.simps [of out user i tot acc w])
      moreover have "owned_round out user w i = []"
        using f1 Inr False by (simp add: owned_round_def)
      ultimately show ?thesis using c1 t1
        by (intro exI [where x = w1]
            exI [where x = "if i < 2 ^ 53 then [CallGetCurrentOwner i] else []"]) simp
    next
      case True
      obtain r2 w2 where g: "getBatchInfo_client out i w1 = (r2, w2)"
        by (cases "getBatchInfo_client out i w1")
      from info_read_world [of out i w1] g obtain ys where
        ys: "trace w2 = trace w1 @ ys" "list_all (\<lambda>a. \<not> is_owner_query a) ys"
          "chain w2 = chain w1" "stored_index w2 = stored_index w1"
        by auto
      have f2: "fst (getBatchInfo_client out i w) = r2"
        using info_read_indep [OF c1(1), of out i] g by simp
      have step: "ownedLoop out user i tot acc w =
            ownedLoop out user (i + 1) tot
              (acc @ (case r2 of Inl e \<Rightarrow> [] | Inr b \<Rightarrow> [b])) w2"
        using q Inr True g assms
        by (cases r2) (simp_all add: ownedLoop.simps [of out user i tot acc w])
      have rd: "owned_round out user w i = (case r2 of Inl e \<Rightarrow> [] | Inr b \<Rightarrow> [b])"
        using f1 Inr True f2 by (simp add: owned_round_def)
      have fl: "filter is_owner_query ys = []"
        using ys(2) by (simp add: list_all_iff filter_empty_conv)
      show ?thesis
        using step rd ys c1 t1 fl
        by (intro exI [where x = w2]
            exI [where x = "(if i < 2 ^ 53 then [CallGetCurrentOwner i] else []) @ ys"]) simp
    qed
  qed
qed

lemma ownedLoop_result:
  "\<exists>xs. fst (ownedLoop out user i tot acc w) =
           acc @ concat (map (owned_round out user w) [i ..< Suc tot]) \<and>
        chain (snd (ownedLoop out user i tot acc w)) = chain w \<and>
        stored_index (snd (ownedLoop out user i tot acc w)) = stored_index w \<and>
        trace (snd (ownedLoop out user i tot acc w)) = trace w @ xs \<and>
        (tot < 2 ^ 53 \<longrightarrow>
           filter is_owner_query xs = map CallGetCurrentOwner [i ..< Suc tot])"
proof (induction "Suc tot - i" arbitrary: i acc w)
  case 0
  then have "\<not> i \<le> tot" by simp
  then show ?case
    by (intro exI [where x = "[]"]) (simp add: ownedLoop.simps [of out user i tot acc w])
next
  case (Suc k)
  then have le: "i \<le> tot" and k: "k = Suc tot - (i + 1)" by simp_all
  from ownedLoop_round [OF le, of out user acc w] obtain w1 ys where
    r: "ownedLoop out user i tot acc w =
          ownedLoop out user (i + 1) tot (acc @ owned_round out user w i) w1"
    and w1: "chain w1 = chain w" "stored_index w1 = stored_index w" "trace w1 = trace w @ ys"
    and ys: "filter is_owner_query ys = (if i < 2 ^ 53 then [CallGetCurrentOwner i] else [])"
    by blast
  from Suc.hyps(1) [OF k, of "acc @ owned_round out user w i" w1] obtain zs where
    ih: "fst (ownedLoop out user (i + 1) tot (acc @ owned_round out user w i) w1) =
           (acc @ owned_round out user w i) @
             concat (map (owned_round out user w1) [i + 1 ..< Suc tot])"
      "chain (snd (ownedLoop out user (i + 1) tot (acc @ owned_round out user w i) w1)) = chain w1"
      "stored_index (snd (ownedLoop out user (i + 1) tot (acc @ owned_round out user w i) w1)) =
         stored_index w1"
      "trace (snd (ownedLoop out user (i + 1) tot (acc @ owned_round out user w i) w1)) =
         trace w1 @ zs"
      "tot < 2 ^ 53 \<longrightarrow>
           filter is_owner_query zs = map CallGetCurrentOwner [i + 1 ..< Suc tot]"
    by blast
  have same: "map (owned_round out user w1) [i + 1 ..< Suc tot] =
              map (owned_round out user w) [i + 1 ..< Suc tot]"
    using owned_round_indep [OF w1(1)] by simp
  have upt: "[i ..< Suc tot] = i # [i + 1 ..< Suc tot]"
    using le by (simp add: upt_rec)
  have small: "tot < 2 ^ 53 \<longrightarrow> i < 2 ^ 53" using le by simp
  show ?case
    apply (rule exI [where x = "ys @ zs"])
    unfolding r ih same upt
    using w1 ys ih(5) small by (simp add: upt)
qed

lemma total_read_indep:
  "chain w' = chain w \<Longrightarrow>
   fst (getTotalBatches_client out w') = fst (getTotalBatches_client out w)"
  by (simp add: getTotalBatches_client_def getNetwork_def contract_getTotalBatches_def
      eth_call_def did_def split: sum.splits prod.splits option.splits)

lemma total_read_world:
  "\<exists>xs. trace (snd (getTotalBatches_client out w)) = trace w @ xs \<and>
        list_all (\<lambda>a. \<not> is_owner_query a) xs \<and>
        chain (snd (getTotalBatches_client out w)) = chain w \<and>
        stored_index (snd (getTotalBatches_client out w)) = stored_index w"
proof (cases "net_reply out")
  case (Inl e)
  then show ?thesis
    by (intro exI [where x = "[GetNetwork]"])
       (simp add: getTotalBatches_client_def getNetwork_def did_def)
next
  case net: (Inr c)
  show ?thesis
  proof (cases "getBatchTrackerContract out (Some c)")
    case (Inl e)
    with net show ?thesis
      by (intro exI [where x = "[GetNetwork]"])
         (simp add: getTotalBatches_client_def getNetwork_def did_def)
  next
    case (Inr k)
    with net show ?thesis
      by (intro exI [where x = "[GetNetwork, CallGetTotalBatches]"])
         (simp add: getTotalBatches_client_def getNetwork_def contract_getTotalBatches_def
            eth_call_def did_def split: sum.splits prod.splits option.splits)
  qed
qed

lemma getUserOwnedBatches_general:
  assumes "getUserOwnedBatches out user w = (r, w')"
  shows "chain w' = chain w \<and>
     (\<forall>bs. r = Inr bs \<longrightarrow>
        (\<exists>tot. fst (getTotalBatches_client out w) = Inr tot \<and>
               bs = concat (map (owned_round out user w) [1 ..< Suc tot]) \<and>
               (tot < 2 ^ 53 \<longrightarrow>
                  filter is_owner_query (performed w w') =
                    map CallGetCurrentOwner [1 ..< Suc tot])))"
proof (cases "net_reply out")
  case (Inl e)
  with assms show ?thesis
    by (auto simp: getUserOwnedBatches_def getNetwork_def did_def)
next
  case net: (Inr c)
  let ?w1 = "did GetNetwork w"
  show ?thesis
  proof (cases "getBatchTrackerContract out (Some c)")
    case (Inl e)
    with assms net show ?thesis
      by (auto simp: getUserOwnedBatches_def getNetwork_def did_def)
  next
    case cfg: (Inr k)
    obtain rt w2 where t: "getTotalBatches_client out ?w1 = (rt, w2)"
      by (cases "getTotalBatches_client out ?w1")
    from total_read_world [of out ?w1] t obtain xs where
      xs: "trace w2 = trace ?w1 @ xs" "list_all (\<lambda>a. \<not> is_owner_query a) xs"
        "chain w2 = chain ?w1"
      by auto
    have c2: "chain w2 = chain w" using xs(3) by (simp add: did_def)
    have rt: "fst (getTotalBatches_client out w) = rt"
      using total_read_indep [of ?w1 w out] t by (simp add: did_def)
    show ?thesis
    proof (cases rt)
      case (Inl e)
      with assms net cfg t c2 show ?thesis
        by (auto simp: getUserOwnedBatches_def getNetwork_def)
    next
      case (Inr tot)
      from ownedLoop_result [of out user 1 tot "[]" w2] obtain ys where
        ys: "fst (ownedLoop out user 1 tot [] w2) =
               concat (map (owned_round out user w2) [1 ..< Suc tot])"
          "chain (snd (ownedLoop out user 1 tot [] w2)) = chain w2"
          "trace (snd (ownedLoop out user 1 tot [] w2)) = trace w2 @ ys"
          "tot < 2 ^ 53 \<longrightarrow> filter is_owner_query ys = map CallGetCurrentOwner [1 ..< Suc tot]"
        by auto
      from assms net cfg t Inr
      have res: "r = Inr (fst (ownedLoop out user 1 tot [] w2))"
        "w' = snd (ownedLoop out user 1 tot [] w2)"
        by (auto simp: getUserOwnedBatches_def getNetwork_def split: prod.splits)
      have same: "map (owned_round out user w2) [1 ..< Suc tot] =
                  map (owned_round out user w) [1 ..< Suc tot]"
        using owned_round_indep [OF c2] by simp
      have tr: "performed w w' = GetNetwork # xs @ ys"
        using res(2) ys(3) xs(1) by (simp add: performed_def did_def)
      have fx: "filter is_owner_query xs = []"
        using xs(2) by (simp add: list_all_iff filter_empty_conv)
      have fl: "filter is_owner_query (performed w w') = filter is_owner_query ys"
        unfolding tr using fx by simp
      have bs: "r = Inr (concat (map (owned_round out user w) [1 ..< Suc tot]))"
        by (simp only: res(1) ys(1) same)
      have qs: "tot < 2 ^ 53 \<longrightarrow>
          filter is_owner_query (performed w w') = map CallGetCurrentOwner [1 ..< Suc tot]"
        unfolding fl by (rule ys(4))
      have ch: "chain w' = chain w"
        by (simp only: res(2) ys(2) c2)
      have rt': "fst (getTotalBatches_client out w) = Inr tot"
        by (simp only: rt Inr)
      show ?thesis
      proof (intro conjI allI impI)
        show "chain w' = chain w" by (rule ch)
      next
        fix bs' assume "r = Inr bs'"
        with bs have "bs' = concat (map (owned_round out user w) [1 ..< Suc tot])"
          by (simp only: sum.inject)
        with rt' qs
        show "\<exists>tot. fst (getTotalBatches_client out w) = Inr tot \<and>
               bs' = concat (map (owned_round out user w) [1 ..< Suc tot]) \<and>
               (tot < 2 ^ 53 \<longrightarrow>
                  filter is_owner_query (performed w w') =
                    map CallGetCurrentOwner [1 ..< Suc tot])"
          by blast
      qed
    qed
  qed
qed

lemma concat_map_if:
  "concat (map (\<lambda>i. if P i then [f i] else []) xs) = map f (filter P xs)"
  by (induction xs) simp_all

lemma reachable_round:
  assumes nofault: "rpc_fault out = (\<lambda>_. None)"
    and net: "net_reply out = Inr c" and cfg: "getBatchTrackerContract out (Some c) = Inr k"
    and s: "chain w = run txs constructor"
    and small: "unat (nextBatchId (chain w) - 1) < 2 ^ 53"
    and i: "1 \<le> i" "i \<le> unat (nextBatchId (chain w) - 1)"
  shows "owned_round out user w i =
           (if owner_matches out (chain w) user i then [batch_record out (chain w) i] else [])"
proof -
  have wf: "wf (chain w)" unfolding s by (simp add: wf_run wf_constructor)
  then have pos: "0 < unat (nextBatchId (chain w))" by (rule wf_next_pos)
  then have pred: "unat (nextBatchId (chain w) - 1) = unat (nextBatchId (chain w)) - 1"
    by (simp add: unat_minus_one unat_gt_0)
  have i53: "i < 2 ^ 53" using i small by simp
  then have "i < 2 ^ 256"
    by (rule less_trans) simp
  then have ui: "unat (of_nat i :: uint256) = i" by (rule of_nat_unat_bound)
  have ex: "batchExists (chain w) (of_nat i)"
    using i pred pos by (simp add: wf_exists_unat [OF wf] ui)
  with wf have ne: "ownerHistory (batches (chain w) (of_nat i)) \<noteq> []"
    by (simp add: wf_def)
  have own: "fst (contract_getCurrentOwner out i w) =
               Inr (checksum out (last (ownerHistory (batches (chain w) (of_nat i)))))"
    using i53 ex ne nofault
    by (simp add: contract_getCurrentOwner_def encode_uint_def eth_call_def getCurrentOwner_def
        batchMustExist_def lastOwner_last)
  have info: "fst (getBatchInfo_client out i w) = Inr (batch_record out (chain w) i)"
    using i53 ex ne nofault net cfg
    by (simp add: getBatchInfo_client_def getNetwork_def contract_getBatchInfo_def
        encode_uint_def eth_call_def getBatchInfo_def batchMustExist_def lastOwner_last
        batch_record_def Let_def did_def)
  show ?thesis
    by (simp add: owned_round_def own info owner_matches_def)
qed

lemma getUserOwnedBatches_returns:
  assumes "net_reply out = Inr c" "getBatchTrackerContract out (Some c) = Inr k"
    "fst (getTotalBatches_client out w) = Inr tot"
  shows "\<exists>bs. fst (getUserOwnedBatches out user w) = Inr bs"
proof -
  let ?w1 = "did GetNetwork w"
  have "fst (getTotalBatches_client out ?w1) = Inr tot"
    using total_read_indep [of ?w1 w out] assms(3) by (simp add: did_def)
  then obtain w2 where "getTotalBatches_client out ?w1 = (Inr tot, w2)"
    by (cases "getTotalBatches_client out ?w1") simp
  with assms(1,2) show ?thesis
    by (simp add: getUserOwnedBatches_def getNetwork_def split: prod.splits)
qed

lemma reachable_total:
  assumes "rpc_fault out = (\<lambda>_. None)" "net_reply out = Inr c"
    "getBatchTrackerContract out (Some c) = Inr k" "chain w = run txs constructor"
  shows "fst (getTotalBatches_client out w) = Inr (to_number out (nextBatchId (chain w) - 1))"
proof -
  have "wf (chain w)" unfolding assms(4) by (simp add: wf_run wf_constructor)
  then have "nextBatchId (chain w) \<noteq> 0" by (simp add: wf_def)
  with assms(1,2,3) show ?thesis
    by (simp add: getTotalBatches_client_def getNetwork_def contract_getTotalBatches_def
        eth_call_def getTotalBatches_def did_def)
qed

text \<open>
  Claim C9, as amended. \<open>getUserOwnedBatches\<close> never changes the contract. When it
  returns, it has read the total, asked for the current owner of every id from 1 to the
  total, in ascending order, and it returns, in that order, the record of every id for
  which the owner query and the record read both succeeded and the owner is
  \<open>userAddress\<close> up to the case of letters; an id for which either call threw is left
  out. On the storage reached by any history, when no call fails, the network is
  supported and the total is below \<open>2^53\<close>, the result is exactly the records of the
  batches whose current owner matches \<open>userAddress\<close>, in ascending order of id.
\<close>

theorem getUserOwnedBatches_scan:
  assumes "getUserOwnedBatches out user w = (r, w')"
  shows
    "chain w' = chain w \<and>
     (\<forall>bs. r = Inr bs \<longrightarrow>
        (\<exists>tot. fst (getTotalBatches_client out w) = Inr tot \<and>
               bs = concat (map (owned_round out user w) [1 ..< Suc tot]) \<and>
               (tot < 2 ^ 53 \<longrightarrow>
                  filter is_owner_query (performed w w') =
                    map CallGetCurrentOwner [1 ..< Suc tot]))) \<and>
     (rpc_fault out = (\<lambda>_. None) \<and> net_reply out = Inr c \<and>
      getBatchTrackerContract out (Some c) = Inr k \<and> chain w = run txs constructor \<and>
      to_number out (nextBatchId (chain w) - 1) = unat (nextBatchId (chain w) - 1) \<and>
      unat (nextBatchId (chain w) - 1) < 2 ^ 53 \<longrightarrow>
        r = Inr (map (batch_record out (chain w))
                   (filter (owner_matches out (chain w) user)
                      [1 ..< Suc (unat (nextBatchId (chain w) - 1))])) \<and>
        filter is_owner_query (performed w w') =
          map CallGetCurrentOwner [1 ..< Suc (unat (nextBatchId (chain w) - 1))])"
proof -
  note gen = getUserOwnedBatches_general [OF assms]
  have exact: "r = Inr (map (batch_record out (chain w))
                   (filter (owner_matches out (chain w) user)
                      [1 ..< Suc (unat (nextBatchId (chain w) - 1))])) \<and>
        filter is_owner_query (performed w w') =
          map CallGetCurrentOwner [1 ..< Suc (unat (nextBatchId (chain w) - 1))]"
    if h: "rpc_fault out = (\<lambda>_. None)" "net_reply out = Inr c"
      "getBatchTrackerContract out (Some c) = Inr k" "chain w = run txs constructor"
      "to_number out (nextBatchId (chain w) - 1) = unat (nextBatchId (chain w) - 1)"
      "unat (nextBatchId (chain w) - 1) < 2 ^ 53"
  proof -
    let ?n = "unat (nextBatchId (chain w) - 1)"
    have tot: "fst (getTotalBatches_client out w) = Inr ?n"
      using reachable_total [OF h(1-4)] h(5) by simp
    from getUserOwnedBatches_returns [OF h(2,3) tot, of user] assms
    obtain bs where bs: "r = Inr bs" by auto
    with gen obtain tot' where
      t: "fst (getTotalBatches_client out w) = Inr tot'"
        "bs = concat (map (owned_round out user w) [1 ..< Suc tot'])"
        "tot' < 2 ^ 53 \<longrightarrow>
           filter is_owner_query (performed w w') = map CallGetCurrentOwner [1 ..< Suc tot']"
      by blast
    from t(1) tot have eq: "tot' = ?n" by simp
    have rounds: "map (owned_round out user w) [1 ..< Suc ?n] =
        map (\<lambda>i. if owner_matches out (chain w) user i
                  then [batch_record out (chain w) i] else []) [1 ..< Suc ?n]"
    proof (rule map_cong [OF refl])
      fix i assume "i \<in> set [1 ..< Suc ?n]"
      then have "1 \<le> i" "i \<le> ?n" by (simp_all only: set_upt atLeastLessThan_iff less_Suc_eq_le)
      then show "owned_round out user w i =
         (if owner_matches out (chain w) user i then [batch_record out (chain w) i] else [])"
        by (rule reachable_round [OF h(1-4) h(6)])
    qed
    have "bs = map (batch_record out (chain w))
                 (filter (owner_matches out (chain w) user) [1 ..< Suc ?n])"
      unfolding t(2) eq rounds by (rule concat_map_if)
    moreover have "filter is_owner_query (performed w w') =
          map CallGetCurrentOwner [1 ..< Suc ?n]"
      using t(3) h(6) unfolding eq by blast
    ultimately show ?thesis using bs by simp
  qed
  from gen exact show ?thesis by blast
qed

text \<open>Bob owns batches 1 and 2 of the sample; asked in capitals, both come back.\<close>

theorem getUserOwnedBatches_scan_witness:
  "fst (getUserOwnedBatches sample_outside ''0xB0B'' sample_world) =
     Inr [\<lparr>info_batchId = 1, info_currentOwner = ''0xB0b'', info_ownerCount = 2,
           info_createdAt = 100, info_lastTransferAt = 200, info_ipfsHash = Some ''QmA'',
           info_metadata = Undefined\<rparr>,
          \<lparr>info_batchId = 2, info_currentOwner = ''0xB0b'', info_ownerCount = 1,
           info_createdAt = 300, info_lastTransferAt = 300, info_ipfsHash = None,
           info_metadata = Undefined\<rparr>] \<and>
   filter is_owner_query (performed sample_world
       (snd (getUserOwnedBatches sample_outside ''0xB0B'' sample_world))) =
     [CallGetCurrentOwner 1, CallGetCurrentOwner 2] \<and>
   chain (snd (getUserOwnedBatches sample_outside ''0xB0B'' sample_world)) = sample_state"
proof -
  have eq: "getUserOwnedBatches sample_outside ''0xB0B'' sample_world =
      (fst (getUserOwnedBatches sample_outside ''0xB0B'' sample_world),
       snd (getUserOwnedBatches sample_outside ''0xB0B'' sample_world))"
    by simp
  have h1: "rpc_fault sample_outside = (\<lambda>_. None)"
    and h2: "net_reply sample_outside = Inr 31337"
    and h3: "getBatchTrackerContract sample_outside (Some 31337) =
       Inr \<lparr>config_address = ''0x5FbDB2315678afecb367f032d93F642f64180aa3'', config_abi = []\<rparr>"
    by (simp_all add: sample_outside_def getBatchTrackerContract_def)
  have h4: "chain sample_world = run sample_history constructor"
    by (simp add: sample_world_def sample_state_def)
  have nx: "nextBatchId (chain sample_world) - 1 = 2"
    by (simp add: sample_world_def sample_state_eq)
  have h5: "to_number sample_outside (nextBatchId (chain sample_world) - 1) =
              unat (nextBatchId (chain sample_world) - 1)"
    by (simp add: sample_outside_def)
  have h6: "unat (nextBatchId (chain sample_world) - 1) < 2 ^ 53"
    unfolding nx by simp
  have cs: "chain sample_world = sample_state"
    by (simp add: sample_world_def)
  have ids: "[1 ..< Suc (unat (nextBatchId sample_state - 1))] = [1, 2]"
    using nx unfolding cs by (simp add: upt_rec)
  have m: "owner_matches sample_outside sample_state ''0xB0B'' 1"
    "owner_matches sample_outside sample_state ''0xB0B'' 2"
    by (simp_all add: owner_matches_def sample_state_eq sample_outside_def
        ascii_lower_def alice_def bob_def)
  have r: "batch_record sample_outside sample_state 1 =
       \<lparr>info_batchId = 1, info_currentOwner = ''0xB0b'', info_ownerCount = 2,
           info_createdAt = 100, info_lastTransferAt = 200, info_ipfsHash = Some ''QmA'',
           info_metadata = Undefined\<rparr>"
    "batch_record sample_outside sample_state 2 =
       \<lparr>info_batchId = 2, info_currentOwner = ''0xB0b'', info_ownerCount = 1,
           info_createdAt = 300, info_lastTransferAt = 300, info_ipfsHash = None,
           info_metadata = Undefined\<rparr>"
    by (simp_all add: batch_record_def Let_def sample_state_eq sample_outside_def
        alice_def bob_def)
  have flt: "filter (owner_matches sample_outside sample_state ''0xB0B'') [1, 2] = [1, 2]"
    using m by simp
  have mp: "map (batch_record sample_outside sample_state) [1, 2] =
     [\<lparr>info_batchId = 1, info_currentOwner = ''0xB0b'', info_ownerCount = 2,
           info_createdAt = 100, info_lastTransferAt = 200, info_ipfsHash = Some ''QmA'',
           info_metadata = Undefined\<rparr>,
          \<lparr>info_batchId = 2, info_currentOwner = ''0xB0b'', info_ownerCount = 1,
           info_createdAt = 300, info_lastTransferAt = 300, info_ipfsHash = None,
           info_metadata = Undefined\<rparr>]"
    using r by simp
  have qs: "map CallGetCurrentOwner [1, 2] = [CallGetCurrentOwner 1, CallGetCurrentOwner 2]"
    by simp
  from getUserOwnedBatches_scan [OF eq, of 31337 _ sample_history] h1 h2 h3 h4 h5 h6
  have "fst (getUserOwnedBatches sample_outside ''0xB0B'' sample_world) =
          Inr (map (batch_record sample_outside (chain sample_world))
                 (filter (owner_matches sample_outside (chain sample_world) ''0xB0B'')
                    [1 ..< Suc (unat (nextBatchId (chain sample_world) - 1))]))"
    and "filter is_owner_query (performed sample_world
           (snd (getUserOwnedBatches sample_outside ''0xB0B'' sample_world))) =
          map CallGetCurrentOwner [1 ..< Suc (unat (nextBatchId (chain sample_world) - 1))]"
    and "chain (snd (getUserOwnedBatches sample_outside ''0xB0B'' sample_world)) =
          chain sample_world"
    by blast+
  then show ?thesis
    unfolding cs ids flt mp qs by (intro conjI)
qed

text \<open>
  When the owner query for batch 2 fails, the batch is left out although Bob owns it.
\<close>

theorem owned_batch_skipped:
  "fst (getUserOwnedBatches
          (sample_outside\<lparr>rpc_fault :=
             \<lambda>a. if a = CallGetCurrentOwner 2 then Some (new_Error ''timeout'') else None\<rparr>)
          ''0xb0b'' sample_world) =
     Inr [\<lparr>info_batchId = 1, info_currentOwner = ''0xB0b'', info_ownerCount = 2,
           info_createdAt = 100, info_lastTransferAt = 200, info_ipfsHash = Some ''QmA'',
           info_metadata = Undefined\<rparr>] \<and>
   getCurrentOwner sample_state 2 = Inr bob \<and>
   owner_matches sample_outside sample_state ''0xb0b'' 2"
proof -
  let ?out = "sample_outside\<lparr>rpc_fault :=
             \<lambda>a. if a = CallGetCurrentOwner 2 then Some (new_Error ''timeout'') else None\<rparr>"
  have o2: "getCurrentOwner sample_state 2 = Inr bob"
    by (simp add: sample_state_eq getCurrentOwner_def batchMustExist_def lastOwner_def)
  have m2: "owner_matches sample_outside sample_state ''0xb0b'' 2"
    by (simp add: owner_matches_def sample_state_eq sample_outside_def ascii_lower_def
        alice_def bob_def)
  have net: "net_reply ?out = Inr 31337"
    and cfg: "getBatchTrackerContract ?out (Some 31337) =
       Inr \<lparr>config_address = ''0x5FbDB2315678afecb367f032d93F642f64180aa3'', config_abi = []\<rparr>"
    by (simp_all add: sample_outside_def getBatchTrackerContract_def)
  have tot: "fst (getTotalBatches_client ?out sample_world) = Inr 2"
    by (simp add: getTotalBatches_client_def getNetwork_def net cfg contract_getTotalBatches_def
        eth_call_def getTotalBatches_def did_def sample_world_def sample_state_eq)
       (simp add: sample_outside_def)
  have r1: "owned_round ?out ''0xb0b'' sample_world 1 =
       [\<lparr>info_batchId = 1, info_currentOwner = ''0xB0b'', info_ownerCount = 2,
           info_createdAt = 100, info_lastTransferAt = 200, info_ipfsHash = Some ''QmA'',
           info_metadata = Undefined\<rparr>]"
    by (simp add: owned_round_def contract_getCurrentOwner_def getBatchInfo_client_def
        contract_getBatchInfo_def getNetwork_def net cfg encode_uint_def eth_call_def
        getCurrentOwner_def getBatchInfo_def batchMustExist_def lastOwner_def did_def
        sample_world_def sample_state_eq)
       (simp add: sample_outside_def ascii_lower_def alice_def bob_def)
  have r2: "owned_round ?out ''0xb0b'' sample_world 2 = []"
    by (simp add: owned_round_def contract_getCurrentOwner_def encode_uint_def eth_call_def
        sample_outside_def)
  from getUserOwnedBatches_returns [OF net cfg tot, of "''0xb0b''"]
  obtain bs where bs: "fst (getUserOwnedBatches ?out ''0xb0b'' sample_world) = Inr bs"
    by blast
  have eq: "getUserOwnedBatches ?out ''0xb0b'' sample_world =
      (fst (getUserOwnedBatches ?out ''0xb0b'' sample_world),
       snd (getUserOwnedBatches ?out ''0xb0b'' sample_world))"
    by simp
  from getUserOwnedBatches_general [OF eq]
  have g: "\<forall>bs. fst (getUserOwnedBatches ?out ''0xb0b'' sample_world) = Inr bs \<longrightarrow>
        (\<exists>tot. fst (getTotalBatches_client ?out sample_world) = Inr tot \<and>
               bs = concat (map (owned_round ?out ''0xb0b'' sample_world) [1 ..< Suc tot]) \<and>
               (tot < 2 ^ 53 \<longrightarrow>
                  filter is_owner_query (performed sample_world
                      (snd (getUserOwnedBatches ?out ''0xb0b'' sample_world))) =
                    map CallGetCurrentOwner [1 ..< Suc tot]))"
    by (rule conjunct2)
  from g bs obtain tot' where
    t: "fst (getTotalBatches_client ?out sample_world) = Inr tot'"
      "bs = concat (map (owned_round ?out ''0xb0b'' sample_world) [1 ..< Suc tot'])"
    by blast
  from t(1) tot have t2: "tot' = 2" by simp
  have ids: "[1 ..< Suc 2] = [1, 2 :: nat]" by (simp add: upt_rec)
  have "concat (map (owned_round ?out ''0xb0b'' sample_world) [1, 2]) =
        [\<lparr>info_batchId = 1, info_currentOwner = ''0xB0b'', info_ownerCount = 2,
           info_createdAt = 100, info_lastTransferAt = 200, info_ipfsHash = Some ''QmA'',
           info_metadata = Undefined\<rparr>]"
    using r1 r2 by simp
  then have "bs = [\<lparr>info_batchId = 1, info_currentOwner = ''0xB0b'', info_ownerCount = 2,
           info_createdAt = 100, info_lastTransferAt = 200, info_ipfsHash = Some ''QmA'',
           info_metadata = Undefined\<rparr>]"
    unfolding t(2) t2 ids .
  with bs o2 m2 show ?thesis by simp
qed

end
